theory Spec2Isabelle
  imports Complex_Main "HOL-Library.Char_ord" "HOL-Library.List_Lexorder"
begin

section \<open>Conventions of the embedding\<close>

text \<open>
  The engine is Python. Its \<open>float\<close> values are modelled as \<^typ>\<open>real\<close> (exact
  arithmetic: rounding, infinities and NaN are not represented, and \<open>math.exp\<close> is the
  real exponential), its \<open>int\<close> values as \<^typ>\<open>int\<close>, its \<open>str\<close> values as
  \<^typ>\<open>string\<close> (a character is a code point below 256), its dictionaries as association lists with distinct keys in
  insertion order, and every exception as a value of \<open>error\<close> on the left of a sum.
  Records that share a field name are told apart by qualified selectors.
\<close>

datatype error =
    IndexError
  | ZeroDivisionError
  | AttributeError string
  | ValueError string

text \<open>Subscripting \<open>xs[i]\<close>: \<open>-1\<close> is the last element, and outside \<open>-len..len-1\<close> it raises.\<close>

definition py_index :: "'a list \<Rightarrow> int \<Rightarrow> error + 'a" where
  "py_index xs i =
     (if 0 \<le> i \<and> i < int (length xs) then Inr (xs ! nat i)
      else if i < 0 \<and> - int (length xs) \<le> i then Inr (xs ! nat (int (length xs) + i))
      else Inl IndexError)"

text \<open>\<open>d.get(k, default)\<close> and \<open>d[k] = v\<close> on an insertion-ordered dictionary.\<close>

definition dict_get :: "(string \<times> real) list \<Rightarrow> string \<Rightarrow> real \<Rightarrow> real" where
  "dict_get d k dflt = (case map_of d k of None \<Rightarrow> dflt | Some v \<Rightarrow> v)"

fun dict_set :: "(string \<times> real) list \<Rightarrow> string \<Rightarrow> real \<Rightarrow> (string \<times> real) list" where
  "dict_set [] k v = [(k, v)]"
| "dict_set ((k', v') # d) k v = (if k' = k then (k, v) # d else (k', v') # dict_set d k v)"

definition startswith :: "string \<Rightarrow> string \<Rightarrow> bool" where
  "startswith s p = (take (length p) s = p)"

text \<open>
  \<open>str.lower\<close> and \<open>str.strip\<close> on code points below 256. The capital letters there
  are A to Z (65 to 90) and the Latin-1 capitals 192 to 222 without the multiplication
  sign 215; each is 32 below its small letter. The characters that \<open>strip\<close> removes
  there are 9 to 13, 28 to 32, 133 (next line) and 160 (no-break space).
\<close>

definition lower_char :: "char \<Rightarrow> char" where
  "lower_char c =
     (let n = (of_char c :: nat)
      in if (65 \<le> n \<and> n \<le> 90) \<or> (192 \<le> n \<and> n \<le> 222 \<and> n \<noteq> 215)
         then char_of (n + 32) else c)"

definition lower :: "string \<Rightarrow> string" where
  "lower s = map lower_char s"

definition is_space :: "char \<Rightarrow> bool" where
  "is_space c =
     (let n = (of_char c :: nat)
      in (9 \<le> n \<and> n \<le> 13) \<or> (28 \<le> n \<and> n \<le> 32) \<or> n = 133 \<or> n = 160)"

definition strip :: "string \<Rightarrow> string" where
  "strip s = rev (dropWhile is_space (rev (dropWhile is_space s)))"

section \<open>Data model (engine/models.py)\<close>

text \<open>The request of the service layer (a pydantic model), as far as the engine reads it.\<close>

record ScenarioRequest =
  lat :: real
  lon :: real
  crop :: string
  area_ha :: real
  start_date :: string
  horizon_hours :: int
  density_plants_m2 :: real
  irrigation_mm_day :: real

record StageParams =
  name :: string
  gdd_target :: "real option"
  dap_target :: "int option"
  kc :: real
  rue :: real
  lai_gain :: real
  partition :: "(string \<times> real) list"
  nuptake_target :: "(string \<times> real) list"

record CropParams =
  species :: string
  cultivar :: string
  tb :: real
  to :: real
  lai_max :: real
  hi :: real
  stages :: "StageParams list"
  stress_sensitivity :: "(string \<times> real) list"

record SoilLayer =
  depth_cm :: int
  fc :: real
  wp :: real
  ks :: real
  om_pct :: real
  ph :: real

record SoilProfile =
  layers :: "SoilLayer list"
  runoff_threshold_mm :: real

definition rootzone_capacity :: "SoilProfile \<Rightarrow> real" where
  "rootzone_capacity soil = sum_list (map (\<lambda>ly. max 0 (fc ly)) (layers soil))"

record Management =
  plant_date :: string
  density_plants_m2 :: real
  irrigation_mm_day :: real
  fert_events :: "(string \<times> (string \<times> real) list) list"

record WeatherDay =
  date :: string
  tmin :: real
  tmax :: real
  rain :: real
  rad :: real
  et0 :: "real option"
  wind :: "real option"
  rh :: "real option"

record FieldConfig =
  id_cfg :: string
  name :: string
  area_ha :: real
  soil :: SoilProfile
  crop :: CropParams
  management :: Management

record DayResult =
  date :: string
  stage :: string
  lai :: real
  biomass_dm_kg_ha :: real
  soil_water_mm :: real
  stress_w :: real
  stress_n :: real
  n_stock_kg_ha :: real
  p_stock_kg_ha :: real
  k_stock_kg_ha :: real
  gdd_progress :: "real option"
  gdd_target :: "real option"
  crop :: "string option"

record RunResult =
  field_id :: string
  series :: "DayResult list"
  yield_t_ha :: "real option"
  harvest_date :: "string option"
  grade :: "string option"

record HarvestTask =
  field_id :: string
  crop :: string
  planned_date :: string
  expected_yield_t_ha :: real
  maturity_ratio :: real
  ripe_color :: string
  actual_yield_t_ha :: "real option"
  completed :: bool
  "notes" :: "string option"

definition is_ready :: "HarvestTask \<Rightarrow> bool" where
  "is_ready t = (0.9 \<le> HarvestTask.maturity_ratio t)"

record HarvestPlanner =
  tasks :: "HarvestTask list"

record FieldZone =
  id_zone :: string
  label :: string
  x_zone :: real
  y_zone :: real
  width :: real
  height :: real
  rotation :: real
  crop :: "string option"
  soil_type :: "string option"
  color :: "string option"
  moisture_status :: "real option"
  growth_stage :: "string option"
  maturity_ratio :: "real option"

record FarmLayout =
  id_layout :: string
  name :: string
  zones :: "FieldZone list"
  harvests :: HarvestPlanner

record HarvestManager =
  planner :: HarvestPlanner
  layout :: FarmLayout

text \<open>One entry of the list that \<open>plan_schedule\<close> returns.\<close>

record PlanItem =
  field_id :: string
  crop :: string
  planned_date :: string
  expected_yield_t :: real
  grade :: string
  maturity_ratio :: real
  ripe_color :: string

text \<open>The mutable per-field state; declared last so that plain update syntax is its own.\<close>

record FieldState =
  date :: string
  stage_index :: int
  gdd_accum :: real
  dap :: int
  lai :: real
  biomass_dm_kg_ha :: real
  soil_water_mm :: real
  stress_w :: real
  stress_n :: real
  n_stock_kg_ha :: real
  p_stock_kg_ha :: real
  k_stock_kg_ha :: real
  "notes" :: "(string \<times> real) list"

text \<open>\<open>FieldState(date=d, soil_water_mm=sw)\<close>: every other field takes its default.\<close>

definition new_FieldState :: "string \<Rightarrow> real \<Rightarrow> FieldState" where
  "new_FieldState d sw =
     \<lparr>FieldState.date = d, stage_index = 0, gdd_accum = 0, dap = 0, lai = 0.05,
      biomass_dm_kg_ha = 0, soil_water_mm = sw, stress_w = 1, stress_n = 1,
      n_stock_kg_ha = 0, p_stock_kg_ha = 0, k_stock_kg_ha = 0, notes = []\<rparr>"

section \<open>Daily step (engine/sim.py)\<close>

definition gdd_day :: "real \<Rightarrow> real \<Rightarrow> real \<Rightarrow> real" where
  "gdd_day tmin' tmax' tb' = max 0 (((tmin' + tmax') / 2) - tb')"

definition etc_from_kc :: "real \<Rightarrow> real \<Rightarrow> real" where
  "etc_from_kc et0' kc' = max 0 (et0' * kc')"

fun crop_stage_prefix :: "string \<Rightarrow> StageParams list \<Rightarrow> StageParams list" where
  "crop_stage_prefix nm [] = []"
| "crop_stage_prefix nm (s # ss) =
     s # (if StageParams.name s = nm then [] else crop_stage_prefix nm ss)"

text \<open>\<open>_advance_stage\<close>: at most one increment, and only below the last stage.\<close>

definition advance_stage :: "FieldState \<Rightarrow> CropParams \<Rightarrow> error + FieldState" where
  "advance_stage st c =
     (case py_index (stages c) (stage_index st) of
        Inl e \<Rightarrow> Inl e
      | Inr stg \<Rightarrow>
          (let cond = (case StageParams.gdd_target stg of
                         Some g \<Rightarrow> g \<le> gdd_accum st
                       | None \<Rightarrow> (case dap_target stg of
                                    Some d \<Rightarrow> d \<le> dap st
                                  | None \<Rightarrow> False))
           in if cond \<and> stage_index st < int (length (stages c)) - 1
              then Inr (st\<lparr>stage_index := stage_index st + 1\<rparr>)
              else Inr st))"

text \<open>\<open>_water_balance\<close>: returns the state with the transpiration and evaporation.\<close>

definition water_balance ::
  "FieldState \<Rightarrow> SoilProfile \<Rightarrow> real \<Rightarrow> real \<Rightarrow> error + (FieldState \<times> real \<times> real)" where
  "water_balance st sl inflow_mm etc_pot =
     (let runoff = max 0 (inflow_mm - runoff_threshold_mm sl) * 0.3;
          sw1 = min (soil_water_mm st + (inflow_mm - runoff)) (rootzone_capacity sl);
          transp_pot = etc_pot * min 1 (lai st / 3);
          transp_act = min transp_pot sw1;
          sw2 = sw1 - transp_act;
          soil_evap0 = max 0 (etc_pot - transp_act) * (1 - min 1 (lai st / 3));
          soil_evap = min soil_evap0 sw2;
          sw3 = sw2 - soil_evap
      in if transp_pot + 1 / 1000000 = 0 then Inl ZeroDivisionError
         else Inr (st\<lparr>soil_water_mm := sw3,
                       stress_w := max 0.001
                         (min 1 ((transp_act + 1 / 1000000) / (transp_pot + 1 / 1000000)))\<rparr>,
                   transp_act, soil_evap))"

text \<open>\<open>getattr\<close>/\<open>setattr\<close> on the attribute \<open>"<key>_stock_kg_ha"\<close>.\<close>

definition get_stock :: "FieldState \<Rightarrow> string \<Rightarrow> error + real" where
  "get_stock st k =
     (if k = ''n'' then Inr (n_stock_kg_ha st)
      else if k = ''p'' then Inr (p_stock_kg_ha st)
      else if k = ''k'' then Inr (k_stock_kg_ha st)
      else Inl (AttributeError (k @ ''_stock_kg_ha'')))"

definition set_stock :: "FieldState \<Rightarrow> string \<Rightarrow> real \<Rightarrow> FieldState" where
  "set_stock st k v =
     (if k = ''n'' then st\<lparr>n_stock_kg_ha := v\<rparr>
      else if k = ''p'' then st\<lparr>p_stock_kg_ha := v\<rparr>
      else st\<lparr>k_stock_kg_ha := v\<rparr>)"

fun nutrient_loop ::
  "FieldState \<Rightarrow> string \<Rightarrow> real \<Rightarrow> (string \<times> real) list \<Rightarrow> error + FieldState" where
  "nutrient_loop st nm cap [] = Inr st"
| "nutrient_loop st nm cap ((key, target) # rest) =
     (case get_stock st (lower key) of
        Inl e \<Rightarrow> Inl e
      | Inr stock \<Rightarrow>
          (let note_key = key @ ''_taken_'' @ nm;
               taken_so_far = dict_get (notes st) note_key 0;
               needed = max 0 (target - taken_so_far);
               take = min cap needed * stress_w st;
               st1 = set_stock st (lower key) (stock + take);
               st2 = st1\<lparr>notes := dict_set (notes st1) note_key (taken_so_far + take)\<rparr>
           in nutrient_loop st2 nm cap rest))"

definition nutrients ::
  "FieldState \<Rightarrow> StageParams \<Rightarrow> CropParams \<Rightarrow> real \<Rightarrow> error + FieldState" where
  "nutrients st stg c daily_uptake_cap =
     (case nutrient_loop st (StageParams.name stg) daily_uptake_cap (nuptake_target stg) of
        Inl e \<Rightarrow> Inl e
      | Inr st1 \<Rightarrow>
          (let demanded = sum_list (map (\<lambda>s. dict_get (nuptake_target s) ''N'' 0)
                                      (crop_stage_prefix (StageParams.name stg) (stages c)));
               taken = sum_list (map snd (filter (\<lambda>kv. startswith (fst kv) ''N_taken_'')
                                                 (notes st1)));
               ratio = (if 0 < demanded
                        then min 1 ((taken + 1 / 1000000) / (demanded + 1 / 1000000))
                        else 1)
           in Inr (st1\<lparr>stress_n := max 0.4 ratio\<rparr>)))"

definition step_day :: "FieldConfig \<Rightarrow> FieldState \<Rightarrow> WeatherDay \<Rightarrow> error + FieldState" where
  "step_day fld st w =
     (let c = FieldConfig.crop fld in
      case py_index (stages c) (stage_index st) of
        Inl e \<Rightarrow> Inl e
      | Inr stg \<Rightarrow>
          (let st1 = st\<lparr>date := WeatherDay.date w, dap := dap st + 1,
                         gdd_accum := gdd_accum st + gdd_day (tmin w) (tmax w) (tb c)\<rparr>;
               et0v = (case et0 w of
                         Some e \<Rightarrow> e
                       | None \<Rightarrow> max 2 (0.0023 * (tmax w - tmin w) * ((tmin w + tmax w) / 2) + 2));
               etc = etc_from_kc et0v (kc stg);
               inflow = rain w + irrigation_mm_day (management fld)
           in case water_balance st1 (soil fld) inflow etc of
                Inl e \<Rightarrow> Inl e
              | Inr (st2, transp_act, soil_evap) \<Rightarrow>
                  (case nutrients st2 stg c 8 of
                     Inl e \<Rightarrow> Inl e
                   | Inr st3 \<Rightarrow>
                       if lai_max c = 0 then Inl ZeroDivisionError
                       else
                         (let gain = lai_gain stg * lai st3 * (1 - lai st3 / lai_max c)
                                       * stress_w st3 * stress_n st3;
                              st4 = st3\<lparr>lai := min (lai_max c) (lai st3 + gain)\<rparr>;
                              apar = rad w * (1 - exp (- 0.65 * lai st4));
                              dB = rue stg * apar * stress_w st4 * stress_n st4;
                              st5 = st4\<lparr>biomass_dm_kg_ha := biomass_dm_kg_ha st4 + dB\<rparr>
                          in advance_stage st5 c))))"

section \<open>Yield estimator (engine/harvest.py)\<close>

text \<open>\<open>_stage_min\<close>: the least water stress among the days labelled with the stage.\<close>

definition stage_min :: "DayResult list \<Rightarrow> string \<Rightarrow> real" where
  "stage_min ser stage_name =
     (let vals = map DayResult.stress_w (filter (\<lambda>d. stage d = stage_name) ser)
      in min_list (if vals = [] then [1] else vals))"

definition estimate_yield ::
  "FieldConfig \<Rightarrow> DayResult list \<Rightarrow> error + (real \<times> string \<times> string)" where
  "estimate_yield fld ser =
     (let c = FieldConfig.crop fld;
          stage_names = map stage ser;
          flower_min = (if ''flowering'' \<in> set stage_names
                        then stage_min ser ''flowering'' else 1);
          grain_min = (if ''grainfill'' \<in> set stage_names
                       then stage_min ser ''grainfill'' else 1)
      in case py_index ser (- 1) of
           Inl e \<Rightarrow> Inl e
         | Inr final \<Rightarrow>
             (let biomass = DayResult.biomass_dm_kg_ha final;
                  hi_penalty = 1
                    - dict_get (stress_sensitivity c) ''flower_water'' 0 * (1 - flower_min)
                    - dict_get (stress_sensitivity c) ''grainfill_water'' 0 * (1 - grain_min);
                  hi_eff = max 0.3 (min 1 (hi c * hi_penalty));
                  yield = (biomass * hi_eff) / 1000;
                  maturity_idx =
                    (case find (\<lambda>(i, d). (stage d = ''maturity'' \<or> stage d = ''grainfill'') \<and> 0 < i)
                               (enumerate 0 ser) of
                       Some (i, d) \<Rightarrow> int i
                     | None \<Rightarrow> int (length ser) - 1)
              in case py_index ser maturity_idx of
                   Inl e \<Rightarrow> Inl e
                 | Inr hday \<Rightarrow>
                     (let avg_stress = (flower_min + grain_min) / 2;
                          g = (if 0.8 < avg_stress then ''A''
                               else if 0.6 < avg_stress then ''B'' else ''C'')
                      in Inr (yield, DayResult.date hday, g))))"

section \<open>Single-field run (engine/sim.py)\<close>

text \<open>
  The record appended to the series after a day's step. The local \<open>maturity\<close> that the
  loop computes beside it is never read, and its divisor
  \<open>gdd_target or gdd_accum or 1.0\<close> is never zero, so it is left out.
\<close>

definition day_result :: "FieldConfig \<Rightarrow> FieldState \<Rightarrow> WeatherDay \<Rightarrow> error + DayResult" where
  "day_result fld st w =
     (let c = FieldConfig.crop fld in
      case py_index (stages c) (stage_index st) of
        Inl e \<Rightarrow> Inl e
      | Inr stg \<Rightarrow>
          (case py_index (stages c) (- 1) of
             Inl e \<Rightarrow> Inl e
           | Inr lst \<Rightarrow>
               Inr \<lparr>DayResult.date = WeatherDay.date w,
                    stage = StageParams.name stg,
                    lai = lai st,
                    biomass_dm_kg_ha = biomass_dm_kg_ha st,
                    soil_water_mm = soil_water_mm st,
                    stress_w = stress_w st,
                    stress_n = stress_n st,
                    n_stock_kg_ha = n_stock_kg_ha st,
                    p_stock_kg_ha = p_stock_kg_ha st,
                    k_stock_kg_ha = k_stock_kg_ha st,
                    gdd_progress = Some (gdd_accum st),
                    gdd_target = StageParams.gdd_target lst,
                    crop = Some (species c)\<rparr>))"

text \<open>
  The loop of \<open>run_field\<close>: each day steps the state and appends one record. The state
  reached after each day is kept beside its record.
\<close>

fun run_loop ::
  "FieldConfig \<Rightarrow> FieldState \<Rightarrow> WeatherDay list \<Rightarrow> error + (FieldState \<times> DayResult) list" where
  "run_loop fld st [] = Inr []"
| "run_loop fld st (w # ws) =
     (case step_day fld st w of
        Inl e \<Rightarrow> Inl e
      | Inr st' \<Rightarrow>
          (case day_result fld st' w of
             Inl e \<Rightarrow> Inl e
           | Inr d \<Rightarrow>
               (case run_loop fld st' ws of
                  Inl e \<Rightarrow> Inl e
                | Inr rest \<Rightarrow> Inr ((st', d) # rest))))"

definition initial_state :: "FieldConfig \<Rightarrow> WeatherDay \<Rightarrow> FieldState" where
  "initial_state fld w0 =
     new_FieldState (WeatherDay.date w0) (min 120 (rootzone_capacity (soil fld)))"

definition run_field :: "FieldConfig \<Rightarrow> WeatherDay list \<Rightarrow> error + RunResult" where
  "run_field fld weather =
     (case weather of
        [] \<Rightarrow> Inl IndexError
      | w0 # _ \<Rightarrow>
          (case run_loop fld (initial_state fld w0) weather of
             Inl e \<Rightarrow> Inl e
           | Inr tr \<Rightarrow>
               (case estimate_yield fld (map snd tr) of
                  Inl e \<Rightarrow> Inl e
                | Inr (y, hdate, g) \<Rightarrow>
                    Inr \<lparr>RunResult.field_id = id_cfg fld, series = map snd tr,
                         yield_t_ha = Some y, harvest_date = Some hdate,
                         grade = Some g\<rparr>)))"

section \<open>Harvest scheduler (engine/models.py, engine/harvest.py)\<close>

text \<open>\<open>HarvestPlanner.add_task\<close>: a task whose field and crop are already listed is dropped.\<close>

definition same_pair :: "HarvestTask \<Rightarrow> HarvestTask \<Rightarrow> bool" where
  "same_pair t task = (HarvestTask.field_id t = HarvestTask.field_id task
                       \<and> HarvestTask.crop t = HarvestTask.crop task)"


definition add_task :: "HarvestPlanner \<Rightarrow> HarvestTask \<Rightarrow> HarvestPlanner" where
  "add_task pl task =
     (if list_ex (\<lambda>t. same_pair t task) (tasks pl)
      then pl
      else pl\<lparr>tasks := tasks pl @ [task]\<rparr>)"

text \<open>\<open>FarmLayout.update_zone_growth\<close>: only the first zone with the id is recoloured.\<close>

fun update_zones :: "FieldZone list \<Rightarrow> string \<Rightarrow> real \<Rightarrow> real \<Rightarrow> FieldZone list" where
  "update_zones [] fid maturity water_stress = []"
| "update_zones (z # zs) fid maturity water_stress =
     (if id_zone z = fid
      then (let base_color = (if maturity < 0.3 then ''#66bb6a''
                              else if maturity < 0.7 then ''#fbc02d'' else ''#e53935'')
            in z\<lparr>FieldZone.maturity_ratio := Some maturity,
                  color := Some (if water_stress < 0.6 then ''#8b4513'' else base_color)\<rparr> # zs)
      else z # update_zones zs fid maturity water_stress)"

definition update_zone_growth :: "FarmLayout \<Rightarrow> string \<Rightarrow> real \<Rightarrow> real \<Rightarrow> FarmLayout" where
  "update_zone_growth lay fid maturity water_stress =
     lay\<lparr>zones := update_zones (zones lay) fid maturity water_stress\<rparr>"

text \<open>
  \<open>HarvestManager.register_field_result\<close> mutates the manager; the manager it leaves
  behind is returned together with the exception, if one was raised (\<open>series[-1]\<close> on an
  empty series, after the task was added).
\<close>

definition register_field_result ::
  "HarvestManager \<Rightarrow> string \<Rightarrow> string \<Rightarrow> DayResult list \<Rightarrow> real \<Rightarrow> string \<Rightarrow> real
     \<Rightarrow> HarvestManager \<times> error option" where
  "register_field_result mgr fid crp ser yld hdate maturity =
     (let task = \<lparr>HarvestTask.field_id = fid, crop = crp, planned_date = hdate,
                  expected_yield_t_ha = yld, maturity_ratio = maturity,
                  ripe_color = ''#e53935'', actual_yield_t_ha = None, completed = False,
                  notes = None\<rparr>;
          mgr1 = mgr\<lparr>planner := add_task (planner mgr) task\<rparr>
      in case py_index ser (- 1) of
           Inl e \<Rightarrow> (mgr1, Some e)
         | Inr final \<Rightarrow>
             (mgr1\<lparr>layout := update_zone_growth (layout mgr1) fid maturity
                                  (DayResult.stress_w final)\<rparr>, None))"

text \<open>\<open>round(v, 2)\<close> in exact arithmetic: to the nearest hundredth, ties to even.\<close>

definition py_round2 :: "real \<Rightarrow> real" where
  "py_round2 v =
     (let y = v * 100; f = \<lfloor>y\<rfloor>; r = y - of_int f
      in of_int (if r < 1 / 2 then f
                 else if 1 / 2 < r then f + 1
                 else if even f then f else f + 1) / 100)"

definition plan_item :: "HarvestTask \<Rightarrow> PlanItem" where
  "plan_item t =
     \<lparr>PlanItem.field_id = HarvestTask.field_id t,
      crop = HarvestTask.crop t,
      planned_date = HarvestTask.planned_date t,
      expected_yield_t = py_round2 (expected_yield_t_ha t),
      grade = (if is_ready t then ''A'' else ''B''),
      maturity_ratio = HarvestTask.maturity_ratio t,
      ripe_color = (if HarvestTask.maturity_ratio t < 0.3 then ''#66bb6a''
                    else if HarvestTask.maturity_ratio t < 0.7 then ''#fbc02d''
                    else ''#e53935'')\<rparr>"

text \<open>
  The loop of \<open>plan_schedule\<close> over the sorted tasks: the item is appended, the capacity
  is reduced, and the loop breaks once the capacity is used up. \<open>planned_tasks\<close> runs the
  same loop and keeps the tasks instead of the items built from them.
\<close>

fun plan_loop :: "real \<Rightarrow> HarvestTask list \<Rightarrow> PlanItem list" where
  "plan_loop capacity [] = []"
| "plan_loop capacity (t # ts) =
     plan_item t #
       (if capacity - expected_yield_t_ha t \<le> 0 then []
        else plan_loop (capacity - expected_yield_t_ha t) ts)"

fun planned_tasks :: "real \<Rightarrow> HarvestTask list \<Rightarrow> HarvestTask list" where
  "planned_tasks capacity [] = []"
| "planned_tasks capacity (t # ts) =
     t # (if capacity - expected_yield_t_ha t \<le> 0 then []
          else planned_tasks (capacity - expected_yield_t_ha t) ts)"

text \<open>\<open>sorted(tasks, key=planned_date)\<close> is stable, as \<open>sort_key\<close> is.\<close>

definition plan_schedule :: "HarvestManager \<Rightarrow> real \<Rightarrow> PlanItem list" where
  "plan_schedule mgr storage_capacity_t =
     plan_loop storage_capacity_t
       (sort_key HarvestTask.planned_date (tasks (planner mgr)))"

section \<open>Crop catalog (engine/params.py)\<close>

definition maize_defaults :: CropParams where
  "maize_defaults =
     \<lparr>species = ''maize'', cultivar = ''DMR-Early'',
      tb = 8.0, to = 30.0, lai_max = 5.0, hi = 0.48,
      stages =
      [\<lparr>StageParams.name = ''incubation'', gdd_target = Some 80, dap_target = None,
        kc = 0.35, rue = 0.8, lai_gain = 0.10,
        partition = [(''leaf'', 0.6), (''stem'', 0.4), (''root'', 0.0), (''storage'', 0.0)],
        nuptake_target = [(''N'', 15), (''P'', 5), (''K'', 10)]\<rparr>,
       \<lparr>StageParams.name = ''vegetative'', gdd_target = Some 650, dap_target = None,
        kc = 1.05, rue = 1.6, lai_gain = 0.16,
        partition = [(''leaf'', 0.45), (''stem'', 0.40), (''root'', 0.15), (''storage'', 0.0)],
        nuptake_target = [(''N'', 80), (''P'', 20), (''K'', 60)]\<rparr>,
       \<lparr>StageParams.name = ''flowering'', gdd_target = Some 850, dap_target = None,
        kc = 1.20, rue = 1.7, lai_gain = 0.10,
        partition = [(''leaf'', 0.25), (''stem'', 0.35), (''root'', 0.10), (''storage'', 0.30)],
        nuptake_target = [(''N'', 40), (''P'', 10), (''K'', 30)]\<rparr>,
       \<lparr>StageParams.name = ''grainfill'', gdd_target = Some 1200, dap_target = None,
        kc = 0.95, rue = 1.4, lai_gain = 0.06,
        partition = [(''leaf'', 0.10), (''stem'', 0.15), (''root'', 0.05), (''storage'', 0.70)],
        nuptake_target = [(''N'', 20), (''P'', 5), (''K'', 15)]\<rparr>,
       \<lparr>StageParams.name = ''maturity'', gdd_target = None, dap_target = None,
        kc = 0.6, rue = 0.5, lai_gain = 0.00,
        partition = [(''leaf'', 0.0), (''stem'', 0.0), (''root'', 0.0), (''storage'', 1.0)],
        nuptake_target = [(''N'', 0), (''P'', 0), (''K'', 0)]\<rparr>],
      stress_sensitivity = [(''flower_water'', 0.6), (''grainfill_water'', 0.4), (''n'', 0.5)]\<rparr>"

definition rice_defaults :: CropParams where
  "rice_defaults =
     \<lparr>species = ''rice'', cultivar = ''IR-64'',
      tb = 10.0, to = 30.0, lai_max = 6.0, hi = 0.50,
      stages =
      [\<lparr>StageParams.name = ''nursery'', gdd_target = None, dap_target = Some 20,
        kc = 1.0, rue = 1.5, lai_gain = 0.10,
        partition = [(''leaf'', 0.5), (''stem'', 0.4), (''root'', 0.1), (''storage'', 0.0)],
        nuptake_target = [(''N'', 25), (''P'', 10), (''K'', 25)]\<rparr>,
       \<lparr>StageParams.name = ''vegetative'', gdd_target = None, dap_target = Some 60,
        kc = 1.1, rue = 1.8, lai_gain = 0.15,
        partition = [(''leaf'', 0.4), (''stem'', 0.4), (''root'', 0.2), (''storage'', 0.0)],
        nuptake_target = [(''N'', 60), (''P'', 20), (''K'', 50)]\<rparr>,
       \<lparr>StageParams.name = ''flowering'', gdd_target = None, dap_target = Some 90,
        kc = 1.2, rue = 1.9, lai_gain = 0.08,
        partition = [(''leaf'', 0.2), (''stem'', 0.3), (''root'', 0.1), (''storage'', 0.4)],
        nuptake_target = [(''N'', 30), (''P'', 10), (''K'', 30)]\<rparr>,
       \<lparr>StageParams.name = ''grainfill'', gdd_target = None, dap_target = Some 120,
        kc = 1.1, rue = 1.5, lai_gain = 0.06,
        partition = [(''leaf'', 0.1), (''stem'', 0.1), (''root'', 0.05), (''storage'', 0.75)],
        nuptake_target = [(''N'', 20), (''P'', 6), (''K'', 25)]\<rparr>,
       \<lparr>StageParams.name = ''maturity'', gdd_target = None, dap_target = None,
        kc = 0.8, rue = 0.9, lai_gain = 0.00,
        partition = [(''leaf'', 0.0), (''stem'', 0.0), (''root'', 0.0), (''storage'', 1.0)],
        nuptake_target = [(''N'', 0), (''P'', 0), (''K'', 0)]\<rparr>],
      stress_sensitivity = [(''flower_water'', 0.7), (''grainfill_water'', 0.5), (''n'', 0.45)]\<rparr>"

definition sorghum_defaults :: CropParams where
  "sorghum_defaults =
     \<lparr>species = ''sorghum'', cultivar = ''Macia'',
      tb = 8.0, to = 32.0, lai_max = 4.5, hi = 0.45,
      stages =
      [\<lparr>StageParams.name = ''emergence'', gdd_target = None, dap_target = Some 10,
        kc = 0.4, rue = 1.0, lai_gain = 0.08,
        partition = [(''leaf'', 0.7), (''stem'', 0.2), (''root'', 0.1), (''storage'', 0.0)],
        nuptake_target = [(''N'', 10), (''P'', 4), (''K'', 15)]\<rparr>,
       \<lparr>StageParams.name = ''vegetative'', gdd_target = None, dap_target = Some 45,
        kc = 1.05, rue = 1.6, lai_gain = 0.15,
        partition = [(''leaf'', 0.45), (''stem'', 0.35), (''root'', 0.20), (''storage'', 0.0)],
        nuptake_target = [(''N'', 50), (''P'', 15), (''K'', 40)]\<rparr>,
       \<lparr>StageParams.name = ''flowering'', gdd_target = None, dap_target = Some 75,
        kc = 1.2, rue = 1.7, lai_gain = 0.08,
        partition = [(''leaf'', 0.25), (''stem'', 0.25), (''root'', 0.10), (''storage'', 0.40)],
        nuptake_target = [(''N'', 30), (''P'', 8), (''K'', 30)]\<rparr>,
       \<lparr>StageParams.name = ''grainfill'', gdd_target = None, dap_target = Some 105,
        kc = 1.0, rue = 1.4, lai_gain = 0.05,
        partition = [(''leaf'', 0.10), (''stem'', 0.10), (''root'', 0.05), (''storage'', 0.75)],
        nuptake_target = [(''N'', 15), (''P'', 5), (''K'', 20)]\<rparr>,
       \<lparr>StageParams.name = ''maturity'', gdd_target = None, dap_target = None,
        kc = 0.85, rue = 0.8, lai_gain = 0.00,
        partition = [(''leaf'', 0.0), (''stem'', 0.0), (''root'', 0.0), (''storage'', 1.0)],
        nuptake_target = [(''N'', 0), (''P'', 0), (''K'', 0)]\<rparr>],
      stress_sensitivity = [(''flower_water'', 0.6), (''grainfill_water'', 0.4), (''n'', 0.5)]\<rparr>"

definition cassava_defaults :: CropParams where
  "cassava_defaults =
     \<lparr>species = ''cassava'', cultivar = ''Local-12m'',
      tb = 12.0, to = 30.0, lai_max = 4.0, hi = 0.55,
      stages =
      [\<lparr>StageParams.name = ''incubation'', gdd_target = None, dap_target = Some 15,
        kc = 0.4, rue = 0.9, lai_gain = 0.09,
        partition = [(''leaf'', 0.6), (''stem'', 0.3), (''root'', 0.1), (''storage'', 0.0)],
        nuptake_target = [(''N'', 10), (''P'', 5), (''K'', 15)]\<rparr>,
       \<lparr>StageParams.name = ''vegetative'', gdd_target = None, dap_target = Some 120,
        kc = 1.0, rue = 1.5, lai_gain = 0.14,
        partition = [(''leaf'', 0.45), (''stem'', 0.35), (''root'', 0.20), (''storage'', 0.0)],
        nuptake_target = [(''N'', 60), (''P'', 20), (''K'', 80)]\<rparr>,
       \<lparr>StageParams.name = ''bulking'', gdd_target = None, dap_target = Some 300,
        kc = 1.05, rue = 1.4, lai_gain = 0.08,
        partition = [(''leaf'', 0.20), (''stem'', 0.25), (''root'', 0.15), (''storage'', 0.40)],
        nuptake_target = [(''N'', 30), (''P'', 10), (''K'', 60)]\<rparr>,
       \<lparr>StageParams.name = ''maturity'', gdd_target = None, dap_target = Some 360,
        kc = 0.9, rue = 1.0, lai_gain = 0.02,
        partition = [(''leaf'', 0.05), (''stem'', 0.10), (''root'', 0.10), (''storage'', 0.75)],
        nuptake_target = [(''N'', 10), (''P'', 5), (''K'', 20)]\<rparr>],
      stress_sensitivity = [(''flower_water'', 0.3), (''grainfill_water'', 0.3), (''n'', 0.4)]\<rparr>"

definition yams_defaults :: CropParams where
  "yams_defaults =
     \<lparr>species = ''yam'', cultivar = ''White Yam'',
      tb = 12.0, to = 30.0, lai_max = 4.5, hi = 0.60,
      stages =
      [\<lparr>StageParams.name = ''sprouting'', gdd_target = None, dap_target = Some 20,
        kc = 0.5, rue = 1.0, lai_gain = 0.08,
        partition = [(''leaf'', 0.6), (''stem'', 0.3), (''root'', 0.1), (''storage'', 0.0)],
        nuptake_target = [(''N'', 15), (''P'', 6), (''K'', 20)]\<rparr>,
       \<lparr>StageParams.name = ''vegetative'', gdd_target = None, dap_target = Some 100,
        kc = 1.0, rue = 1.6, lai_gain = 0.14,
        partition = [(''leaf'', 0.45), (''stem'', 0.35), (''root'', 0.20), (''storage'', 0.0)],
        nuptake_target = [(''N'', 70), (''P'', 25), (''K'', 60)]\<rparr>,
       \<lparr>StageParams.name = ''tuberization'', gdd_target = None, dap_target = Some 240,
        kc = 1.05, rue = 1.4, lai_gain = 0.08,
        partition = [(''leaf'', 0.20), (''stem'', 0.25), (''root'', 0.15), (''storage'', 0.40)],
        nuptake_target = [(''N'', 35), (''P'', 12), (''K'', 50)]\<rparr>,
       \<lparr>StageParams.name = ''maturity'', gdd_target = None, dap_target = Some 300,
        kc = 0.9, rue = 1.0, lai_gain = 0.02,
        partition = [(''leaf'', 0.05), (''stem'', 0.10), (''root'', 0.10), (''storage'', 0.75)],
        nuptake_target = [(''N'', 10), (''P'', 4), (''K'', 15)]\<rparr>],
      stress_sensitivity = [(''flower_water'', 0.4), (''grainfill_water'', 0.3), (''n'', 0.4)]\<rparr>"

definition tomato_defaults :: CropParams where
  "tomato_defaults =
     \<lparr>species = ''tomato'', cultivar = ''Field-Det'',
      tb = 10.0, to = 28.0, lai_max = 4.5, hi = 0.65,
      stages =
      [\<lparr>StageParams.name = ''incubation'', gdd_target = Some 80, dap_target = None,
        kc = 0.5, rue = 1.2, lai_gain = 0.10,
        partition = [(''leaf'', 0.6), (''stem'', 0.35), (''root'', 0.05), (''storage'', 0.0)],
        nuptake_target = [(''N'', 20), (''P'', 8), (''K'', 18)]\<rparr>,
       \<lparr>StageParams.name = ''vegetative'', gdd_target = Some 400, dap_target = None,
        kc = 1.05, rue = 1.6, lai_gain = 0.16,
        partition = [(''leaf'', 0.45), (''stem'', 0.35), (''root'', 0.20), (''storage'', 0.0)],
        nuptake_target = [(''N'', 60), (''P'', 20), (''K'', 60)]\<rparr>,
       \<lparr>StageParams.name = ''flowering'', gdd_target = Some 600, dap_target = None,
        kc = 1.15, rue = 1.7, lai_gain = 0.10,
        partition = [(''leaf'', 0.25), (''stem'', 0.25), (''root'', 0.10), (''storage'', 0.40)],
        nuptake_target = [(''N'', 30), (''P'', 10), (''K'', 40)]\<rparr>,
       \<lparr>StageParams.name = ''fruitfill'', gdd_target = Some 900, dap_target = None,
        kc = 1.15, rue = 1.5, lai_gain = 0.06,
        partition = [(''leaf'', 0.10), (''stem'', 0.15), (''root'', 0.05), (''storage'', 0.70)],
        nuptake_target = [(''N'', 20), (''P'', 8), (''K'', 50)]\<rparr>,
       \<lparr>StageParams.name = ''maturity'', gdd_target = None, dap_target = None,
        kc = 0.9, rue = 0.8, lai_gain = 0.00,
        partition = [(''leaf'', 0.0), (''stem'', 0.0), (''root'', 0.0), (''storage'', 1.0)],
        nuptake_target = [(''N'', 0), (''P'', 0), (''K'', 0)]\<rparr>],
      stress_sensitivity = [(''flower_water'', 0.6), (''grainfill_water'', 0.5), (''n'', 0.5)]\<rparr>"

definition pepper_defaults :: CropParams where
  "pepper_defaults =
     \<lparr>species = ''pepper'', cultivar = ''Capsicum-Field'',
      tb = 10.0, to = 28.0, lai_max = 4.0, hi = 0.60,
      stages =
      [\<lparr>StageParams.name = ''incubation'', gdd_target = Some 90, dap_target = None,
        kc = 0.5, rue = 1.1, lai_gain = 0.09,
        partition = [(''leaf'', 0.6), (''stem'', 0.35), (''root'', 0.05), (''storage'', 0.0)],
        nuptake_target = [(''N'', 18), (''P'', 7), (''K'', 16)]\<rparr>,
       \<lparr>StageParams.name = ''vegetative'', gdd_target = Some 420, dap_target = None,
        kc = 1.0, rue = 1.5, lai_gain = 0.15,
        partition = [(''leaf'', 0.45), (''stem'', 0.35), (''root'', 0.20), (''storage'', 0.0)],
        nuptake_target = [(''N'', 55), (''P'', 18), (''K'', 55)]\<rparr>,
       \<lparr>StageParams.name = ''flowering'', gdd_target = Some 620, dap_target = None,
        kc = 1.1, rue = 1.6, lai_gain = 0.10,
        partition = [(''leaf'', 0.20), (''stem'', 0.25), (''root'', 0.10), (''storage'', 0.45)],
        nuptake_target = [(''N'', 25), (''P'', 9), (''K'', 35)]\<rparr>,
       \<lparr>StageParams.name = ''fruitfill'', gdd_target = Some 950, dap_target = None,
        kc = 1.1, rue = 1.4, lai_gain = 0.06,
        partition = [(''leaf'', 0.10), (''stem'', 0.15), (''root'', 0.05), (''storage'', 0.70)],
        nuptake_target = [(''N'', 18), (''P'', 7), (''K'', 40)]\<rparr>,
       \<lparr>StageParams.name = ''maturity'', gdd_target = None, dap_target = None,
        kc = 0.9, rue = 0.8, lai_gain = 0.00,
        partition = [(''leaf'', 0.0), (''stem'', 0.0), (''root'', 0.0), (''storage'', 1.0)],
        nuptake_target = [(''N'', 0), (''P'', 0), (''K'', 0)]\<rparr>],
      stress_sensitivity = [(''flower_water'', 0.55), (''grainfill_water'', 0.45), (''n'', 0.45)]\<rparr>"

definition onion_defaults :: CropParams where
  "onion_defaults =
     \<lparr>species = ''onion'', cultivar = ''Bulb-IntermediateDay'',
      tb = 5.0, to = 22.0, lai_max = 3.0, hi = 0.75,
      stages =
      [\<lparr>StageParams.name = ''incubation'', gdd_target = Some 60, dap_target = None,
        kc = 0.45, rue = 1.0, lai_gain = 0.08,
        partition = [(''leaf'', 0.7), (''stem'', 0.2), (''root'', 0.1), (''storage'', 0.0)],
        nuptake_target = [(''N'', 15), (''P'', 6), (''K'', 18)]\<rparr>,
       \<lparr>StageParams.name = ''leaf'', gdd_target = Some 300, dap_target = None,
        kc = 0.95, rue = 1.4, lai_gain = 0.14,
        partition = [(''leaf'', 0.55), (''stem'', 0.25), (''root'', 0.20), (''storage'', 0.0)],
        nuptake_target = [(''N'', 50), (''P'', 15), (''K'', 50)]\<rparr>,
       \<lparr>StageParams.name = ''bulbinit'', gdd_target = Some 450, dap_target = None,
        kc = 1.05, rue = 1.4, lai_gain = 0.10,
        partition = [(''leaf'', 0.30), (''stem'', 0.10), (''root'', 0.10), (''storage'', 0.50)],
        nuptake_target = [(''N'', 25), (''P'', 8), (''K'', 35)]\<rparr>,
       \<lparr>StageParams.name = ''bulbing'', gdd_target = Some 700, dap_target = None,
        kc = 1.05, rue = 1.2, lai_gain = 0.06,
        partition = [(''leaf'', 0.10), (''stem'', 0.05), (''root'', 0.05), (''storage'', 0.80)],
        nuptake_target = [(''N'', 15), (''P'', 5), (''K'', 30)]\<rparr>,
       \<lparr>StageParams.name = ''maturity'', gdd_target = None, dap_target = None,
        kc = 0.85, rue = 0.7, lai_gain = 0.00,
        partition = [(''leaf'', 0.0), (''stem'', 0.0), (''root'', 0.0), (''storage'', 1.0)],
        nuptake_target = [(''N'', 0), (''P'', 0), (''K'', 0)]\<rparr>],
      stress_sensitivity = [(''flower_water'', 0.5), (''grainfill_water'', 0.5), (''n'', 0.4)]\<rparr>"

definition garlic_defaults :: CropParams where
  "garlic_defaults =
     \<lparr>species = ''garlic'', cultivar = ''Softneck'',
      tb = 3.0, to = 20.0, lai_max = 2.8, hi = 0.72,
      stages =
      [\<lparr>StageParams.name = ''incubation'', gdd_target = Some 40, dap_target = None,
        kc = 0.45, rue = 0.9, lai_gain = 0.07,
        partition = [(''leaf'', 0.7), (''stem'', 0.2), (''root'', 0.1), (''storage'', 0.0)],
        nuptake_target = [(''N'', 12), (''P'', 5), (''K'', 15)]\<rparr>,
       \<lparr>StageParams.name = ''leaf'', gdd_target = Some 250, dap_target = None,
        kc = 0.95, rue = 1.3, lai_gain = 0.12,
        partition = [(''leaf'', 0.55), (''stem'', 0.25), (''root'', 0.20), (''storage'', 0.0)],
        nuptake_target = [(''N'', 40), (''P'', 12), (''K'', 45)]\<rparr>,
       \<lparr>StageParams.name = ''bulb'', gdd_target = Some 520, dap_target = None,
        kc = 1.0, rue = 1.1, lai_gain = 0.06,
        partition = [(''leaf'', 0.10), (''stem'', 0.05), (''root'', 0.05), (''storage'', 0.80)],
        nuptake_target = [(''N'', 18), (''P'', 6), (''K'', 28)]\<rparr>,
       \<lparr>StageParams.name = ''maturity'', gdd_target = None, dap_target = None,
        kc = 0.8, rue = 0.7, lai_gain = 0.00,
        partition = [(''leaf'', 0.0), (''stem'', 0.0), (''root'', 0.0), (''storage'', 1.0)],
        nuptake_target = [(''N'', 0), (''P'', 0), (''K'', 0)]\<rparr>],
      stress_sensitivity = [(''flower_water'', 0.45), (''grainfill_water'', 0.45), (''n'', 0.35)]\<rparr>"

definition carrot_defaults :: CropParams where
  "carrot_defaults =
     \<lparr>species = ''carrot'', cultivar = ''Nantes'',
      tb = 4.0, to = 22.0, lai_max = 3.5, hi = 0.80,
      stages =
      [\<lparr>StageParams.name = ''incubation'', gdd_target = Some 50, dap_target = None,
        kc = 0.45, rue = 1.0, lai_gain = 0.08,
        partition = [(''leaf'', 0.7), (''stem'', 0.2), (''root'', 0.1), (''storage'', 0.0)],
        nuptake_target = [(''N'', 10), (''P'', 4), (''K'', 15)]\<rparr>,
       \<lparr>StageParams.name = ''vegetative'', gdd_target = Some 300, dap_target = None,
        kc = 0.95, rue = 1.4, lai_gain = 0.14,
        partition = [(''leaf'', 0.50), (''stem'', 0.20), (''root'', 0.30), (''storage'', 0.0)],
        nuptake_target = [(''N'', 40), (''P'', 12), (''K'', 50)]\<rparr>,
       \<lparr>StageParams.name = ''bulking'', gdd_target = Some 650, dap_target = None,
        kc = 1.0, rue = 1.2, lai_gain = 0.07,
        partition = [(''leaf'', 0.10), (''stem'', 0.10), (''root'', 0.10), (''storage'', 0.70)],
        nuptake_target = [(''N'', 20), (''P'', 6), (''K'', 35)]\<rparr>,
       \<lparr>StageParams.name = ''maturity'', gdd_target = None, dap_target = None,
        kc = 0.85, rue = 0.7, lai_gain = 0.00,
        partition = [(''leaf'', 0.0), (''stem'', 0.0), (''root'', 0.0), (''storage'', 1.0)],
        nuptake_target = [(''N'', 0), (''P'', 0), (''K'', 0)]\<rparr>],
      stress_sensitivity = [(''flower_water'', 0.4), (''grainfill_water'', 0.4), (''n'', 0.35)]\<rparr>"

definition spinach_defaults :: CropParams where
  "spinach_defaults =
     \<lparr>species = ''spinach'', cultivar = ''AgroSpin-F1'',
      tb = 5.0, to = 20.0, lai_max = 3.0, hi = 0.75,
      stages =
      [\<lparr>StageParams.name = ''germination'', gdd_target = None, dap_target = Some 10,
        kc = 0.5, rue = 0.9, lai_gain = 0.08,
        partition = [(''leaf'', 0.8), (''stem'', 0.1), (''root'', 0.1), (''storage'', 0.0)],
        nuptake_target = [(''N'', 10), (''P'', 4), (''K'', 12)]\<rparr>,
       \<lparr>StageParams.name = ''vegetative'', gdd_target = None, dap_target = Some 30,
        kc = 1.1, rue = 1.2, lai_gain = 0.14,
        partition = [(''leaf'', 0.70), (''stem'', 0.15), (''root'', 0.15), (''storage'', 0.0)],
        nuptake_target = [(''N'', 25), (''P'', 10), (''K'', 30)]\<rparr>,
       \<lparr>StageParams.name = ''harvest'', gdd_target = None, dap_target = Some 45,
        kc = 0.9, rue = 1.0, lai_gain = 0.02,
        partition = [(''leaf'', 1.0), (''stem'', 0.0), (''root'', 0.0), (''storage'', 0.0)],
        nuptake_target = [(''N'', 0), (''P'', 0), (''K'', 0)]\<rparr>],
      stress_sensitivity = [(''flower_water'', 0.5), (''grainfill_water'', 0.4), (''n'', 0.3)]\<rparr>"

definition cucumber_defaults :: CropParams where
  "cucumber_defaults =
     \<lparr>species = ''cucumber'', cultivar = ''Field-Cu'',
      tb = 8.0, to = 30.0, lai_max = 4.0, hi = 0.70,
      stages =
      [\<lparr>StageParams.name = ''incubation'', gdd_target = Some 50, dap_target = None,
        kc = 0.5, rue = 1.0, lai_gain = 0.10,
        partition = [(''leaf'', 0.7), (''stem'', 0.2), (''root'', 0.1), (''storage'', 0.0)],
        nuptake_target = [(''N'', 15), (''P'', 6), (''K'', 15)]\<rparr>,
       \<lparr>StageParams.name = ''vegetative'', gdd_target = Some 200, dap_target = None,
        kc = 1.0, rue = 1.4, lai_gain = 0.14,
        partition = [(''leaf'', 0.55), (''stem'', 0.25), (''root'', 0.20), (''storage'', 0.0)],
        nuptake_target = [(''N'', 40), (''P'', 12), (''K'', 40)]\<rparr>,
       \<lparr>StageParams.name = ''flowering'', gdd_target = Some 300, dap_target = None,
        kc = 1.1, rue = 1.6, lai_gain = 0.10,
        partition = [(''leaf'', 0.25), (''stem'', 0.25), (''root'', 0.10), (''storage'', 0.40)],
        nuptake_target = [(''N'', 20), (''P'', 7), (''K'', 25)]\<rparr>,
       \<lparr>StageParams.name = ''fruitfill'', gdd_target = Some 450, dap_target = None,
        kc = 1.1, rue = 1.5, lai_gain = 0.06,
        partition = [(''leaf'', 0.10), (''stem'', 0.15), (''root'', 0.05), (''storage'', 0.70)],
        nuptake_target = [(''N'', 15), (''P'', 5), (''K'', 30)]\<rparr>,
       \<lparr>StageParams.name = ''maturity'', gdd_target = None, dap_target = None,
        kc = 0.9, rue = 0.8, lai_gain = 0.00,
        partition = [(''leaf'', 0.0), (''stem'', 0.0), (''root'', 0.0), (''storage'', 1.0)],
        nuptake_target = [(''N'', 0), (''P'', 0), (''K'', 0)]\<rparr>],
      stress_sensitivity = [(''flower_water'', 0.6), (''grainfill_water'', 0.5), (''n'', 0.4)]\<rparr>"

definition broccoli_defaults :: CropParams where
  "broccoli_defaults =
     \<lparr>species = ''broccoli'', cultivar = ''Calabrese'',
      tb = 7.0, to = 25.0, lai_max = 3.5, hi = 0.65,
      stages =
      [\<lparr>StageParams.name = ''incubation'', gdd_target = Some 60, dap_target = None,
        kc = 0.45, rue = 1.0, lai_gain = 0.08,
        partition = [(''leaf'', 0.7), (''stem'', 0.2), (''root'', 0.1), (''storage'', 0.0)],
        nuptake_target = [(''N'', 15), (''P'', 6), (''K'', 20)]\<rparr>,
       \<lparr>StageParams.name = ''vegetative'', gdd_target = Some 200, dap_target = None,
        kc = 0.95, rue = 1.3, lai_gain = 0.14,
        partition = [(''leaf'', 0.50), (''stem'', 0.25), (''root'', 0.25), (''storage'', 0.0)],
        nuptake_target = [(''N'', 40), (''P'', 12), (''K'', 40)]\<rparr>,
       \<lparr>StageParams.name = ''head formation'', gdd_target = Some 300, dap_target = None,
        kc = 1.1, rue = 1.5, lai_gain = 0.10,
        partition = [(''leaf'', 0.25), (''stem'', 0.20), (''root'', 0.10), (''storage'', 0.45)],
        nuptake_target = [(''N'', 30), (''P'', 8), (''K'', 30)]\<rparr>,
       \<lparr>StageParams.name = ''maturity'', gdd_target = None, dap_target = None,
        kc = 0.9, rue = 0.8, lai_gain = 0.00,
        partition = [(''leaf'', 0.0), (''stem'', 0.0), (''root'', 0.0), (''storage'', 1.0)],
        nuptake_target = [(''N'', 0), (''P'', 0), (''K'', 0)]\<rparr>],
      stress_sensitivity = [(''flower_water'', 0.5), (''grainfill_water'', 0.45), (''n'', 0.35)]\<rparr>"

definition okra_defaults :: CropParams where
  "okra_defaults =
     \<lparr>species = ''okra'', cultivar = ''Local-Okra'',
      tb = 10.0, to = 32.0, lai_max = 4.0, hi = 0.65,
      stages =
      [\<lparr>StageParams.name = ''incubation'', gdd_target = None, dap_target = Some 10,
        kc = 0.5, rue = 1.0, lai_gain = 0.10,
        partition = [(''leaf'', 0.7), (''stem'', 0.2), (''root'', 0.1), (''storage'', 0.0)],
        nuptake_target = [(''N'', 15), (''P'', 5), (''K'', 20)]\<rparr>,
       \<lparr>StageParams.name = ''vegetative'', gdd_target = None, dap_target = Some 60,
        kc = 1.0, rue = 1.4, lai_gain = 0.14,
        partition = [(''leaf'', 0.55), (''stem'', 0.20), (''root'', 0.25), (''storage'', 0.0)],
        nuptake_target = [(''N'', 35), (''P'', 10), (''K'', 35)]\<rparr>,
       \<lparr>StageParams.name = ''flowering'', gdd_target = None, dap_target = Some 100,
        kc = 1.1, rue = 1.5, lai_gain = 0.08,
        partition = [(''leaf'', 0.25), (''stem'', 0.25), (''root'', 0.10), (''storage'', 0.40)],
        nuptake_target = [(''N'', 20), (''P'', 6), (''K'', 25)]\<rparr>,
       \<lparr>StageParams.name = ''maturity'', gdd_target = None, dap_target = None,
        kc = 0.9, rue = 0.8, lai_gain = 0.00,
        partition = [(''leaf'', 0.0), (''stem'', 0.0), (''root'', 0.0), (''storage'', 1.0)],
        nuptake_target = [(''N'', 0), (''P'', 0), (''K'', 0)]\<rparr>],
      stress_sensitivity = [(''flower_water'', 0.6), (''grainfill_water'', 0.5), (''n'', 0.4)]\<rparr>"

definition cabbage_defaults :: CropParams where
  "cabbage_defaults =
     \<lparr>species = ''cabbage'', cultivar = ''Hybrid'',
      tb = 7.0, to = 25.0, lai_max = 3.0, hi = 0.70,
      stages =
      [\<lparr>StageParams.name = ''incubation'', gdd_target = Some 50, dap_target = None,
        kc = 0.4, rue = 0.9, lai_gain = 0.08,
        partition = [(''leaf'', 0.7), (''stem'', 0.2), (''root'', 0.1), (''storage'', 0.0)],
        nuptake_target = [(''N'', 12), (''P'', 5), (''K'', 18)]\<rparr>,
       \<lparr>StageParams.name = ''vegetative'', gdd_target = Some 180, dap_target = None,
        kc = 0.95, rue = 1.3, lai_gain = 0.14,
        partition = [(''leaf'', 0.55), (''stem'', 0.20), (''root'', 0.25), (''storage'', 0.0)],
        nuptake_target = [(''N'', 30), (''P'', 10), (''K'', 30)]\<rparr>,
       \<lparr>StageParams.name = ''heading'', gdd_target = Some 300, dap_target = None,
        kc = 1.0, rue = 1.4, lai_gain = 0.10,
        partition = [(''leaf'', 0.25), (''stem'', 0.20), (''root'', 0.10), (''storage'', 0.45)],
        nuptake_target = [(''N'', 20), (''P'', 7), (''K'', 25)]\<rparr>,
       \<lparr>StageParams.name = ''maturity'', gdd_target = None, dap_target = None,
        kc = 0.9, rue = 0.8, lai_gain = 0.00,
        partition = [(''leaf'', 0.0), (''stem'', 0.0), (''root'', 0.0), (''storage'', 1.0)],
        nuptake_target = [(''N'', 0), (''P'', 0), (''K'', 0)]\<rparr>],
      stress_sensitivity = [(''flower_water'', 0.5), (''grainfill_water'', 0.45), (''n'', 0.35)]\<rparr>"

definition amaranth_defaults :: CropParams where
  "amaranth_defaults =
     \<lparr>species = ''amaranth'', cultivar = ''Amara'',
      tb = 10.0, to = 28.0, lai_max = 3.5, hi = 0.75,
      stages =
      [\<lparr>StageParams.name = ''germination'', gdd_target = None, dap_target = Some 8,
        kc = 0.5, rue = 0.9, lai_gain = 0.08,
        partition = [(''leaf'', 0.8), (''stem'', 0.1), (''root'', 0.1), (''storage'', 0.0)],
        nuptake_target = [(''N'', 10), (''P'', 4), (''K'', 12)]\<rparr>,
       \<lparr>StageParams.name = ''vegetative'', gdd_target = None, dap_target = Some 30,
        kc = 1.0, rue = 1.3, lai_gain = 0.14,
        partition = [(''leaf'', 0.60), (''stem'', 0.15), (''root'', 0.25), (''storage'', 0.0)],
        nuptake_target = [(''N'', 25), (''P'', 8), (''K'', 30)]\<rparr>,
       \<lparr>StageParams.name = ''maturity'', gdd_target = None, dap_target = None,
        kc = 0.9, rue = 0.8, lai_gain = 0.00,
        partition = [(''leaf'', 0.0), (''stem'', 0.0), (''root'', 0.0), (''storage'', 1.0)],
        nuptake_target = [(''N'', 0), (''P'', 0), (''K'', 0)]\<rparr>],
      stress_sensitivity = [(''flower_water'', 0.6), (''grainfill_water'', 0.5), (''n'', 0.4)]\<rparr>"

definition mango_defaults :: CropParams where
  "mango_defaults =
     \<lparr>species = ''mango'', cultivar = ''Alphonso'',
      tb = 12.0, to = 30.0, lai_max = 5.0, hi = 0.50,
      stages =
      [\<lparr>StageParams.name = ''budbreak'', gdd_target = None, dap_target = Some 20,
        kc = 0.7, rue = 1.2, lai_gain = 0.03,
        partition = [(''leaf'', 0.5), (''stem'', 0.4), (''root'', 0.1), (''storage'', 0.0)],
        nuptake_target = [(''N'', 20), (''P'', 6), (''K'', 25)]\<rparr>,
       \<lparr>StageParams.name = ''flowering'', gdd_target = None, dap_target = Some 50,
        kc = 0.8, rue = 1.3, lai_gain = 0.04,
        partition = [(''leaf'', 0.3), (''stem'', 0.2), (''root'', 0.1), (''storage'', 0.4)],
        nuptake_target = [(''N'', 20), (''P'', 7), (''K'', 25)]\<rparr>,
       \<lparr>StageParams.name = ''fruitset'', gdd_target = None, dap_target = Some 120,
        kc = 0.95, rue = 1.4, lai_gain = 0.05,
        partition = [(''leaf'', 0.2), (''stem'', 0.15), (''root'', 0.05), (''storage'', 0.60)],
        nuptake_target = [(''N'', 30), (''P'', 10), (''K'', 40)]\<rparr>,
       \<lparr>StageParams.name = ''enlargement'', gdd_target = None, dap_target = Some 240,
        kc = 1.05, rue = 1.3, lai_gain = 0.05,
        partition = [(''leaf'', 0.10), (''stem'', 0.10), (''root'', 0.05), (''storage'', 0.75)],
        nuptake_target = [(''N'', 25), (''P'', 8), (''K'', 45)]\<rparr>,
       \<lparr>StageParams.name = ''maturation'', gdd_target = None, dap_target = Some 300,
        kc = 0.95, rue = 1.0, lai_gain = 0.02,
        partition = [(''leaf'', 0.05), (''stem'', 0.05), (''root'', 0.05), (''storage'', 0.85)],
        nuptake_target = [(''N'', 10), (''P'', 4), (''K'', 20)]\<rparr>],
      stress_sensitivity = [(''flower_water'', 0.7), (''grainfill_water'', 0.6), (''n'', 0.4)]\<rparr>"

definition apple_defaults :: CropParams where
  "apple_defaults =
     \<lparr>species = ''apple'', cultivar = ''Gala'',
      tb = 6.0, to = 26.0, lai_max = 4.5, hi = 0.60,
      stages =
      [\<lparr>StageParams.name = ''budbreak'', gdd_target = None, dap_target = Some 20,
        kc = 0.7, rue = 1.2, lai_gain = 0.03,
        partition = [(''leaf'', 0.5), (''stem'', 0.4), (''root'', 0.1), (''storage'', 0.0)],
        nuptake_target = [(''N'', 22), (''P'', 6), (''K'', 22)]\<rparr>,
       \<lparr>StageParams.name = ''flowering'', gdd_target = None, dap_target = Some 45,
        kc = 0.8, rue = 1.25, lai_gain = 0.04,
        partition = [(''leaf'', 0.3), (''stem'', 0.2), (''root'', 0.1), (''storage'', 0.4)],
        nuptake_target = [(''N'', 18), (''P'', 6), (''K'', 20)]\<rparr>,
       \<lparr>StageParams.name = ''fruitset'', gdd_target = None, dap_target = Some 110,
        kc = 0.95, rue = 1.35, lai_gain = 0.05,
        partition = [(''leaf'', 0.2), (''stem'', 0.15), (''root'', 0.05), (''storage'', 0.60)],
        nuptake_target = [(''N'', 28), (''P'', 9), (''K'', 35)]\<rparr>,
       \<lparr>StageParams.name = ''enlargement'', gdd_target = None, dap_target = Some 220,
        kc = 1.0, rue = 1.25, lai_gain = 0.05,
        partition = [(''leaf'', 0.10), (''stem'', 0.10), (''root'', 0.05), (''storage'', 0.75)],
        nuptake_target = [(''N'', 22), (''P'', 7), (''K'', 38)]\<rparr>,
       \<lparr>StageParams.name = ''maturation'', gdd_target = None, dap_target = Some 280,
        kc = 0.9, rue = 1.0, lai_gain = 0.02,
        partition = [(''leaf'', 0.05), (''stem'', 0.05), (''root'', 0.05), (''storage'', 0.85)],
        nuptake_target = [(''N'', 8), (''P'', 3), (''K'', 15)]\<rparr>],
      stress_sensitivity = [(''flower_water'', 0.75), (''grainfill_water'', 0.55), (''n'', 0.4)]\<rparr>"

definition orange_defaults :: CropParams where
  "orange_defaults =
     \<lparr>species = ''orange'', cultivar = ''Valencia'',
      tb = 8.0, to = 28.0, lai_max = 5.0, hi = 0.55,
      stages =
      [\<lparr>StageParams.name = ''budbreak'', gdd_target = None, dap_target = Some 20,
        kc = 0.7, rue = 1.2, lai_gain = 0.03,
        partition = [(''leaf'', 0.5), (''stem'', 0.4), (''root'', 0.1), (''storage'', 0.0)],
        nuptake_target = [(''N'', 20), (''P'', 6), (''K'', 25)]\<rparr>,
       \<lparr>StageParams.name = ''flowering'', gdd_target = None, dap_target = Some 50,
        kc = 0.8, rue = 1.3, lai_gain = 0.04,
        partition = [(''leaf'', 0.3), (''stem'', 0.2), (''root'', 0.1), (''storage'', 0.4)],
        nuptake_target = [(''N'', 20), (''P'', 7), (''K'', 25)]\<rparr>,
       \<lparr>StageParams.name = ''fruitset'', gdd_target = None, dap_target = Some 120,
        kc = 0.95, rue = 1.4, lai_gain = 0.05,
        partition = [(''leaf'', 0.2), (''stem'', 0.15), (''root'', 0.05), (''storage'', 0.60)],
        nuptake_target = [(''N'', 30), (''P'', 10), (''K'', 40)]\<rparr>,
       \<lparr>StageParams.name = ''enlargement'', gdd_target = None, dap_target = Some 240,
        kc = 1.05, rue = 1.3, lai_gain = 0.05,
        partition = [(''leaf'', 0.10), (''stem'', 0.10), (''root'', 0.05), (''storage'', 0.75)],
        nuptake_target = [(''N'', 25), (''P'', 8), (''K'', 45)]\<rparr>,
       \<lparr>StageParams.name = ''maturation'', gdd_target = None, dap_target = Some 300,
        kc = 0.95, rue = 1.0, lai_gain = 0.02,
        partition = [(''leaf'', 0.05), (''stem'', 0.05), (''root'', 0.05), (''storage'', 0.85)],
        nuptake_target = [(''N'', 10), (''P'', 4), (''K'', 20)]\<rparr>],
      stress_sensitivity = [(''flower_water'', 0.7), (''grainfill_water'', 0.5), (''n'', 0.4)]\<rparr>"

definition banana_defaults :: CropParams where
  "banana_defaults =
     \<lparr>species = ''banana'', cultivar = ''Cavendish'',
      tb = 12.0, to = 30.0, lai_max = 6.0, hi = 0.50,
      stages =
      [\<lparr>StageParams.name = ''vegetative'', gdd_target = None, dap_target = Some 120,
        kc = 1.0, rue = 1.5, lai_gain = 0.05,
        partition = [(''leaf'', 0.6), (''stem'', 0.3), (''root'', 0.1), (''storage'', 0.0)],
        nuptake_target = [(''N'', 30), (''P'', 10), (''K'', 35)]\<rparr>,
       \<lparr>StageParams.name = ''fruiting'', gdd_target = None, dap_target = Some 240,
        kc = 1.1, rue = 1.4, lai_gain = 0.03,
        partition = [(''leaf'', 0.2), (''stem'', 0.1), (''root'', 0.05), (''storage'', 0.65)],
        nuptake_target = [(''N'', 25), (''P'', 8), (''K'', 30)]\<rparr>,
       \<lparr>StageParams.name = ''maturity'', gdd_target = None, dap_target = None,
        kc = 0.9, rue = 0.9, lai_gain = 0.00,
        partition = [(''leaf'', 0.0), (''stem'', 0.0), (''root'', 0.0), (''storage'', 1.0)],
        nuptake_target = [(''N'', 0), (''P'', 0), (''K'', 0)]\<rparr>],
      stress_sensitivity = [(''flower_water'', 0.7), (''grainfill_water'', 0.6), (''n'', 0.4)]\<rparr>"

definition pineapple_defaults :: CropParams where
  "pineapple_defaults =
     \<lparr>species = ''pineapple'', cultivar = ''Smooth Cayenne'',
      tb = 10.0, to = 28.0, lai_max = 4.0, hi = 0.55,
      stages =
      [\<lparr>StageParams.name = ''veg_growth'', gdd_target = None, dap_target = Some 200,
        kc = 0.9, rue = 1.3, lai_gain = 0.04,
        partition = [(''leaf'', 0.5), (''stem'', 0.3), (''root'', 0.2), (''storage'', 0.0)],
        nuptake_target = [(''N'', 20), (''P'', 6), (''K'', 25)]\<rparr>,
       \<lparr>StageParams.name = ''fruit_growth'', gdd_target = None, dap_target = Some 300,
        kc = 1.0, rue = 1.2, lai_gain = 0.03,
        partition = [(''leaf'', 0.2), (''stem'', 0.15), (''root'', 0.05), (''storage'', 0.75)],
        nuptake_target = [(''N'', 15), (''P'', 5), (''K'', 20)]\<rparr>,
       \<lparr>StageParams.name = ''maturity'', gdd_target = None, dap_target = None,
        kc = 0.85, rue = 0.8, lai_gain = 0.00,
        partition = [(''leaf'', 0.0), (''stem'', 0.0), (''root'', 0.0), (''storage'', 1.0)],
        nuptake_target = [(''N'', 0), (''P'', 0), (''K'', 0)]\<rparr>],
      stress_sensitivity = [(''flower_water'', 0.65), (''grainfill_water'', 0.50), (''n'', 0.35)]\<rparr>"

definition guava_defaults :: CropParams where
  "guava_defaults =
     \<lparr>species = ''guava'', cultivar = ''Tropical'',
      tb = 10.0, to = 28.0, lai_max = 4.5, hi = 0.60,
      stages =
      [\<lparr>StageParams.name = ''flowering'', gdd_target = None, dap_target = Some 30,
        kc = 0.8, rue = 1.3, lai_gain = 0.05,
        partition = [(''leaf'', 0.4), (''stem'', 0.3), (''root'', 0.1), (''storage'', 0.2)],
        nuptake_target = [(''N'', 15), (''P'', 5), (''K'', 20)]\<rparr>,
       \<lparr>StageParams.name = ''fruit_growth'', gdd_target = None, dap_target = Some 90,
        kc = 0.9, rue = 1.4, lai_gain = 0.04,
        partition = [(''leaf'', 0.2), (''stem'', 0.15), (''root'', 0.05), (''storage'', 0.60)],
        nuptake_target = [(''N'', 20), (''P'', 7), (''K'', 25)]\<rparr>,
       \<lparr>StageParams.name = ''maturity'', gdd_target = None, dap_target = None,
        kc = 0.9, rue = 0.9, lai_gain = 0.00,
        partition = [(''leaf'', 0.0), (''stem'', 0.0), (''root'', 0.0), (''storage'', 1.0)],
        nuptake_target = [(''N'', 0), (''P'', 0), (''K'', 0)]\<rparr>],
      stress_sensitivity = [(''flower_water'', 0.7), (''grainfill_water'', 0.55), (''n'', 0.4)]\<rparr>"

definition papaya_defaults :: CropParams where
  "papaya_defaults =
     \<lparr>species = ''papaya'', cultivar = ''Solo'',
      tb = 8.0, to = 28.0, lai_max = 4.5, hi = 0.65,
      stages =
      [\<lparr>StageParams.name = ''vegetative'', gdd_target = None, dap_target = Some 100,
        kc = 0.9, rue = 1.3, lai_gain = 0.04,
        partition = [(''leaf'', 0.5), (''stem'', 0.3), (''root'', 0.2), (''storage'', 0.0)],
        nuptake_target = [(''N'', 20), (''P'', 6), (''K'', 25)]\<rparr>,
       \<lparr>StageParams.name = ''fruiting'', gdd_target = None, dap_target = Some 200,
        kc = 1.0, rue = 1.2, lai_gain = 0.03,
        partition = [(''leaf'', 0.2), (''stem'', 0.15), (''root'', 0.05), (''storage'', 0.75)],
        nuptake_target = [(''N'', 15), (''P'', 5), (''K'', 20)]\<rparr>,
       \<lparr>StageParams.name = ''maturity'', gdd_target = None, dap_target = None,
        kc = 0.85, rue = 0.8, lai_gain = 0.00,
        partition = [(''leaf'', 0.0), (''stem'', 0.0), (''root'', 0.0), (''storage'', 1.0)],
        nuptake_target = [(''N'', 0), (''P'', 0), (''K'', 0)]\<rparr>],
      stress_sensitivity = [(''flower_water'', 0.6), (''grainfill_water'', 0.5), (''n'', 0.4)]\<rparr>"

definition lemon_defaults :: CropParams where
  "lemon_defaults =
     \<lparr>species = ''lemon'', cultivar = ''Eureka'',
      tb = 10.0, to = 28.0, lai_max = 4.0, hi = 0.60,
      stages =
      [\<lparr>StageParams.name = ''flowering'', gdd_target = None, dap_target = Some 30,
        kc = 0.8, rue = 1.3, lai_gain = 0.05,
        partition = [(''leaf'', 0.3), (''stem'', 0.2), (''root'', 0.1), (''storage'', 0.4)],
        nuptake_target = [(''N'', 15), (''P'', 5), (''K'', 20)]\<rparr>,
       \<lparr>StageParams.name = ''fruit_growth'', gdd_target = None, dap_target = Some 90,
        kc = 0.9, rue = 1.4, lai_gain = 0.04,
        partition = [(''leaf'', 0.2), (''stem'', 0.15), (''root'', 0.05), (''storage'', 0.60)],
        nuptake_target = [(''N'', 20), (''P'', 7), (''K'', 25)]\<rparr>,
       \<lparr>StageParams.name = ''maturity'', gdd_target = None, dap_target = None,
        kc = 0.9, rue = 0.9, lai_gain = 0.00,
        partition = [(''leaf'', 0.0), (''stem'', 0.0), (''root'', 0.0), (''storage'', 1.0)],
        nuptake_target = [(''N'', 0), (''P'', 0), (''K'', 0)]\<rparr>],
      stress_sensitivity = [(''flower_water'', 0.7), (''grainfill_water'', 0.55), (''n'', 0.4)]\<rparr>"

definition grapes_defaults :: CropParams where
  "grapes_defaults =
     \<lparr>species = ''grapes'', cultivar = ''Vitis'',
      tb = 8.0, to = 28.0, lai_max = 5.0, hi = 0.60,
      stages =
      [\<lparr>StageParams.name = ''budburst'', gdd_target = None, dap_target = Some 20,
        kc = 0.7, rue = 1.2, lai_gain = 0.03,
        partition = [(''leaf'', 0.4), (''stem'', 0.4), (''root'', 0.1), (''storage'', 0.1)],
        nuptake_target = [(''N'', 20), (''P'', 6), (''K'', 25)]\<rparr>,
       \<lparr>StageParams.name = ''flowering'', gdd_target = None, dap_target = Some 50,
        kc = 0.8, rue = 1.3, lai_gain = 0.04,
        partition = [(''leaf'', 0.3), (''stem'', 0.2), (''root'', 0.1), (''storage'', 0.4)],
        nuptake_target = [(''N'', 20), (''P'', 7), (''K'', 25)]\<rparr>,
       \<lparr>StageParams.name = ''veraison'', gdd_target = None, dap_target = Some 100,
        kc = 0.95, rue = 1.4, lai_gain = 0.05,
        partition = [(''leaf'', 0.2), (''stem'', 0.15), (''root'', 0.05), (''storage'', 0.60)],
        nuptake_target = [(''N'', 30), (''P'', 10), (''K'', 40)]\<rparr>,
       \<lparr>StageParams.name = ''ripening'', gdd_target = None, dap_target = Some 150,
        kc = 0.9, rue = 1.0, lai_gain = 0.02,
        partition = [(''leaf'', 0.1), (''stem'', 0.05), (''root'', 0.05), (''storage'', 0.80)],
        nuptake_target = [(''N'', 10), (''P'', 4), (''K'', 20)]\<rparr>,
       \<lparr>StageParams.name = ''maturity'', gdd_target = None, dap_target = None,
        kc = 0.85, rue = 0.8, lai_gain = 0.00,
        partition = [(''leaf'', 0.0), (''stem'', 0.0), (''root'', 0.0), (''storage'', 1.0)],
        nuptake_target = [(''N'', 0), (''P'', 0), (''K'', 0)]\<rparr>],
      stress_sensitivity = [(''flower_water'', 0.7), (''grainfill_water'', 0.5), (''n'', 0.4)]\<rparr>"

definition beans_defaults :: CropParams where
  "beans_defaults =
     \<lparr>species = ''beans'', cultivar = ''Common Bean'',
      tb = 10.0, to = 28.0, lai_max = 3.5, hi = 0.60,
      stages =
      [\<lparr>StageParams.name = ''germination'', gdd_target = None, dap_target = Some 7,
        kc = 0.5, rue = 1.0, lai_gain = 0.10,
        partition = [(''leaf'', 0.6), (''stem'', 0.2), (''root'', 0.2), (''storage'', 0.0)],
        nuptake_target = [(''N'', 10), (''P'', 4), (''K'', 12)]\<rparr>,
       \<lparr>StageParams.name = ''vegetative'', gdd_target = None, dap_target = Some 30,
        kc = 1.0, rue = 1.4, lai_gain = 0.14,
        partition = [(''leaf'', 0.50), (''stem'', 0.20), (''root'', 0.30), (''storage'', 0.0)],
        nuptake_target = [(''N'', 25), (''P'', 8), (''K'', 30)]\<rparr>,
       \<lparr>StageParams.name = ''flowering'', gdd_target = None, dap_target = Some 45,
        kc = 1.1, rue = 1.5, lai_gain = 0.10,
        partition = [(''leaf'', 0.25), (''stem'', 0.20), (''root'', 0.10), (''storage'', 0.45)],
        nuptake_target = [(''N'', 20), (''P'', 6), (''K'', 25)]\<rparr>,
       \<lparr>StageParams.name = ''maturity'', gdd_target = None, dap_target = None,
        kc = 0.9, rue = 0.8, lai_gain = 0.00,
        partition = [(''leaf'', 0.0), (''stem'', 0.0), (''root'', 0.0), (''storage'', 1.0)],
        nuptake_target = [(''N'', 0), (''P'', 0), (''K'', 0)]\<rparr>],
      stress_sensitivity = [(''flower_water'', 0.6), (''grainfill_water'', 0.5), (''n'', 0.4)]\<rparr>"

definition cowpea_defaults :: CropParams where
  "cowpea_defaults =
     \<lparr>species = ''cowpea'', cultivar = ''Local Cowpea'',
      tb = 10.0, to = 28.0, lai_max = 3.0, hi = 0.65,
      stages =
      [\<lparr>StageParams.name = ''germination'', gdd_target = None, dap_target = Some 7,
        kc = 0.5, rue = 1.0, lai_gain = 0.09,
        partition = [(''leaf'', 0.6), (''stem'', 0.2), (''root'', 0.2), (''storage'', 0.0)],
        nuptake_target = [(''N'', 10), (''P'', 4), (''K'', 12)]\<rparr>,
       \<lparr>StageParams.name = ''vegetative'', gdd_target = None, dap_target = Some 25,
        kc = 1.0, rue = 1.3, lai_gain = 0.13,
        partition = [(''leaf'', 0.50), (''stem'', 0.20), (''root'', 0.30), (''storage'', 0.0)],
        nuptake_target = [(''N'', 20), (''P'', 7), (''K'', 25)]\<rparr>,
       \<lparr>StageParams.name = ''flowering'', gdd_target = None, dap_target = Some 40,
        kc = 1.1, rue = 1.4, lai_gain = 0.08,
        partition = [(''leaf'', 0.25), (''stem'', 0.20), (''root'', 0.10), (''storage'', 0.45)],
        nuptake_target = [(''N'', 15), (''P'', 6), (''K'', 20)]\<rparr>,
       \<lparr>StageParams.name = ''maturity'', gdd_target = None, dap_target = None,
        kc = 0.9, rue = 0.8, lai_gain = 0.00,
        partition = [(''leaf'', 0.0), (''stem'', 0.0), (''root'', 0.0), (''storage'', 1.0)],
        nuptake_target = [(''N'', 0), (''P'', 0), (''K'', 0)]\<rparr>],
      stress_sensitivity = [(''flower_water'', 0.6), (''grainfill_water'', 0.5), (''n'', 0.45)]\<rparr>"

definition chickpea_defaults :: CropParams where
  "chickpea_defaults =
     \<lparr>species = ''chickpea'', cultivar = ''Kabuli'',
      tb = 8.0, to = 28.0, lai_max = 3.5, hi = 0.65,
      stages =
      [\<lparr>StageParams.name = ''germination'', gdd_target = None, dap_target = Some 8,
        kc = 0.5, rue = 1.0, lai_gain = 0.09,
        partition = [(''leaf'', 0.6), (''stem'', 0.2), (''root'', 0.2), (''storage'', 0.0)],
        nuptake_target = [(''N'', 10), (''P'', 4), (''K'', 12)]\<rparr>,
       \<lparr>StageParams.name = ''vegetative'', gdd_target = None, dap_target = Some 30,
        kc = 1.0, rue = 1.3, lai_gain = 0.13,
        partition = [(''leaf'', 0.50), (''stem'', 0.20), (''root'', 0.30), (''storage'', 0.0)],
        nuptake_target = [(''N'', 25), (''P'', 8), (''K'', 25)]\<rparr>,
       \<lparr>StageParams.name = ''flowering'', gdd_target = None, dap_target = Some 45,
        kc = 1.1, rue = 1.4, lai_gain = 0.08,
        partition = [(''leaf'', 0.25), (''stem'', 0.20), (''root'', 0.10), (''storage'', 0.45)],
        nuptake_target = [(''N'', 15), (''P'', 6), (''K'', 20)]\<rparr>,
       \<lparr>StageParams.name = ''maturity'', gdd_target = None, dap_target = None,
        kc = 0.9, rue = 0.8, lai_gain = 0.00,
        partition = [(''leaf'', 0.0), (''stem'', 0.0), (''root'', 0.0), (''storage'', 1.0)],
        nuptake_target = [(''N'', 0), (''P'', 0), (''K'', 0)]\<rparr>],
      stress_sensitivity = [(''flower_water'', 0.6), (''grainfill_water'', 0.5), (''n'', 0.45)]\<rparr>"

definition lentils_defaults :: CropParams where
  "lentils_defaults =
     \<lparr>species = ''lentils'', cultivar = ''Local Lentil'',
      tb = 6.0, to = 24.0, lai_max = 3.0, hi = 0.70,
      stages =
      [\<lparr>StageParams.name = ''germination'', gdd_target = None, dap_target = Some 7,
        kc = 0.5, rue = 1.0, lai_gain = 0.08,
        partition = [(''leaf'', 0.6), (''stem'', 0.2), (''root'', 0.2), (''storage'', 0.0)],
        nuptake_target = [(''N'', 10), (''P'', 4), (''K'', 12)]\<rparr>,
       \<lparr>StageParams.name = ''vegetative'', gdd_target = None, dap_target = Some 25,
        kc = 1.0, rue = 1.3, lai_gain = 0.13,
        partition = [(''leaf'', 0.50), (''stem'', 0.20), (''root'', 0.30), (''storage'', 0.0)],
        nuptake_target = [(''N'', 20), (''P'', 7), (''K'', 25)]\<rparr>,
       \<lparr>StageParams.name = ''flowering'', gdd_target = None, dap_target = Some 35,
        kc = 1.1, rue = 1.4, lai_gain = 0.08,
        partition = [(''leaf'', 0.25), (''stem'', 0.20), (''root'', 0.10), (''storage'', 0.45)],
        nuptake_target = [(''N'', 15), (''P'', 6), (''K'', 20)]\<rparr>,
       \<lparr>StageParams.name = ''maturity'', gdd_target = None, dap_target = None,
        kc = 0.9, rue = 0.8, lai_gain = 0.00,
        partition = [(''leaf'', 0.0), (''stem'', 0.0), (''root'', 0.0), (''storage'', 1.0)],
        nuptake_target = [(''N'', 0), (''P'', 0), (''K'', 0)]\<rparr>],
      stress_sensitivity = [(''flower_water'', 0.5), (''grainfill_water'', 0.5), (''n'', 0.4)]\<rparr>"

definition fava_beans_defaults :: CropParams where
  "fava_beans_defaults =
     \<lparr>species = ''fava beans'', cultivar = ''Broad Bean'',
      tb = 8.0, to = 25.0, lai_max = 3.5, hi = 0.65,
      stages =
      [\<lparr>StageParams.name = ''germination'', gdd_target = None, dap_target = Some 8,
        kc = 0.5, rue = 1.0, lai_gain = 0.09,
        partition = [(''leaf'', 0.6), (''stem'', 0.2), (''root'', 0.2), (''storage'', 0.0)],
        nuptake_target = [(''N'', 10), (''P'', 4), (''K'', 12)]\<rparr>,
       \<lparr>StageParams.name = ''vegetative'', gdd_target = None, dap_target = Some 30,
        kc = 1.0, rue = 1.3, lai_gain = 0.13,
        partition = [(''leaf'', 0.50), (''stem'', 0.20), (''root'', 0.30), (''storage'', 0.0)],
        nuptake_target = [(''N'', 25), (''P'', 8), (''K'', 25)]\<rparr>,
       \<lparr>StageParams.name = ''flowering'', gdd_target = None, dap_target = Some 45,
        kc = 1.1, rue = 1.4, lai_gain = 0.08,
        partition = [(''leaf'', 0.25), (''stem'', 0.20), (''root'', 0.10), (''storage'', 0.45)],
        nuptake_target = [(''N'', 15), (''P'', 6), (''K'', 20)]\<rparr>,
       \<lparr>StageParams.name = ''maturity'', gdd_target = None, dap_target = None,
        kc = 0.9, rue = 0.8, lai_gain = 0.00,
        partition = [(''leaf'', 0.0), (''stem'', 0.0), (''root'', 0.0), (''storage'', 1.0)],
        nuptake_target = [(''N'', 0), (''P'', 0), (''K'', 0)]\<rparr>],
      stress_sensitivity = [(''flower_water'', 0.6), (''grainfill_water'', 0.5), (''n'', 0.45)]\<rparr>"

definition mung_bean_defaults :: CropParams where
  "mung_bean_defaults =
     \<lparr>species = ''mung bean'', cultivar = ''Vermic'',
      tb = 10.0, to = 30.0, lai_max = 3.0, hi = 0.70,
      stages =
      [\<lparr>StageParams.name = ''germination'', gdd_target = None, dap_target = Some 7,
        kc = 0.5, rue = 1.0, lai_gain = 0.10,
        partition = [(''leaf'', 0.6), (''stem'', 0.2), (''root'', 0.2), (''storage'', 0.0)],
        nuptake_target = [(''N'', 10), (''P'', 4), (''K'', 12)]\<rparr>,
       \<lparr>StageParams.name = ''vegetative'', gdd_target = None, dap_target = Some 25,
        kc = 1.0, rue = 1.3, lai_gain = 0.14,
        partition = [(''leaf'', 0.50), (''stem'', 0.20), (''root'', 0.30), (''storage'', 0.0)],
        nuptake_target = [(''N'', 20), (''P'', 7), (''K'', 25)]\<rparr>,
       \<lparr>StageParams.name = ''flowering'', gdd_target = None, dap_target = Some 35,
        kc = 1.1, rue = 1.4, lai_gain = 0.08,
        partition = [(''leaf'', 0.25), (''stem'', 0.20), (''root'', 0.10), (''storage'', 0.45)],
        nuptake_target = [(''N'', 15), (''P'', 6), (''K'', 20)]\<rparr>,
       \<lparr>StageParams.name = ''maturity'', gdd_target = None, dap_target = None,
        kc = 0.9, rue = 0.8, lai_gain = 0.00,
        partition = [(''leaf'', 0.0), (''stem'', 0.0), (''root'', 0.0), (''storage'', 1.0)],
        nuptake_target = [(''N'', 0), (''P'', 0), (''K'', 0)]\<rparr>],
      stress_sensitivity = [(''flower_water'', 0.6), (''grainfill_water'', 0.5), (''n'', 0.4)]\<rparr>"

definition crop_map :: "(string \<times> CropParams) list" where
  "crop_map =
     [(''maize'', maize_defaults), (''rice'', rice_defaults),
      (''sorghum'', sorghum_defaults), (''cassava'', cassava_defaults),
      (''yams'', yams_defaults), (''tomato'', tomato_defaults),
      (''pepper'', pepper_defaults), (''onion'', onion_defaults),
      (''garlic'', garlic_defaults), (''carrot'', carrot_defaults),
      (''spinach'', spinach_defaults), (''cucumber'', cucumber_defaults),
      (''broccoli'', broccoli_defaults), (''okra'', okra_defaults),
      (''cabbage'', cabbage_defaults), (''amaranth'', amaranth_defaults),
      (''mango'', mango_defaults), (''apple'', apple_defaults),
      (''orange'', orange_defaults), (''banana'', banana_defaults),
      (''pineapple'', pineapple_defaults), (''guava'', guava_defaults),
      (''papaya'', papaya_defaults), (''lemon'', lemon_defaults),
      (''grapes'', grapes_defaults), (''beans'', beans_defaults),
      (''cowpea'', cowpea_defaults), (''chickpea'', chickpea_defaults),
      (''lentils'', lentils_defaults), (''fava beans'', fava_beans_defaults),
      (''mung bean'', mung_bean_defaults)]"

text \<open>
  \<open>get_crop_defaults\<close>. The message of the error is the f-string of the source; the
  \<open>repr\<close> of the sorted key list puts each key between single quotes (no key holds a
  quote or a character that \<open>repr\<close> escapes).
\<close>

definition repr_str_list :: "string list \<Rightarrow> string" where
  "repr_str_list keys =
     ''['' @ concat (map (\<lambda>(i, k). (if i = 0 then [] else '', '') @ [CHR 0x27] @ k @ [CHR 0x27])
                         (enumerate 0 keys)) @ '']''"

definition get_crop_defaults :: "string \<Rightarrow> error + CropParams" where
  "get_crop_defaults nm =
     (let n = strip (lower nm)
      in case map_of crop_map n of
           None \<Rightarrow>
             Inl (ValueError (''Unsupported crop '' @ [CHR 0x27] @ n @ [CHR 0x27]
                              @ ''. Supported: '' @ repr_str_list (sort (map fst crop_map))))
         | Some c \<Rightarrow> Inr c)"

section \<open>Service wrapper (engine/sim.py, class Simulator)\<close>

text \<open>
  \<open>Simulator.run\<close> from the point where the provider payload has been normalised to a
  list of weather days (\<open>_to_daily_weather\<close>, a parser of provider dictionaries, is not
  modelled). The display name of the field configuration is a formatted string that no
  computation reads; it is passed in as \<open>display_name\<close>. The \<open>SimulationResult\<close> that the
  method returns copies the fields of the \<open>RunResult\<close> returned here.
\<close>

definition Simulator_run :: "ScenarioRequest \<Rightarrow> string \<Rightarrow> WeatherDay list \<Rightarrow> error + RunResult" where
  "Simulator_run req display_name weather_days =
     (if weather_days = []
      then Inl (ValueError ''No weather data available for simulation horizon'')
      else case get_crop_defaults (ScenarioRequest.crop req) of
             Inl e \<Rightarrow> Inl e
           | Inr c \<Rightarrow>
               run_field
                 \<lparr>id_cfg = ''field-1'', name = display_name,
                  area_ha = ScenarioRequest.area_ha req,
                  soil = \<lparr>layers = [\<lparr>depth_cm = 60, fc = 150, wp = 40, ks = 50,
                                      om_pct = 1.5, ph = 6.5\<rparr>],
                          runoff_threshold_mm = 20\<rparr>,
                  crop = c,
                  management = \<lparr>plant_date = start_date req,
                                 density_plants_m2 = ScenarioRequest.density_plants_m2 req,
                                 irrigation_mm_day = ScenarioRequest.irrigation_mm_day req,
                                 fert_events = []\<rparr>\<rparr>
                 weather_days)"

section \<open>Well-formed crops, the run invariant and the test scenarios\<close>

definition tiny_canopy_crop :: CropParams where
  "tiny_canopy_crop =
     \<lparr>species = ''cress'', cultivar = ''micro'', tb = 5, to = 25, lai_max = 0.005, hi = 0.5,
      stages = [\<lparr>StageParams.name = ''vegetative'', gdd_target = None, dap_target = None,
                 kc = 1, rue = 1.5, lai_gain = 0.12, partition = [], nuptake_target = []\<rparr>],
      stress_sensitivity = []\<rparr>"

definition tiny_canopy_field :: FieldConfig where
  "tiny_canopy_field =
     \<lparr>id_cfg = ''T1'', name = ''Tray'', area_ha = 1,
      soil = \<lparr>layers = [\<lparr>depth_cm = 60, fc = 150, wp = 40, ks = 50, om_pct = 1.5, ph = 6.5\<rparr>],
              runoff_threshold_mm = 20\<rparr>,
      crop = tiny_canopy_crop,
      management = \<lparr>plant_date = ''2025-03-01'', density_plants_m2 = 6,
                    irrigation_mm_day = 0, fert_events = []\<rparr>\<rparr>"

definition one_mild_day :: "WeatherDay list" where
  "one_mild_day =
     [\<lparr>WeatherDay.date = ''2025-03-01'', tmin = 19, tmax = 30, rain = 2, rad = 18,
       et0 = Some 4, wind = None, rh = None\<rparr>]"

definition crop_ok :: "CropParams \<Rightarrow> bool" where
  "crop_ok c =
     (stages c \<noteq> [] \<and> 0.05 \<le> lai_max c \<and>
      list_all (\<lambda>s. 0 \<le> lai_gain s \<and>
                    list_all (\<lambda>kv. lower (fst kv) \<in> {''n'', ''p'', ''k''}) (nuptake_target s))
               (stages c))"

definition run_inv :: "FieldConfig \<Rightarrow> FieldState \<Rightarrow> bool" where
  "run_inv fld st =
     (0 \<le> stage_index st \<and> stage_index st < int (length (stages (FieldConfig.crop fld)))
      \<and> 0 \<le> lai st \<and> lai st \<le> lai_max (FieldConfig.crop fld))"

definition maturity_idx :: "DayResult list \<Rightarrow> nat" where
  "maturity_idx ser =
     (case find (\<lambda>(i, d). (stage d = ''maturity'' \<or> stage d = ''grainfill'') \<and> 0 < i)
                (enumerate 0 ser) of
        Some (i, d) \<Rightarrow> i
      | None \<Rightarrow> length ser - 1)"

definition test_soil :: SoilProfile where
  "test_soil = \<lparr>layers = [\<lparr>depth_cm = 60, fc = 150, wp = 40, ks = 50, om_pct = 1.5, ph = 6.5\<rparr>],
                 runoff_threshold_mm = 20\<rparr>"

definition field_dry :: FieldConfig where
  "field_dry = \<lparr>id_cfg = ''F2'', name = ''Dry Plot'', area_ha = 1, soil = test_soil,
                 crop = maize_defaults,
                 management = \<lparr>plant_date = ''2025-04-01'', density_plants_m2 = 6,
                               irrigation_mm_day = 0, fert_events = []\<rparr>\<rparr>"

definition field_irrig :: FieldConfig where
  "field_irrig = \<lparr>id_cfg = ''F3'', name = ''Irrigated Plot'', area_ha = 1, soil = test_soil,
                 crop = maize_defaults,
                 management = \<lparr>plant_date = ''2025-04-01'', density_plants_m2 = 6,
                               irrigation_mm_day = 3, fert_events = []\<rparr>\<rparr>"

definition dry_day :: "string \<Rightarrow> WeatherDay" where
  "dry_day d = \<lparr>WeatherDay.date = d, tmin = 20, tmax = 31, rain = 0, rad = 18,
                 et0 = Some 4.2, wind = None, rh = None\<rparr>"

definition dry_weather :: "WeatherDay list" where
  "dry_weather = map dry_day
     [''2025-04-01'', ''2025-04-02'', ''2025-04-03'', ''2025-04-04'', ''2025-04-05'',
      ''2025-04-06'', ''2025-04-07'', ''2025-04-08'', ''2025-04-09'', ''2025-04-10'']"

text \<open>Tasks for exercising the scheduler: two for the same field and crop, one for another.\<close>

definition task_a :: HarvestTask where
  "task_a = \<lparr>HarvestTask.field_id = ''F1'', crop = ''maize'', planned_date = ''2025-07-20'',
              expected_yield_t_ha = 6, maturity_ratio = 0.95, ripe_color = ''#e53935'',
              actual_yield_t_ha = None, completed = False, notes = None\<rparr>"

definition task_a_again :: HarvestTask where
  "task_a_again = \<lparr>HarvestTask.field_id = ''F1'', crop = ''maize'', planned_date = ''2025-08-01'',
              expected_yield_t_ha = 7, maturity_ratio = 0.5, ripe_color = ''#e53935'',
              actual_yield_t_ha = None, completed = False, notes = None\<rparr>"

definition task_b :: HarvestTask where
  "task_b = \<lparr>HarvestTask.field_id = ''F2'', crop = ''rice'', planned_date = ''2025-07-01'',
              expected_yield_t_ha = 2, maturity_ratio = 0.4, ripe_color = ''#e53935'',
              actual_yield_t_ha = None, completed = False, notes = None\<rparr>"

definition planner_one :: HarvestPlanner where
  "planner_one = \<lparr>tasks = [task_a]\<rparr>"

text \<open>The first state and the whole trace of the rain-fed run over the dry series.\<close>

definition dry_first :: FieldState where
  "dry_first = projr (step_day field_dry (initial_state field_dry (hd dry_weather))
                                (hd dry_weather))"

definition dry_trace :: "(FieldState \<times> DayResult) list" where
  "dry_trace = projr (run_loop field_dry (initial_state field_dry (hd dry_weather)) dry_weather)"

definition dry_result :: RunResult where
  "dry_result = projr (run_field field_dry dry_weather)"

text \<open>
  The yield estimator in the words of the specification: the least water stress among
  the days of a stage (1 when there is none), a clamp, and what makes a day ripe for
  the harvest date.
\<close>

definition spec_stage_min :: "DayResult list \<Rightarrow> string \<Rightarrow> real" where
  "spec_stage_min ser stage_name =
     (if \<exists>d \<in> set ser. stage d = stage_name
      then Min (DayResult.stress_w ` {d \<in> set ser. stage d = stage_name})
      else 1)"

definition spec_clamp :: "real \<Rightarrow> real \<Rightarrow> real \<Rightarrow> real" where
  "spec_clamp v lo up = (if v < lo then lo else if up < v then up else v)"

definition ripe :: "DayResult \<Rightarrow> bool" where
  "ripe d = (stage d = ''maturity'' \<or> stage d = ''grainfill'')"

definition spec_grade :: "real \<Rightarrow> string" where
  "spec_grade avg = (if 0.8 < avg then ''A'' else if 0.6 < avg then ''B'' else ''C'')"

text \<open>A short hand-made series that passes through flowering and grain filling.\<close>

definition demo_day :: "string \<Rightarrow> string \<Rightarrow> real \<Rightarrow> real \<Rightarrow> DayResult" where
  "demo_day day stage_name water_stress biomass =
     \<lparr>DayResult.date = day, stage = stage_name, lai = 3, biomass_dm_kg_ha = biomass,
      soil_water_mm = 80, stress_w = water_stress, stress_n = 1,
      n_stock_kg_ha = 0, p_stock_kg_ha = 0, k_stock_kg_ha = 0,
      gdd_progress = None, gdd_target = None, crop = Some ''maize''\<rparr>"

definition demo_series :: "DayResult list" where
  "demo_series =
     [demo_day ''2025-06-01'' ''vegetative'' 1 7000,
      demo_day ''2025-06-02'' ''flowering'' 0.7 8000,
      demo_day ''2025-06-03'' ''flowering'' 0.8 9000,
      demo_day ''2025-06-04'' ''grainfill'' 0.9 9500,
      demo_day ''2025-06-05'' ''maturity'' 0.5 10000]"

text \<open>A manager with the default empty layout, holding one task and holding three.\<close>

definition task_c :: HarvestTask where
  "task_c = \<lparr>HarvestTask.field_id = ''F3'', crop = ''yams'', planned_date = ''2025-09-01'',
              expected_yield_t_ha = 4, maturity_ratio = 0.95, ripe_color = ''#e53935'',
              actual_yield_t_ha = None, completed = False, notes = None\<rparr>"

definition default_layout :: FarmLayout where
  "default_layout = \<lparr>id_layout = ''Default'', name = ''AutoFarm'', zones = [],
                      harvests = \<lparr>tasks = []\<rparr>\<rparr>"

definition manager_one :: HarvestManager where
  "manager_one = \<lparr>planner = planner_one, layout = default_layout\<rparr>"

definition manager_three :: HarvestManager where
  "manager_three = \<lparr>planner = \<lparr>tasks = [task_a, task_b, task_c]\<rparr>, layout = default_layout\<rparr>"

text \<open>The tasks a plan accepts, and the sum of their expected yields.\<close>

definition accepted_tasks :: "HarvestManager \<Rightarrow> real \<Rightarrow> HarvestTask list" where
  "accepted_tasks mgr storage_capacity_t =
     planned_tasks storage_capacity_t
       (sort_key HarvestTask.planned_date (tasks (planner mgr)))"

definition total_yield :: "HarvestTask list \<Rightarrow> real" where
  "total_yield acc = sum_list (map expected_yield_t_ha acc)"



text \<open>A crop with a negative radiation-use efficiency, on the test soil, over two days.\<close>

definition negative_rue_crop :: CropParams where
  "negative_rue_crop =
     \<lparr>species = ''fallow'', cultivar = ''none'', tb = 5, to = 25, lai_max = 5, hi = 0.5,
      stages = [\<lparr>StageParams.name = ''vegetative'', gdd_target = None, dap_target = None,
                 kc = 1, rue = - 1, lai_gain = 0, partition = [], nuptake_target = []\<rparr>],
      stress_sensitivity = []\<rparr>"

definition negative_rue_field :: FieldConfig where
  "negative_rue_field =
     \<lparr>id_cfg = ''T2'', name = ''Fallow'', area_ha = 1, soil = test_soil,
      crop = negative_rue_crop,
      management = \<lparr>plant_date = ''2025-04-01'', density_plants_m2 = 6,
                    irrigation_mm_day = 0, fert_events = []\<rparr>\<rparr>"

definition two_dry_days :: "WeatherDay list" where
  "two_dry_days = [dry_day ''2025-04-01'', dry_day ''2025-04-02'']"

section \<open>Auxiliary lemmas\<close>

lemma if_Inl_Inr_iff: "((if b then Inl e else Inr v) = Inr v') = (\<not> b \<and> v = v')"
  by simp

lemma rootzone_capacity_nonneg: "0 \<le> rootzone_capacity sl"
  by (auto simp: rootzone_capacity_def intro!: sum_list_nonneg)

lemma water_balanceE:
  assumes wb: "water_balance st sl inflow etc_pot = Inr (st', ta, se)"
  obtains cover sw1 tp where
    "cover = min 1 (lai st / 3)"
    "sw1 = min (soil_water_mm st + (inflow - max 0 (inflow - runoff_threshold_mm sl) * 0.3))
               (rootzone_capacity sl)"
    "tp = etc_pot * cover"
    "tp + 1 / 1000000 \<noteq> 0"
    "ta = min tp sw1"
    "se = min (max 0 (etc_pot - ta) * (1 - cover)) (sw1 - ta)"
    "st' = st\<lparr>soil_water_mm := sw1 - ta - se,
               stress_w := max 0.001 (min 1 ((ta + 1 / 1000000) / (tp + 1 / 1000000)))\<rparr>"
proof -
  note h = wb[unfolded water_balance_def Let_def if_Inl_Inr_iff prod.inject]
  from h have a: "etc_pot * min 1 (lai st / 3) + 1 / 1000000 \<noteq> 0" by (rule conjunct1)
  from h have b: "ta = min (etc_pot * min 1 (lai st / 3))
      (min (soil_water_mm st + (inflow - max 0 (inflow - runoff_threshold_mm sl) * 0.3))
               (rootzone_capacity sl))"
    by (intro sym[of _ ta]) (rule conjunct1[OF conjunct2[OF conjunct2]])
  from h have c: "se = min (max 0 (etc_pot - min (etc_pot * min 1 (lai st / 3))
      (min (soil_water_mm st + (inflow - max 0 (inflow - runoff_threshold_mm sl) * 0.3))
               (rootzone_capacity sl))) * (1 - min 1 (lai st / 3)))
       (min (soil_water_mm st + (inflow - max 0 (inflow - runoff_threshold_mm sl) * 0.3))
               (rootzone_capacity sl) - min (etc_pot * min 1 (lai st / 3))
      (min (soil_water_mm st + (inflow - max 0 (inflow - runoff_threshold_mm sl) * 0.3))
               (rootzone_capacity sl)))"
    by (intro sym[of _ se]) (rule conjunct2[OF conjunct2[OF conjunct2]])
  from h have d: "st' = st\<lparr>soil_water_mm := 
       min (soil_water_mm st + (inflow - max 0 (inflow - runoff_threshold_mm sl) * 0.3))
               (rootzone_capacity sl) - min (etc_pot * min 1 (lai st / 3))
      (min (soil_water_mm st + (inflow - max 0 (inflow - runoff_threshold_mm sl) * 0.3))
               (rootzone_capacity sl)) - 
      min (max 0 (etc_pot - min (etc_pot * min 1 (lai st / 3))
      (min (soil_water_mm st + (inflow - max 0 (inflow - runoff_threshold_mm sl) * 0.3))
               (rootzone_capacity sl))) * (1 - min 1 (lai st / 3)))
       (min (soil_water_mm st + (inflow - max 0 (inflow - runoff_threshold_mm sl) * 0.3))
               (rootzone_capacity sl) - min (etc_pot * min 1 (lai st / 3))
      (min (soil_water_mm st + (inflow - max 0 (inflow - runoff_threshold_mm sl) * 0.3))
               (rootzone_capacity sl))),
               stress_w := max 0.001 (min 1 ((min (etc_pot * min 1 (lai st / 3))
      (min (soil_water_mm st + (inflow - max 0 (inflow - runoff_threshold_mm sl) * 0.3))
               (rootzone_capacity sl)) + 1 / 1000000) / (etc_pot * min 1 (lai st / 3) + 1 / 1000000)))\<rparr>"
    by (intro sym[of _ st']) (rule conjunct1[OF conjunct2])
  show thesis
    by (rule that[OF refl refl refl a b c[folded b] d[folded b, folded c[folded b]]])
qed

lemma water_balance_stress:
  assumes "water_balance st sl inflow etc_pot = Inr (st', ta, se)"
  shows "0.001 \<le> stress_w st'" and "stress_w st' \<le> 1"
proof -
  from assms obtain a b c where "st' = st\<lparr>soil_water_mm := a, stress_w := max 0.001 (min 1 (b / c))\<rparr>"
    by (rule water_balanceE)
  then have e: "stress_w st' = max 0.001 (min 1 (b / c))" by simp
  show "0.001 \<le> stress_w st'" unfolding e by simp
  show "stress_w st' \<le> 1" unfolding e by simp
qed

lemma water_balance_frame:
  assumes "water_balance st sl inflow etc_pot = Inr (st', ta, se)"
  shows "st'\<lparr>soil_water_mm := x, stress_w := y\<rparr> = st\<lparr>soil_water_mm := x, stress_w := y\<rparr>"
proof -
  from assms obtain a b where "st' = st\<lparr>soil_water_mm := a, stress_w := b\<rparr>"
    by (rule water_balanceE)
  then show ?thesis by simp
qed

lemma water_balance_soil:
  assumes wb: "water_balance st sl inflow etc_pot = Inr (st', ta, se)"
    and etc: "0 \<le> etc_pot" and lai: "0 \<le> lai st"
  shows "0 \<le> soil_water_mm st'" and "soil_water_mm st' \<le> rootzone_capacity sl"
proof -
  from wb obtain cover sw1 tp sx where
    cover: "cover = min 1 (lai st / 3)" and
    sw1: "sw1 = min (soil_water_mm st + (inflow - max 0 (inflow - runoff_threshold_mm sl) * 0.3))
               (rootzone_capacity sl)" and
    tp: "tp = etc_pot * cover" and
    ta: "ta = min tp sw1" and
    se: "se = min (max 0 (etc_pot - ta) * (1 - cover)) (sw1 - ta)" and
    st': "st' = st\<lparr>soil_water_mm := sw1 - ta - se, stress_w := sx\<rparr>"
    by (rule water_balanceE)
  define se0 where "se0 = max 0 (etc_pot - ta) * (1 - cover)"
  have eq: "soil_water_mm st' = sw1 - ta - se" by (subst st') simp
  have c: "0 \<le> cover" "cover \<le> 1" using lai by (auto simp: cover)
  have tp0: "0 \<le> tp" using etc c by (simp add: tp)
  have se00: "0 \<le> se0" using c by (simp add: se0_def)
  have cap: "0 \<le> rootzone_capacity sl" by (rule rootzone_capacity_nonneg)
  have le: "sw1 \<le> rootzone_capacity sl" by (simp add: sw1)
  have se': "se = min se0 (sw1 - ta)" by (simp add: se se0_def)
  have r: "0 \<le> sw1 - ta - se \<and> sw1 - ta - se \<le> rootzone_capacity sl"
    using se00 cap le tp0 unfolding se' ta
    by (cases "tp \<le> sw1"; cases "se0 \<le> sw1 - min tp sw1") (simp_all add: min_def)
  show "0 \<le> soil_water_mm st'" "soil_water_mm st' \<le> rootzone_capacity sl"
    using r unfolding eq by blast+
qed

lemma set_stock_frame:
  "lai (set_stock st k v) = lai st"
  "soil_water_mm (set_stock st k v) = soil_water_mm st"
  "stress_w (set_stock st k v) = stress_w st"
  "stress_n (set_stock st k v) = stress_n st"
  "stage_index (set_stock st k v) = stage_index st"
  "biomass_dm_kg_ha (set_stock st k v) = biomass_dm_kg_ha st"
  "gdd_accum (set_stock st k v) = gdd_accum st"
  "dap (set_stock st k v) = dap st"
  "FieldState.date (set_stock st k v) = FieldState.date st"
  "notes (set_stock st k v) = notes st"
  by (simp_all add: set_stock_def)

lemma nutrient_loop_frame:
  "nutrient_loop st nm cap xs = Inr st' \<Longrightarrow>
     lai st' = lai st \<and> soil_water_mm st' = soil_water_mm st \<and> stress_w st' = stress_w st
     \<and> stress_n st' = stress_n st \<and> stage_index st' = stage_index st
     \<and> biomass_dm_kg_ha st' = biomass_dm_kg_ha st \<and> gdd_accum st' = gdd_accum st
     \<and> dap st' = dap st \<and> FieldState.date st' = FieldState.date st"
proof (induction xs arbitrary: st)
  case Nil
  then show ?case by simp
next
  case (Cons a xs)
  obtain key target where a: "a = (key, target)" by (cases a)
  from Cons.prems obtain stock where g: "get_stock st (lower key) = Inr stock"
    by (cases "get_stock st (lower key)") (simp_all add: a)
  from Cons.prems have
    "nutrient_loop ((set_stock st (lower key)
         (stock + min cap (max 0 (target - dict_get (notes st) (key @ ''_taken_'' @ nm) 0)) * stress_w st))
        \<lparr>notes := dict_set (notes (set_stock st (lower key)
         (stock + min cap (max 0 (target - dict_get (notes st) (key @ ''_taken_'' @ nm) 0)) * stress_w st)))
            (key @ ''_taken_'' @ nm)
            (dict_get (notes st) (key @ ''_taken_'' @ nm) 0
              + min cap (max 0 (target - dict_get (notes st) (key @ ''_taken_'' @ nm) 0)) * stress_w st)\<rparr>)
       nm cap xs = Inr st'"
    by (simp add: a g Let_def)
  from Cons.IH[OF this] show ?case by (simp add: set_stock_frame)
qed

lemma nutrients_frame:
  assumes "nutrients st stg c cap = Inr st'"
  shows "lai st' = lai st" "soil_water_mm st' = soil_water_mm st" "stress_w st' = stress_w st"
    "stage_index st' = stage_index st" "biomass_dm_kg_ha st' = biomass_dm_kg_ha st"
    "gdd_accum st' = gdd_accum st" "dap st' = dap st" "FieldState.date st' = FieldState.date st"
    "0.4 \<le> stress_n st'" "stress_n st' \<le> 1"
proof -
  from assms obtain st1 where l: "nutrient_loop st (StageParams.name stg) cap (nuptake_target stg) = Inr st1"
    by (cases "nutrient_loop st (StageParams.name stg) cap (nuptake_target stg)") (simp_all add: nutrients_def)
  from assms l obtain r where st': "st' = st1\<lparr>stress_n := max 0.4 r\<rparr>" and r: "r \<le> 1"
    by (auto simp: nutrients_def Let_def)
  note f = nutrient_loop_frame[OF l]
  show "lai st' = lai st" "soil_water_mm st' = soil_water_mm st" "stress_w st' = stress_w st"
    "stage_index st' = stage_index st" "biomass_dm_kg_ha st' = biomass_dm_kg_ha st"
    "gdd_accum st' = gdd_accum st" "dap st' = dap st" "FieldState.date st' = FieldState.date st"
    using f by (simp_all add: st')
  show "0.4 \<le> stress_n st'" by (simp add: st')
  show "stress_n st' \<le> 1" using r by (simp add: st')
qed

lemma py_index_Inr:
  assumes "py_index xs i = Inr v"
  shows "- int (length xs) \<le> i" and "i < int (length xs)" and "v \<in> set xs"
  using assms by (auto simp: py_index_def split: if_splits)

lemma py_index_nonneg:
  "0 \<le> i \<Longrightarrow> i < int (length xs) \<Longrightarrow> py_index xs i = Inr (xs ! nat i)"
  by (simp add: py_index_def)

lemma py_index_last: "xs \<noteq> [] \<Longrightarrow> py_index xs (- 1) = Inr (last xs)"
proof -
  assume ne: "xs \<noteq> []"
  then have pos: "0 < length xs" by simp
  then have n: "nat (int (length xs) + - 1) = length xs - 1" by linarith
  have c: "- int (length xs) \<le> - 1" using pos by linarith
  have "py_index xs (- 1) = Inr (xs ! nat (int (length xs) + - 1))"
    unfolding py_index_def using c by simp
  then show ?thesis unfolding n using ne by (simp add: last_conv_nth)
qed

lemma advance_stage_cases:
  assumes "advance_stage st c = Inr st'"
  shows "st' = st \<or> (st' = st\<lparr>stage_index := stage_index st + 1\<rparr>
                       \<and> stage_index st < int (length (stages c)) - 1)"
  using assms by (auto simp: advance_stage_def Let_def split: sum.splits if_splits)

lemma advance_stage_total:
  assumes "py_index (stages c) (stage_index st) = Inr stg"
  shows "\<exists>st'. advance_stage st c = Inr st'"
  using assms by (simp add: advance_stage_def Let_def)

lemma step_dayE:
  assumes "step_day fld st w = Inr st'"
  obtains stg st2 ta se st3 where
    "py_index (stages (FieldConfig.crop fld)) (stage_index st) = Inr stg"
    "water_balance
       (st\<lparr>date := WeatherDay.date w, dap := dap st + 1,
           gdd_accum := gdd_accum st + gdd_day (tmin w) (tmax w) (tb (FieldConfig.crop fld))\<rparr>)
       (soil fld) (rain w + irrigation_mm_day (management fld))
       (etc_from_kc (case et0 w of Some e \<Rightarrow> e
                     | None \<Rightarrow> max 2 (0.0023 * (tmax w - tmin w) * ((tmin w + tmax w) / 2) + 2))
                    (kc stg)) = Inr (st2, ta, se)"
    "nutrients st2 stg (FieldConfig.crop fld) 8 = Inr st3"
    "lai_max (FieldConfig.crop fld) \<noteq> 0"
    "advance_stage
       (st3\<lparr>lai := min (lai_max (FieldConfig.crop fld))
                 (lai st3 + lai_gain stg * lai st3 * (1 - lai st3 / lai_max (FieldConfig.crop fld))
                    * stress_w st3 * stress_n st3),
            biomass_dm_kg_ha := biomass_dm_kg_ha st3
              + rue stg * (rad w * (1 - exp (- 0.65 * min (lai_max (FieldConfig.crop fld))
                 (lai st3 + lai_gain stg * lai st3 * (1 - lai st3 / lai_max (FieldConfig.crop fld))
                    * stress_w st3 * stress_n st3))))
                * stress_w st3 * stress_n st3\<rparr>)
       (FieldConfig.crop fld) = Inr st'"
proof -
  let ?c = "FieldConfig.crop fld"
  let ?wb = "water_balance
       (st\<lparr>date := WeatherDay.date w, dap := dap st + 1,
           gdd_accum := gdd_accum st + gdd_day (tmin w) (tmax w) (tb ?c)\<rparr>)
       (soil fld) (rain w + irrigation_mm_day (management fld))
       (etc_from_kc (case et0 w of Some e \<Rightarrow> e
                     | None \<Rightarrow> max 2 (0.0023 * (tmax w - tmin w) * ((tmin w + tmax w) / 2) + 2))
                    (kc (projr (py_index (stages ?c) (stage_index st)))))"
  from assms obtain stg where 1: "py_index (stages ?c) (stage_index st) = Inr stg"
    by (cases "py_index (stages ?c) (stage_index st)") (simp_all add: step_day_def Let_def)
  from assms 1 obtain st2 ta se where 2: "?wb = Inr (st2, ta, se)"
    by (cases ?wb) (auto simp add: step_day_def Let_def)
  from assms 1 2 obtain st3 where 3: "nutrients st2 stg ?c 8 = Inr st3"
    by (cases "nutrients st2 stg ?c 8") (simp_all add: step_day_def Let_def)
  from assms 1 2 3 have 4: "lai_max ?c \<noteq> 0"
    by (auto simp add: step_day_def Let_def)
  from assms 1 2 3 4 have 5: "advance_stage
       (st3\<lparr>lai := min (lai_max ?c)
                 (lai st3 + lai_gain stg * lai st3 * (1 - lai st3 / lai_max ?c)
                    * stress_w st3 * stress_n st3),
            biomass_dm_kg_ha := biomass_dm_kg_ha st3
              + rue stg * (rad w * (1 - exp (- 0.65 * min (lai_max ?c)
                 (lai st3 + lai_gain stg * lai st3 * (1 - lai st3 / lai_max ?c)
                    * stress_w st3 * stress_n st3))))
                * stress_w st3 * stress_n st3\<rparr>) ?c = Inr st'"
    by (simp add: step_day_def Let_def)
  from 2 have wb2: "water_balance
       (st\<lparr>date := WeatherDay.date w, dap := dap st + 1,
           gdd_accum := gdd_accum st + gdd_day (tmin w) (tmax w) (tb ?c)\<rparr>)
       (soil fld) (rain w + irrigation_mm_day (management fld))
       (etc_from_kc (case et0 w of Some e \<Rightarrow> e
                     | None \<Rightarrow> max 2 (0.0023 * (tmax w - tmin w) * ((tmin w + tmax w) / 2) + 2))
                    (kc stg)) = Inr (st2, ta, se)"
    by (simp add: 1)
  show thesis by (rule that[OF 1 wb2 3 4 5])
qed

lemma water_balance_fields:
  assumes "water_balance st sl inflow etc_pot = Inr (st', ta, se)"
  shows "lai st' = lai st" "stress_n st' = stress_n st" "stage_index st' = stage_index st"
    "biomass_dm_kg_ha st' = biomass_dm_kg_ha st" "gdd_accum st' = gdd_accum st"
    "dap st' = dap st" "FieldState.date st' = FieldState.date st" "notes st' = notes st"
proof -
  from assms obtain a b where e: "st' = st\<lparr>soil_water_mm := a, stress_w := b\<rparr>"
    by (rule water_balanceE)
  show "lai st' = lai st" "stress_n st' = stress_n st" "stage_index st' = stage_index st"
    "biomass_dm_kg_ha st' = biomass_dm_kg_ha st" "gdd_accum st' = gdd_accum st"
    "dap st' = dap st" "FieldState.date st' = FieldState.date st" "notes st' = notes st"
    by (simp_all add: e)
qed

lemma etc_from_kc_nonneg: "0 \<le> etc_from_kc e k"
  by (simp add: etc_from_kc_def)

lemma step_day_fields:
  assumes sd: "step_day fld st w = Inr st'"
  obtains stg where
    "py_index (stages (FieldConfig.crop fld)) (stage_index st) = Inr stg"
    "lai_max (FieldConfig.crop fld) \<noteq> 0"
    "0.001 \<le> stress_w st'" "stress_w st' \<le> 1" "0.4 \<le> stress_n st'" "stress_n st' \<le> 1"
    "lai st' = min (lai_max (FieldConfig.crop fld))
        (lai st + lai_gain stg * lai st * (1 - lai st / lai_max (FieldConfig.crop fld))
           * stress_w st' * stress_n st')"
    "biomass_dm_kg_ha st' = biomass_dm_kg_ha st
        + rue stg * (rad w * (1 - exp (- 0.65 * lai st'))) * stress_w st' * stress_n st'"
    "gdd_accum st' = gdd_accum st + gdd_day (tmin w) (tmax w) (tb (FieldConfig.crop fld))"
    "dap st' = dap st + 1"
    "FieldState.date st' = WeatherDay.date w"
    "stage_index st' = stage_index st \<or>
       (stage_index st' = stage_index st + 1
        \<and> stage_index st < int (length (stages (FieldConfig.crop fld))) - 1)"
    "0 \<le> lai st \<Longrightarrow>
       0 \<le> soil_water_mm st' \<and> soil_water_mm st' \<le> rootzone_capacity (soil fld)"
proof -
  let ?c = "FieldConfig.crop fld"
  from sd obtain stg st2 ta se st3 etc_pot st1 where
    idx: "py_index (stages ?c) (stage_index st) = Inr stg" and
    wb: "water_balance
       (st\<lparr>date := WeatherDay.date w, dap := dap st + 1,
           gdd_accum := gdd_accum st + gdd_day (tmin w) (tmax w) (tb ?c)\<rparr>)
       (soil fld) (rain w + irrigation_mm_day (management fld))
       (etc_from_kc etc_pot (kc stg)) = Inr (st2, ta, se)" and
    nu: "nutrients st2 stg ?c 8 = Inr st3" and
    nz: "lai_max ?c \<noteq> 0" and
    adv: "advance_stage st1 ?c = Inr st'" and
    st1: "st1 = st3\<lparr>lai := min (lai_max ?c)
                 (lai st3 + lai_gain stg * lai st3 * (1 - lai st3 / lai_max ?c)
                    * stress_w st3 * stress_n st3),
            biomass_dm_kg_ha := biomass_dm_kg_ha st3
              + rue stg * (rad w * (1 - exp (- 0.65 * min (lai_max ?c)
                 (lai st3 + lai_gain stg * lai st3 * (1 - lai st3 / lai_max ?c)
                    * stress_w st3 * stress_n st3))))
                * stress_w st3 * stress_n st3\<rparr>"
    by (rule step_dayE) blast
  let ?st0 = "st\<lparr>date := WeatherDay.date w, dap := dap st + 1,
           gdd_accum := gdd_accum st + gdd_day (tmin w) (tmax w) (tb ?c)\<rparr>"
  note wf = water_balance_fields[OF wb]
  note ws = water_balance_stress[OF wb]
  note nf = nutrients_frame[OF nu]
  from advance_stage_cases[OF adv]
  have a: "st' = st1 \<or> (st' = st1\<lparr>stage_index := stage_index st1 + 1\<rparr>
                       \<and> stage_index st1 < int (length (stages ?c)) - 1)" .
  have f_lai: "lai st' = lai st1" and f_b: "biomass_dm_kg_ha st' = biomass_dm_kg_ha st1"
    and f_sw: "stress_w st' = stress_w st1" and f_sn: "stress_n st' = stress_n st1"
    and f_so: "soil_water_mm st' = soil_water_mm st1" and f_g: "gdd_accum st' = gdd_accum st1"
    and f_d: "dap st' = dap st1" and f_dt: "FieldState.date st' = FieldState.date st1"
    using a by auto
  have s3_lai: "lai st3 = lai st" using nf(1) wf(1) by simp
  have s3_b: "biomass_dm_kg_ha st3 = biomass_dm_kg_ha st" using nf(5) wf(4) by simp
  have s1_sw: "stress_w st1 = stress_w st3" and s1_sn: "stress_n st1 = stress_n st3"
    and s1_so: "soil_water_mm st1 = soil_water_mm st3" and s1_idx: "stage_index st1 = stage_index st3"
    and s1_g: "gdd_accum st1 = gdd_accum st3" and s1_d: "dap st1 = dap st3"
    and s1_dt: "FieldState.date st1 = FieldState.date st3"
    by (simp_all add: st1)
  have s1_lai: "lai st1 = min (lai_max ?c)
                 (lai st3 + lai_gain stg * lai st3 * (1 - lai st3 / lai_max ?c)
                    * stress_w st3 * stress_n st3)"
    by (simp add: st1)
  have s1_b: "biomass_dm_kg_ha st1 = biomass_dm_kg_ha st3
              + rue stg * (rad w * (1 - exp (- 0.65 * lai st1))) * stress_w st3 * stress_n st3"
    unfolding s1_lai by (simp add: st1)
  have sw_eq: "stress_w st' = stress_w st2" using f_sw s1_sw nf(3) by simp
  have sn_eq: "stress_n st' = stress_n st3" using f_sn s1_sn by simp
  have c3: "0.001 \<le> stress_w st'" "stress_w st' \<le> 1" using ws sw_eq by simp_all
  have c5: "0.4 \<le> stress_n st'" "stress_n st' \<le> 1" using nf(9,10) sn_eq by simp_all
  have c7: "lai st' = min (lai_max ?c)
        (lai st + lai_gain stg * lai st * (1 - lai st / lai_max ?c) * stress_w st' * stress_n st')"
    unfolding f_lai s1_lai s3_lai sw_eq sn_eq nf(3) ..
  have c8: "biomass_dm_kg_ha st' = biomass_dm_kg_ha st
        + rue stg * (rad w * (1 - exp (- 0.65 * lai st'))) * stress_w st' * stress_n st'"
    unfolding f_b f_lai s1_b s3_b sw_eq sn_eq nf(3) ..
  have c9: "gdd_accum st' = gdd_accum st + gdd_day (tmin w) (tmax w) (tb ?c)"
    using f_g s1_g nf(6) wf(5) by simp
  have c10: "dap st' = dap st + 1" using f_d s1_d nf(7) wf(6) by simp
  have c11: "FieldState.date st' = WeatherDay.date w" using f_dt s1_dt nf(8) wf(7) by simp
  have i1: "stage_index st1 = stage_index st" using s1_idx nf(4) wf(3) by simp
  have c12: "stage_index st' = stage_index st \<or>
       (stage_index st' = stage_index st + 1 \<and> stage_index st < int (length (stages ?c)) - 1)"
    using a i1 by auto
  have c13: "0 \<le> soil_water_mm st' \<and> soil_water_mm st' \<le> rootzone_capacity (soil fld)"
    if l: "0 \<le> lai st"
  proof -
    have "0 \<le> lai ?st0" using l by simp
    from water_balance_soil[OF wb etc_from_kc_nonneg this]
    show ?thesis using f_so s1_so nf(2) by simp
  qed
  show thesis by (rule that[OF idx nz c3 c5 c7 c8 c9 c10 c11 c12 c13])
qed

lemma day_result_fields:
  assumes "day_result fld st w = Inr d"
  shows "DayResult.date d = WeatherDay.date w"
    "DayResult.lai d = lai st" "DayResult.biomass_dm_kg_ha d = biomass_dm_kg_ha st"
    "DayResult.soil_water_mm d = soil_water_mm st" "DayResult.stress_w d = stress_w st"
    "DayResult.stress_n d = stress_n st"
    "py_index (stages (FieldConfig.crop fld)) (stage_index st) = Inr stg
       \<Longrightarrow> stage d = StageParams.name stg"
  using assms by (auto simp: day_result_def Let_def split: sum.splits)

lemma day_result_total:
  assumes "py_index (stages (FieldConfig.crop fld)) (stage_index st) = Inr stg"
  shows "\<exists>d. day_result fld st w = Inr d"
proof -
  from py_index_Inr(3)[OF assms] have "stages (FieldConfig.crop fld) \<noteq> []" by auto
  from py_index_last[OF this] show ?thesis using assms by (simp add: day_result_def Let_def)
qed

lemma run_loop_length:
  "run_loop fld st ws = Inr tr \<Longrightarrow> length tr = length ws"
  by (induction ws arbitrary: st tr) (auto split: sum.splits)

lemma run_loop_chain:
  "run_loop fld st ws = Inr tr \<Longrightarrow> i < length tr \<Longrightarrow>
     step_day fld (if i = 0 then st else fst (tr ! (i - 1))) (ws ! i) = Inr (fst (tr ! i))
     \<and> day_result fld (fst (tr ! i)) (ws ! i) = Inr (snd (tr ! i))"
proof (induction ws arbitrary: st tr i)
  case Nil
  then show ?case by simp
next
  case (Cons w ws)
  from Cons.prems(1) obtain st' d rest where
    sd: "step_day fld st w = Inr st'" and dr: "day_result fld st' w = Inr d"
    and rl: "run_loop fld st' ws = Inr rest" and tr: "tr = (st', d) # rest"
    by (auto split: sum.splits)
  show ?case
  proof (cases i)
    case 0
    then show ?thesis using sd dr tr by simp
  next
    case (Suc j)
    with Cons.prems(2) tr have j: "j < length rest" by simp
    from Cons.IH[OF rl j] show ?thesis using Suc tr by (cases j) simp_all
  qed
qed

lemma run_loop_invariant:
  assumes "run_loop fld st ws = Inr tr" and "P st"
    and step: "\<And>s w s'. P s \<Longrightarrow> step_day fld s w = Inr s' \<Longrightarrow> P s'"
    and "i < length tr"
  shows "P (fst (tr ! i))"
  using assms(4)
proof (induction i)
  case 0
  from run_loop_chain[OF assms(1) 0] have "step_day fld st (ws ! 0) = Inr (fst (tr ! 0))" by simp
  from step[OF assms(2) this] show ?case .
next
  case (Suc i)
  then have "P (fst (tr ! i))" by simp
  moreover from run_loop_chain[OF assms(1) Suc.prems]
  have "step_day fld (fst (tr ! i)) (ws ! Suc i) = Inr (fst (tr ! Suc i))" by simp
  ultimately show ?case by (rule step)
qed

lemma run_loop_prev_invariant:
  assumes "run_loop fld st ws = Inr tr" and "P st"
    and step: "\<And>s w s'. P s \<Longrightarrow> step_day fld s w = Inr s' \<Longrightarrow> P s'"
    and "i < length tr"
  shows "P (if i = 0 then st else fst (tr ! (i - 1)))"
proof (cases i)
  case 0
  then show ?thesis using assms(2) by simp
next
  case (Suc j)
  then have "j < length tr" using assms(4) by simp
  have "P (fst (tr ! j))"
    by (rule run_loop_invariant[where P = P, OF assms(1,2) step \<open>j < length tr\<close>])
  then show ?thesis using Suc by simp
qed

lemma run_loop_dates:
  "run_loop fld st ws = Inr tr \<Longrightarrow> map (DayResult.date \<circ> snd) tr = map WeatherDay.date ws"
proof (induction ws arbitrary: st tr)
  case Nil
  then show ?case by simp
next
  case (Cons w ws)
  from Cons.prems(1) obtain st' d rest where
    sd: "step_day fld st w = Inr st'" and dr: "day_result fld st' w = Inr d"
    and rl: "run_loop fld st' ws = Inr rest" and tr: "tr = (st', d) # rest"
    by (auto split: sum.splits)
  from Cons.IH[OF rl] day_result_fields(1)[OF dr] show ?case by (simp add: tr)
qed

lemma run_fieldE:
  assumes "run_field fld ws = Inr r"
  obtains w0 ws' tr y hdate g where
    "ws = w0 # ws'"
    "run_loop fld (initial_state fld w0) ws = Inr tr"
    "estimate_yield fld (map snd tr) = Inr (y, hdate, g)"
    "r = \<lparr>RunResult.field_id = id_cfg fld, series = map snd tr, yield_t_ha = Some y,
          harvest_date = Some hdate, grade = Some g\<rparr>"
  using assms unfolding run_field_def
  by (auto split: list.splits sum.splits prod.splits)

lemma lai_step_bounds:
  fixes l g lm sw sn :: real
  assumes "0 \<le> l" "l \<le> lm" "0.05 \<le> lm" "0 \<le> g" "0 \<le> sw" "0 \<le> sn"
  shows "0 \<le> min lm (l + g * l * (1 - l / lm) * sw * sn)"
    and "min lm (l + g * l * (1 - l / lm) * sw * sn) \<le> lm"
proof -
  have "l / lm \<le> 1" using assms by (simp add: divide_le_eq)
  then have "0 \<le> 1 - l / lm" by simp
  then have "0 \<le> g * l * (1 - l / lm) * sw * sn" using assms by simp
  then show "0 \<le> min lm (l + g * l * (1 - l / lm) * sw * sn)" using assms by simp
  show "min lm (l + g * l * (1 - l / lm) * sw * sn) \<le> lm" by simp
qed

lemma step_day_lai_inv:
  assumes sd: "step_day fld st w = Inr st'"
    and lm: "0.05 \<le> lai_max (FieldConfig.crop fld)"
    and g: "\<forall>s \<in> set (stages (FieldConfig.crop fld)). 0 \<le> lai_gain s"
    and inv: "0 \<le> lai st \<and> lai st \<le> lai_max (FieldConfig.crop fld)"
  shows "0 \<le> lai st' \<and> lai st' \<le> lai_max (FieldConfig.crop fld)"
proof -
  from sd obtain stg where
    idx: "py_index (stages (FieldConfig.crop fld)) (stage_index st) = Inr stg" and
    sw: "0.001 \<le> stress_w st'" and sn: "0.4 \<le> stress_n st'" and
    l: "lai st' = min (lai_max (FieldConfig.crop fld))
        (lai st + lai_gain stg * lai st * (1 - lai st / lai_max (FieldConfig.crop fld))
           * stress_w st' * stress_n st')"
    by (rule step_day_fields)
  from py_index_Inr(3)[OF idx] g have g0: "0 \<le> lai_gain stg" by blast
  have sw0: "0 \<le> stress_w st'" using sw by simp
  have sn0: "0 \<le> stress_n st'" using sn by simp
  from lai_step_bounds[OF conjunct1[OF inv] conjunct2[OF inv] lm g0 sw0 sn0]
  show ?thesis unfolding l by blast
qed

lemma water_balance_total:
  assumes "0 \<le> etc_pot" "0 \<le> lai st"
  shows "\<exists>res. water_balance st sl inflow etc_pot = Inr res"
proof -
  have "0 \<le> min 1 (lai st / 3)" using assms(2) by simp
  then have "0 \<le> etc_pot * min 1 (lai st / 3)" using assms(1) by simp
  then have ne: "etc_pot * min 1 (lai st / 3) + 1 / 1000000 \<noteq> 0" by simp
  show ?thesis unfolding water_balance_def Let_def if_not_P[OF ne] by blast
qed

lemma get_stock_total:
  "k \<in> {''n'', ''p'', ''k''} \<Longrightarrow> \<exists>v. get_stock st k = Inr v"
  by (auto simp: get_stock_def)

lemma nutrient_loop_total:
  "list_all (\<lambda>kv. lower (fst kv) \<in> {''n'', ''p'', ''k''}) xs
     \<Longrightarrow> \<exists>st'. nutrient_loop st nm cap xs = Inr st'"
proof (induction xs arbitrary: st)
  case Nil
  then show ?case by simp
next
  case (Cons a xs)
  obtain key target where a: "a = (key, target)" by (cases a)
  from Cons.prems a have k: "lower key \<in> {''n'', ''p'', ''k''}"
    and rest: "list_all (\<lambda>kv. lower (fst kv) \<in> {''n'', ''p'', ''k''}) xs" by simp_all
  from get_stock_total[OF k] obtain v where g: "get_stock st (lower key) = Inr v" by blast
  show ?case unfolding a using Cons.IH[OF rest] by (simp add: g Let_def)
qed

lemma nutrients_total:
  assumes "list_all (\<lambda>kv. lower (fst kv) \<in> {''n'', ''p'', ''k''}) (nuptake_target stg)"
  shows "\<exists>st'. nutrients st stg c cap = Inr st'"
proof -
  from nutrient_loop_total[OF assms] obtain st1 where
    "nutrient_loop st (StageParams.name stg) cap (nuptake_target stg) = Inr st1" by blast
  then show ?thesis by (simp add: nutrients_def Let_def)
qed

lemma step_day_total:
  assumes ok: "crop_ok (FieldConfig.crop fld)"
    and idx: "py_index (stages (FieldConfig.crop fld)) (stage_index st) = Inr stg"
    and lai: "0 \<le> lai st"
  shows "\<exists>st'. step_day fld st w = Inr st'"
proof -
  let ?c = "FieldConfig.crop fld"
  let ?st0 = "st\<lparr>date := WeatherDay.date w, dap := dap st + 1,
           gdd_accum := gdd_accum st + gdd_day (tmin w) (tmax w) (tb ?c)\<rparr>"
  let ?etc = "etc_from_kc (case et0 w of Some e \<Rightarrow> e
                     | None \<Rightarrow> max 2 (0.0023 * (tmax w - tmin w) * ((tmin w + tmax w) / 2) + 2))
                    (kc stg)"
  have l0: "0 \<le> lai ?st0" using lai by simp
  from water_balance_total[OF etc_from_kc_nonneg l0]
  obtain st2 ta se where wb: "water_balance ?st0 (soil fld)
      (rain w + irrigation_mm_day (management fld)) ?etc = Inr (st2, ta, se)"
    by (metis prod_cases3)
  from py_index_Inr(3)[OF idx] ok
  have keys: "list_all (\<lambda>kv. lower (fst kv) \<in> {''n'', ''p'', ''k''}) (nuptake_target stg)"
    by (auto simp: crop_ok_def list_all_iff)
  from nutrients_total[OF keys] obtain st3 where nu: "nutrients st2 stg ?c 8 = Inr st3" by blast
  have nz: "lai_max ?c \<noteq> 0" using ok by (auto simp: crop_ok_def)
  have "\<exists>st'. advance_stage
       (st3\<lparr>lai := min (lai_max ?c)
                 (lai st3 + lai_gain stg * lai st3 * (1 - lai st3 / lai_max ?c)
                    * stress_w st3 * stress_n st3),
            biomass_dm_kg_ha := biomass_dm_kg_ha st3
              + rue stg * (rad w * (1 - exp (- 0.65 * min (lai_max ?c)
                 (lai st3 + lai_gain stg * lai st3 * (1 - lai st3 / lai_max ?c)
                    * stress_w st3 * stress_n st3))))
                * stress_w st3 * stress_n st3\<rparr>) ?c = Inr st'"
  proof (rule advance_stage_total)
    have "stage_index st3 = stage_index st"
      using nutrients_frame(4)[OF nu] water_balance_fields(3)[OF wb] by simp
    then show "py_index (stages ?c) (stage_index (st3\<lparr>lai := min (lai_max ?c)
                 (lai st3 + lai_gain stg * lai st3 * (1 - lai st3 / lai_max ?c)
                    * stress_w st3 * stress_n st3),
            biomass_dm_kg_ha := biomass_dm_kg_ha st3
              + rue stg * (rad w * (1 - exp (- 0.65 * min (lai_max ?c)
                 (lai st3 + lai_gain stg * lai st3 * (1 - lai st3 / lai_max ?c)
                    * stress_w st3 * stress_n st3))))
                * stress_w st3 * stress_n st3\<rparr>)) = Inr stg"
      using idx by simp
  qed
  then show ?thesis using idx wb nu nz by (simp add: step_day_def Let_def)
qed

lemma run_inv_step:
  assumes ok: "crop_ok (FieldConfig.crop fld)" and inv: "run_inv fld st"
    and sd: "step_day fld st w = Inr st'"
  shows "run_inv fld st'"
proof -
  from ok have lm: "0.05 \<le> lai_max (FieldConfig.crop fld)"
    and g: "\<forall>s \<in> set (stages (FieldConfig.crop fld)). 0 \<le> lai_gain s"
    by (auto simp: crop_ok_def list_all_iff)
  from inv have l: "0 \<le> lai st \<and> lai st \<le> lai_max (FieldConfig.crop fld)"
    by (simp add: run_inv_def)
  note l' = step_day_lai_inv[OF sd lm g l]
  from sd obtain stg where
    "stage_index st' = stage_index st \<or>
       (stage_index st' = stage_index st + 1
        \<and> stage_index st < int (length (stages (FieldConfig.crop fld))) - 1)"
    by (rule step_day_fields)
  then show ?thesis using inv l' by (auto simp: run_inv_def)
qed

lemma run_inv_initial:
  "crop_ok (FieldConfig.crop fld) \<Longrightarrow> run_inv fld (initial_state fld w0)"
  by (auto simp: run_inv_def crop_ok_def initial_state_def new_FieldState_def)

lemma run_loop_total:
  assumes ok: "crop_ok (FieldConfig.crop fld)"
  shows "run_inv fld st \<Longrightarrow> \<exists>tr. run_loop fld st ws = Inr tr"
proof (induction ws arbitrary: st)
  case Nil
  then show ?case by simp
next
  case (Cons w ws)
  from Cons.prems have i: "0 \<le> stage_index st"
    "stage_index st < int (length (stages (FieldConfig.crop fld)))" and l: "0 \<le> lai st"
    by (simp_all add: run_inv_def)
  note idx = py_index_nonneg[OF i]
  from step_day_total[OF ok idx l] obtain st' where sd: "step_day fld st w = Inr st'" by blast
  note inv' = run_inv_step[OF ok Cons.prems sd]
  then have i': "0 \<le> stage_index st'"
    "stage_index st' < int (length (stages (FieldConfig.crop fld)))"
    by (simp_all add: run_inv_def)
  from day_result_total[OF py_index_nonneg[OF i']] obtain d where
    dr: "day_result fld st' w = Inr d" by blast
  from Cons.IH[OF inv'] obtain rest where "run_loop fld st' ws = Inr rest" by blast
  then show ?case using sd dr by simp
qed

lemma find_enumerate_bound:
  assumes "find P (enumerate 0 xs) = Some (i, v)"
  shows "i < length xs" and "xs ! i = v" and "P (i, v)"
proof -
  from assms obtain k where k: "k < length (enumerate 0 xs)" "enumerate 0 xs ! k = (i, v)"
    and p: "P (enumerate 0 xs ! k)"
    by (auto simp: find_Some_iff)
  from k have kl: "k < length xs" by simp
  have "enumerate 0 xs ! k = (k, xs ! k)" using kl by (simp add: nth_enumerate_eq)
  with k(2) have "i = k" "v = xs ! k" by auto
  then show "i < length xs" "xs ! i = v" using kl by simp_all
  show "P (i, v)" using p k(2) by simp
qed

lemma maturity_idx_bound: "ser \<noteq> [] \<Longrightarrow> maturity_idx ser < length ser"
  by (auto simp: maturity_idx_def split: option.splits dest: find_enumerate_bound(1))

lemma estimate_yield_eq:
  assumes ne: "ser \<noteq> []"
  shows "estimate_yield fld ser =
     Inr (DayResult.biomass_dm_kg_ha (last ser)
            * max 0.3 (min 1 (hi (FieldConfig.crop fld)
                * (1 - dict_get (stress_sensitivity (FieldConfig.crop fld)) ''flower_water'' 0
                         * (1 - (if ''flowering'' \<in> stage ` set ser
                                 then stage_min ser ''flowering'' else 1))
                     - dict_get (stress_sensitivity (FieldConfig.crop fld)) ''grainfill_water'' 0
                         * (1 - (if ''grainfill'' \<in> stage ` set ser
                                 then stage_min ser ''grainfill'' else 1))))) / 1000,
          DayResult.date (ser ! maturity_idx ser),
          (let avg = ((if ''flowering'' \<in> stage ` set ser
                       then stage_min ser ''flowering'' else 1)
                      + (if ''grainfill'' \<in> stage ` set ser
                         then stage_min ser ''grainfill'' else 1)) / 2
           in if 0.8 < avg then ''A'' else if 0.6 < avg then ''B'' else ''C''))"
proof -
  let ?P = "\<lambda>(i, d). (stage d = ''maturity'' \<or> stage d = ''grainfill'') \<and> 0 < (i::nat)"
  have len: "0 < length ser" using ne by simp
  have l1: "int (length ser) - 1 = int (length ser - 1)" using len by linarith
  have m: "(case find ?P (enumerate 0 ser) of Some (i, d) \<Rightarrow> int i
            | None \<Rightarrow> int (length ser) - 1) = int (maturity_idx ser)"
    unfolding maturity_idx_def l1 by (simp split: option.splits)
  have "py_index ser (int (maturity_idx ser)) = Inr (ser ! nat (int (maturity_idx ser)))"
    by (rule py_index_nonneg) (simp_all add: maturity_idx_bound[OF ne])
  then have p: "py_index ser (int (maturity_idx ser)) = Inr (ser ! maturity_idx ser)" by simp
  show ?thesis
    unfolding estimate_yield_def Let_def m p py_index_last[OF ne] by simp
qed

lemma run_field_total:
  assumes ok: "crop_ok (FieldConfig.crop fld)" and ne: "ws \<noteq> []"
  shows "\<exists>r. run_field fld ws = Inr r"
proof -
  from ne obtain w0 ws' where ws: "ws = w0 # ws'" by (cases ws) auto
  from run_loop_total[OF ok run_inv_initial[OF ok]]
  obtain tr where tr: "run_loop fld (initial_state fld w0) ws = Inr tr" by blast
  from run_loop_length[OF tr] ne have "map snd tr \<noteq> []" by auto
  from estimate_yield_eq[OF this] obtain y hdate g where
    "estimate_yield fld (map snd tr) = Inr (y, hdate, g)" by blast
  then show ?thesis using tr ws by (simp add: run_field_def)
qed

lemma lower_N: "lower ''N'' = ''n''" "lower ''P'' = ''p''" "lower ''K'' = ''k''"
  by (simp_all add: lower_def lower_char_def Let_def char_of_def bit_Suc_0_iff)

lemma crop_ok_maize: "crop_ok maize_defaults"
  by (simp add: crop_ok_def maize_defaults_def lower_N)

lemma add_task_present:
  "list_ex (\<lambda>t. same_pair t task) (tasks pl) \<Longrightarrow> add_task pl task = pl"
  by (simp add: add_task_def)

lemma add_task_absent:
  "\<not> list_ex (\<lambda>t. same_pair t task) (tasks pl)
     \<Longrightarrow> add_task pl task = pl\<lparr>tasks := tasks pl @ [task]\<rparr>"
  by (simp add: add_task_def)

lemma add_task_then_present:
  "same_pair task task' \<Longrightarrow> list_ex (\<lambda>t. same_pair t task') (tasks (add_task pl task))"
  by (auto simp: add_task_def same_pair_def list_ex_iff)

lemma field_crops:
  "FieldConfig.crop field_dry = maize_defaults" "FieldConfig.crop field_irrig = maize_defaults"
  by (simp_all add: field_dry_def field_irrig_def)

lemma dry_weather_length: "length dry_weather = 10"
  by (simp add: dry_weather_def)

lemma maize_lai_params:
  "0.05 \<le> lai_max maize_defaults" "\<forall>s \<in> set (stages maize_defaults). 0 \<le> lai_gain s"
  using crop_ok_maize by (simp_all add: crop_ok_def list_all_iff)

lemma run_field_series_nonempty:
  assumes "run_field fld ws = Inr r"
  shows "series r \<noteq> []" and "length (series r) = length ws"
proof -
  from assms obtain w0 ws' tr where ws: "ws = w0 # ws'"
    and tr: "run_loop fld (initial_state fld w0) ws = Inr tr" and s: "series r = map snd tr"
    by (rule run_fieldE) simp
  from run_loop_length[OF tr] show "length (series r) = length ws" by (simp add: s)
  then show "series r \<noteq> []" using ws by auto
qed

lemma step_day_soil:
  assumes sd: "step_day fld st w = Inr st'" and l: "0 \<le> lai st"
  shows "0 \<le> soil_water_mm st' \<and> soil_water_mm st' \<le> rootzone_capacity (soil fld)"
proof (rule step_day_fields[OF sd])
  assume "0 \<le> lai st \<Longrightarrow>
       0 \<le> soil_water_mm st' \<and> soil_water_mm st' \<le> rootzone_capacity (soil fld)"
  from this[OF l] show ?thesis .
qed

lemma step_day_index:
  assumes sd: "step_day fld st w = Inr st'"
  shows "stage_index st \<le> stage_index st'" and "stage_index st' \<le> stage_index st + 1"
    and "stage_index st' \<le> int (length (stages (FieldConfig.crop fld))) - 1"
proof -
  from sd obtain stg where
    idx: "py_index (stages (FieldConfig.crop fld)) (stage_index st) = Inr stg" and
    c: "stage_index st' = stage_index st \<or>
       (stage_index st' = stage_index st + 1
        \<and> stage_index st < int (length (stages (FieldConfig.crop fld))) - 1)"
    by (rule step_day_fields)
  note b = py_index_Inr(2)[OF idx]
  show "stage_index st \<le> stage_index st'" using c by auto
  show "stage_index st' \<le> stage_index st + 1" using c by auto
  show "stage_index st' \<le> int (length (stages (FieldConfig.crop fld))) - 1"
    using c b by auto
qed

lemma run_loop_index:
  assumes tr: "run_loop fld st ws = Inr tr" and st: "0 \<le> stage_index st" and i: "i < length tr"
  shows "0 \<le> stage_index (fst (tr ! i))"
    and "stage_index (fst (tr ! i)) \<le> int (length (stages (FieldConfig.crop fld))) - 1"
    and "stage (snd (tr ! i))
           = StageParams.name (stages (FieldConfig.crop fld) ! nat (stage_index (fst (tr ! i))))"
    and "stage_index (if i = 0 then st else fst (tr ! (i - 1))) \<le> stage_index (fst (tr ! i))"
    and "stage_index (fst (tr ! i)) \<le> stage_index (if i = 0 then st else fst (tr ! (i - 1))) + 1"
proof -
  let ?P = "\<lambda>s. 0 \<le> stage_index s"
  have step: "?P s'" if "?P s0" "step_day fld s0 w = Inr s'" for s0 w s'
    using step_day_index(1)[OF that(2)] that(1) by simp
  show nn: "0 \<le> stage_index (fst (tr ! i))"
    by (rule run_loop_invariant[where P = ?P, OF tr st step i])
  from run_loop_chain[OF tr i]
  have sd: "step_day fld (if i = 0 then st else fst (tr ! (i - 1))) (ws ! i) = Inr (fst (tr ! i))"
    and dr: "day_result fld (fst (tr ! i)) (ws ! i) = Inr (snd (tr ! i))"
    by simp_all
  show ub: "stage_index (fst (tr ! i)) \<le> int (length (stages (FieldConfig.crop fld))) - 1"
    by (rule step_day_index(3)[OF sd])
  from ub have "stage_index (fst (tr ! i)) < int (length (stages (FieldConfig.crop fld)))" by simp
  from day_result_fields(7)[OF dr py_index_nonneg[OF nn this]]
  show "stage (snd (tr ! i))
           = StageParams.name (stages (FieldConfig.crop fld) ! nat (stage_index (fst (tr ! i))))" .
  show "stage_index (if i = 0 then st else fst (tr ! (i - 1))) \<le> stage_index (fst (tr ! i))"
    by (rule step_day_index(1)[OF sd])
  show "stage_index (fst (tr ! i)) \<le> stage_index (if i = 0 then st else fst (tr ! (i - 1))) + 1"
    by (rule step_day_index(2)[OF sd])
qed

lemma initial_state_fields:
  "stage_index (initial_state fld w0) = 0"
  "lai (initial_state fld w0) = 0.05"
  "biomass_dm_kg_ha (initial_state fld w0) = 0"
  "soil_water_mm (initial_state fld w0) = min 120 (rootzone_capacity (soil fld))"
  "FieldState.date (initial_state fld w0) = WeatherDay.date w0"
  by (simp_all add: initial_state_def new_FieldState_def)

lemma run_field_trace:
  assumes "run_field fld ws = Inr r"
  shows "\<exists>tr. run_loop fld (initial_state fld (hd ws)) ws = Inr tr \<and> series r = map snd tr"
proof -
  from assms obtain w0 ws' tr where "ws = w0 # ws'"
    and "run_loop fld (initial_state fld w0) ws = Inr tr" and "series r = map snd tr"
    by (rule run_fieldE) simp
  then show ?thesis by simp
qed

lemma dry_run_ok:
  "run_field field_dry dry_weather = Inr dry_result"
  "run_loop field_dry (initial_state field_dry (hd dry_weather)) dry_weather = Inr dry_trace"
  "step_day field_dry (initial_state field_dry (hd dry_weather)) (hd dry_weather) = Inr dry_first"
  "length dry_trace = 10"
  "series dry_result = map snd dry_trace"
proof -
  have ok: "crop_ok (FieldConfig.crop field_dry)" by (simp add: field_crops crop_ok_maize)
  have ne: "dry_weather \<noteq> []" using dry_weather_length by auto
  from run_field_total[OF ok ne] obtain r where r: "run_field field_dry dry_weather = Inr r"
    by blast
  then show 1: "run_field field_dry dry_weather = Inr dry_result" by (simp add: dry_result_def)
  from run_loop_total[OF ok run_inv_initial[OF ok]] obtain tr where
    tr: "run_loop field_dry (initial_state field_dry (hd dry_weather)) dry_weather = Inr tr"
    by blast
  then show 2: "run_loop field_dry (initial_state field_dry (hd dry_weather)) dry_weather
                  = Inr dry_trace"
    by (simp add: dry_trace_def)
  from run_loop_length[OF 2] show 4: "length dry_trace = 10" by (simp add: dry_weather_length)
  then have "0 < length dry_trace" by simp
  from run_loop_chain[OF 2 this]
  show "step_day field_dry (initial_state field_dry (hd dry_weather)) (hd dry_weather)
          = Inr dry_first"
    using ne by (simp add: dry_first_def hd_conv_nth)
  from run_field_trace[OF 1] 2 show "series dry_result = map snd dry_trace" by auto
qed

lemma stage_min_spec: "stage_min ser nm = spec_stage_min ser nm"
proof (cases "\<exists>d \<in> set ser. stage d = nm")
  case True
  let ?vals = "map DayResult.stress_w (filter (\<lambda>d. stage d = nm) ser)"
  from True have ne: "?vals \<noteq> []" by (auto simp: filter_empty_conv)
  have "set ?vals = DayResult.stress_w ` {d \<in> set ser. stage d = nm}" by auto
  with min_list_Min[OF ne] have "min_list ?vals
      = Min (DayResult.stress_w ` {d \<in> set ser. stage d = nm})" by simp
  then show ?thesis using True ne by (simp add: stage_min_def spec_stage_min_def Let_def)
next
  case False
  then have "filter (\<lambda>d. stage d = nm) ser = []" by (auto simp: filter_empty_conv)
  then show ?thesis using False by (simp add: stage_min_def spec_stage_min_def)
qed

lemma stage_min_absent:
  "nm \<notin> stage ` set ser \<Longrightarrow> spec_stage_min ser nm = 1"
  by (auto simp: spec_stage_min_def)

lemma spec_clamp_max_min: "lo \<le> up \<Longrightarrow> max lo (min up v) = spec_clamp v lo up"
  by (auto simp: spec_clamp_def)

lemma find_enumerate_least:
  assumes "find P (enumerate 0 xs) = Some (i, v)" and "j < i"
  shows "\<not> P (j, xs ! j)"
proof -
  from assms(1) obtain k where k: "k < length (enumerate 0 xs)" "enumerate 0 xs ! k = (i, v)"
    and least: "\<forall>j<k. \<not> P (enumerate 0 xs ! j)"
    by (auto simp: find_Some_iff)
  from k have kl: "k < length xs" by simp
  then have "enumerate 0 xs ! k = (k, xs ! k)" by (simp add: nth_enumerate_eq)
  with k(2) have ik: "i = k" by auto
  with assms(2) kl have "enumerate 0 xs ! j = (j, xs ! j)" by (simp add: nth_enumerate_eq)
  with least assms(2) ik show ?thesis by auto
qed

lemma maturity_idx_spec:
  assumes ne: "ser \<noteq> []"
  shows "(0 < maturity_idx ser \<and> maturity_idx ser < length ser
          \<and> ripe (ser ! maturity_idx ser)
          \<and> (\<forall>j. 0 < j \<and> j < maturity_idx ser \<longrightarrow> \<not> ripe (ser ! j)))
       \<or> ((\<forall>i. 0 < i \<and> i < length ser \<longrightarrow> \<not> ripe (ser ! i))
          \<and> maturity_idx ser = length ser - 1)"
proof (cases "find (\<lambda>(i, d). (stage d = ''maturity'' \<or> stage d = ''grainfill'') \<and> 0 < i)
                   (enumerate 0 ser)")
  case None
  have "\<not> ripe (ser ! i)" if "0 < i" "i < length ser" for i
  proof -
    from that(2) have "(i, ser ! i) \<in> set (enumerate 0 ser)"
      by (auto simp: in_set_enumerate_eq)
    with None that(1) show ?thesis by (auto simp: find_None_iff ripe_def)
  qed
  moreover from None have "maturity_idx ser = length ser - 1" by (simp add: maturity_idx_def)
  ultimately show ?thesis by blast
next
  case (Some a)
  obtain i d where a: "a = (i, d)" by (cases a)
  from Some a have m: "maturity_idx ser = i" by (simp add: maturity_idx_def)
  note f = Some[unfolded a]
  note b = find_enumerate_bound[OF f]
  from b(3) b(2) have r: "ripe (ser ! i)" and pos: "0 < i" by (auto simp: ripe_def)
  have "\<not> ripe (ser ! j)" if "0 < j" "j < i" for j
    using find_enumerate_least[OF f that(2)] that(1) by (simp add: ripe_def)
  then show ?thesis using m b(1) r pos by blast
qed

lemma crop_keys_sorted: "sort (map fst crop_map) =
  [''amaranth'', ''apple'', ''banana'', ''beans'', ''broccoli'', ''cabbage'', ''carrot'',
   ''cassava'', ''chickpea'', ''cowpea'', ''cucumber'', ''fava beans'', ''garlic'', ''grapes'',
   ''guava'', ''lemon'', ''lentils'', ''maize'', ''mango'', ''mung bean'', ''okra'', ''onion'',
   ''orange'', ''papaya'', ''pepper'', ''pineapple'', ''rice'', ''sorghum'', ''spinach'',
   ''tomato'', ''yams'']"
  by (simp add: crop_map_def)

lemma supported_list_repr: "repr_str_list (sort (map fst crop_map)) =
  ''['amaranth', 'apple', 'banana', 'beans', 'broccoli', 'cabbage', 'carrot', 'cassava', 'chickpea', 'cowpea', 'cucumber', 'fava beans', 'garlic', 'grapes', 'guava', 'lemon', 'lentils', 'maize', 'mango', 'mung bean', 'okra', 'onion', 'orange', 'papaya', 'pepper', 'pineapple', 'rice', 'sorghum', 'spinach', 'tomato', 'yams']''"
  unfolding crop_keys_sorted by (simp add: repr_str_list_def enumerate_eq_zip upt_rec)

lemma lower_strip_examples:
  "strip (lower ''Wheat'') = ''wheat''"
  "lower ''  MAIZE '' = lower ''  maize ''"
  "strip (lower ''  maize '') = ''maize''"
  "strip (lower (''MaiZe'' @ [CHR 0xA0])) = ''maize''"
  "strip (lower ([CHR 0x85] @ ''maize'')) = ''maize''"
  "strip (lower [CHR 0xC9, CHR ''T'', CHR 0xC9]) = [CHR 0xE9, CHR ''t'', CHR 0xE9]"
  by (simp_all add: lower_def lower_char_def Let_def char_of_def bit_Suc_0_iff strip_def
      is_space_def)

lemma crop_map_examples:
  "''wheat'' \<notin> set (map fst crop_map)"
  "map_of crop_map ''maize'' = Some maize_defaults"
  "[CHR 0xE9, CHR ''t'', CHR 0xE9] \<notin> set (map fst crop_map)"
  by (simp_all add: crop_map_def)

lemma map_of_None_keys: "map_of m k = None \<longleftrightarrow> k \<notin> set (map fst m)"
  by (simp add: map_of_eq_None_iff)

lemma plan_loop_map: "plan_loop cap xs = map plan_item (planned_tasks cap xs)"
  by (induction xs arbitrary: cap) simp_all

lemma planned_tasks_take: "planned_tasks cap xs = take (length (planned_tasks cap xs)) xs"
  by (induction xs arbitrary: cap) simp_all

lemma planned_tasks_nonempty: "xs \<noteq> [] \<Longrightarrow> planned_tasks cap xs \<noteq> []"
  by (cases xs) simp_all

lemma planned_tasks_partial:
  "0 < m \<Longrightarrow> m < length (planned_tasks cap xs)
     \<Longrightarrow> total_yield (take m (planned_tasks cap xs)) < cap"
proof (induction xs arbitrary: cap m)
  case Nil
  then show ?case by simp
next
  case (Cons t xs)
  show ?case
  proof (cases "cap - expected_yield_t_ha t \<le> 0")
    case True
    with Cons.prems show ?thesis by simp
  next
    case False
    then have pt: "planned_tasks cap (t # xs)
                     = t # planned_tasks (cap - expected_yield_t_ha t) xs" by simp
    obtain j where m: "m = Suc j" using Cons.prems(1) by (cases m) auto
    show ?thesis
    proof (cases j)
      case 0
      then show ?thesis using False m pt by (simp add: total_yield_def)
    next
      case (Suc i)
      then have "0 < j" by simp
      moreover have "j < length (planned_tasks (cap - expected_yield_t_ha t) xs)"
        using Cons.prems(2) m pt by simp
      ultimately have "total_yield (take j (planned_tasks (cap - expected_yield_t_ha t) xs))
                         < cap - expected_yield_t_ha t"
        by (rule Cons.IH)
      then show ?thesis using m pt by (simp add: total_yield_def)
    qed
  qed
qed

lemma planned_tasks_cut:
  "length (planned_tasks cap xs) < length xs \<Longrightarrow> cap \<le> total_yield (planned_tasks cap xs)"
proof (induction xs arbitrary: cap)
  case Nil
  then show ?case by simp
next
  case (Cons t xs)
  show ?case
  proof (cases "cap - expected_yield_t_ha t \<le> 0")
    case True
    then show ?thesis by (simp add: total_yield_def)
  next
    case False
    with Cons.prems have "length (planned_tasks (cap - expected_yield_t_ha t) xs) < length xs"
      by simp
    from Cons.IH[OF this] show ?thesis using False by (simp add: total_yield_def)
  qed
qed

lemma planned_tasks_overshoot:
  assumes cap: "0 \<le> cap" and ne: "planned_tasks cap xs \<noteq> []"
  shows "total_yield (planned_tasks cap xs) - cap
           \<le> expected_yield_t_ha (last (planned_tasks cap xs))"
proof -
  let ?acc = "planned_tasks cap xs"
  let ?m = "length ?acc - 1"
  have split: "?acc = take ?m ?acc @ [last ?acc]"
    using ne by (metis append_butlast_last_id butlast_conv_take)
  have "total_yield ?acc = total_yield (take ?m ?acc) + expected_yield_t_ha (last ?acc)"
    by (subst split) (simp add: total_yield_def)
  moreover have "total_yield (take ?m ?acc) \<le> cap"
  proof (cases "?m = 0")
    case True
    then show ?thesis using cap by (simp add: total_yield_def)
  next
    case False
    then have "0 < ?m" "?m < length ?acc" using ne by simp_all
    from planned_tasks_partial[OF this] show ?thesis by simp
  qed
  ultimately show ?thesis by simp
qed

lemma plan_item_grade:
  "PlanItem.grade (plan_item t) = (if 0.9 \<le> PlanItem.maturity_ratio (plan_item t) then ''A'' else ''B'')"
  "PlanItem.maturity_ratio (plan_item t) = HarvestTask.maturity_ratio t"
  by (simp_all add: plan_item_def is_ready_def)




lemma dry_weather_mem:
  assumes "w \<in> set dry_weather"
  shows "tmin w = 20" "tmax w = 31" "rain w = 0" "rad w = 18" "et0 w = Some 4.2"
  using assms by (auto simp: dry_weather_def dry_day_def)

lemma dry_weather_nth:
  assumes "i < 10"
  shows "tmin (dry_weather ! i) = 20" "tmax (dry_weather ! i) = 31" "rain (dry_weather ! i) = 0"
    "rad (dry_weather ! i) = 18" "et0 (dry_weather ! i) = Some 4.2"
proof -
  from assms have "dry_weather ! i \<in> set dry_weather"
    by (simp add: dry_weather_length)
  from dry_weather_mem[OF this]
  show "tmin (dry_weather ! i) = 20" "tmax (dry_weather ! i) = 31" "rain (dry_weather ! i) = 0"
    "rad (dry_weather ! i) = 18" "et0 (dry_weather ! i) = Some 4.2" .
qed





lemma run_loop_invariant_mem:
  assumes "run_loop fld st ws = Inr tr" and "P st"
    and step: "\<And>s w s'. P s \<Longrightarrow> w \<in> set ws \<Longrightarrow> step_day fld s w = Inr s' \<Longrightarrow> P s'"
    and "i < length tr"
  shows "P (fst (tr ! i))" and "P (if i = 0 then st else fst (tr ! (i - 1)))"
proof -
  note len = run_loop_length[OF assms(1)]
  have all: "j < length tr \<Longrightarrow> P (fst (tr ! j))" for j
  proof (induction j)
    case 0
    from run_loop_chain[OF assms(1) 0]
    have "step_day fld st (ws ! 0) = Inr (fst (tr ! 0))" by simp
    moreover have "ws ! 0 \<in> set ws" using 0 len by simp
    ultimately show ?case using assms(2) step by blast
  next
    case (Suc j)
    then have "P (fst (tr ! j))" by simp
    moreover from run_loop_chain[OF assms(1) Suc.prems]
    have "step_day fld (fst (tr ! j)) (ws ! Suc j) = Inr (fst (tr ! Suc j))" by simp
    moreover have "ws ! Suc j \<in> set ws" using Suc.prems len by simp
    ultimately show ?case using step by blast
  qed
  show "P (fst (tr ! i))" by (rule all[OF assms(4)])
  show "P (if i = 0 then st else fst (tr ! (i - 1)))"
  proof (cases i)
    case 0
    then show ?thesis using assms(2) by simp
  next
    case (Suc j)
    then have "j < length tr" using assms(4) by simp
    from all[OF this] show ?thesis using Suc by simp
  qed
qed

lemma apar_factor_nonneg: "0 \<le> (x::real) \<Longrightarrow> 0 \<le> 1 - exp (- 0.65 * x)"
  by simp

lemma step_day_biomass_mono:
  assumes sd: "step_day fld st w = Inr st'"
    and lm: "0.05 \<le> lai_max (FieldConfig.crop fld)"
    and gain: "\<forall>s \<in> set (stages (FieldConfig.crop fld)). 0 \<le> lai_gain s"
    and rue: "\<forall>s \<in> set (stages (FieldConfig.crop fld)). 0 \<le> rue s"
    and rad: "0 \<le> rad w"
    and inv: "0 \<le> lai st \<and> lai st \<le> lai_max (FieldConfig.crop fld)"
  shows "biomass_dm_kg_ha st \<le> biomass_dm_kg_ha st'"
proof -
  from sd obtain stg where
    idx: "py_index (stages (FieldConfig.crop fld)) (stage_index st) = Inr stg" and
    sw: "0.001 \<le> stress_w st'" and sn: "0.4 \<le> stress_n st'" and
    b: "biomass_dm_kg_ha st' = biomass_dm_kg_ha st
        + rue stg * (rad w * (1 - exp (- 0.65 * lai st'))) * stress_w st' * stress_n st'"
    by (rule step_day_fields)
  from step_day_lai_inv[OF sd lm gain inv] have l: "0 \<le> lai st'" by simp
  from py_index_Inr(3)[OF idx] rue have r: "0 \<le> rue stg" by blast
  have a: "0 \<le> rad w * (1 - exp (- 0.65 * lai st'))"
    using rad apar_factor_nonneg[OF l] by (rule mult_nonneg_nonneg)
  have c: "0 \<le> rue stg * (rad w * (1 - exp (- 0.65 * lai st')))"
    using r a by (rule mult_nonneg_nonneg)
  have sw0: "0 \<le> stress_w st'" and sn0: "0 \<le> stress_n st'" using sw sn by simp_all
  have d: "0 \<le> rue stg * (rad w * (1 - exp (- 0.65 * lai st'))) * stress_w st'"
    using c sw0 by (rule mult_nonneg_nonneg)
  have "0 \<le> rue stg * (rad w * (1 - exp (- 0.65 * lai st')))
                        * stress_w st' * stress_n st'"
    using d sn0 by (rule mult_nonneg_nonneg)
  then show ?thesis unfolding b by simp
qed

lemma estimate_yield_nonneg:
  assumes e: "estimate_yield fld ser = Inr (y, h, g)"
    and b: "0 \<le> DayResult.biomass_dm_kg_ha (last ser)"
  shows "0 \<le> y"
proof -
  have ne: "ser \<noteq> []" using e by (auto simp: estimate_yield_def py_index_def Let_def)
  have "y = fst (projr (estimate_yield fld ser))" by (simp add: e)
  moreover have "\<exists>hh. fst (projr (estimate_yield fld ser))
      = DayResult.biomass_dm_kg_ha (last ser) * max 0.3 (min 1 hh) / 1000"
    unfolding estimate_yield_eq[OF ne] sum.sel fst_conv by (rule exI, rule refl)
  ultimately obtain hh :: real where
    y: "y = DayResult.biomass_dm_kg_ha (last ser) * max 0.3 (min 1 hh) / 1000" by auto
  have "0 \<le> max 0.3 (min 1 hh)" by simp
  with b have "0 \<le> DayResult.biomass_dm_kg_ha (last ser) * max 0.3 (min 1 hh)"
    by (rule mult_nonneg_nonneg)
  then show ?thesis unfolding y by simp
qed

lemma maize_rue_params: "\<forall>s \<in> set (stages maize_defaults). 0 \<le> rue s"
  by (simp add: maize_defaults_def)

section \<open>The claims\<close>

subsection \<open>C6: registration is idempotent per field and crop\<close>

text \<open>
  Claim C6. Registering a task whose (field id, crop) pair is already in the task list
  leaves the planner unchanged; a task with a new pair is appended, exactly once, at the
  end. Hence a second registration of the same pair is a no-op, whatever the other
  fields of the second task are, both through \<open>add_task\<close> and through
  \<open>register_field_result\<close>.
\<close>

theorem add_task_idempotent:
  "(list_ex (\<lambda>t. same_pair t task) (tasks pl) \<longrightarrow> add_task pl task = pl)
   \<and> (\<not> list_ex (\<lambda>t. same_pair t task) (tasks pl)
        \<longrightarrow> tasks (add_task pl task) = tasks pl @ [task])
   \<and> (same_pair task task' \<longrightarrow> add_task (add_task pl task) task' = add_task pl task)
   \<and> planner (fst (register_field_result
                       (fst (register_field_result mgr fid crp ser yld hdate m))
                       fid crp ser' yld' hdate' m'))
       = planner (fst (register_field_result mgr fid crp ser yld hdate m))"
proof (intro conjI impI)
  show "add_task pl task = pl" if "list_ex (\<lambda>t. same_pair t task) (tasks pl)"
    using that by (rule add_task_present)
  show "tasks (add_task pl task) = tasks pl @ [task]"
    if "\<not> list_ex (\<lambda>t. same_pair t task) (tasks pl)"
    using add_task_absent[OF that] by simp
  show "add_task (add_task pl task) task' = add_task pl task" if "same_pair task task'"
    by (rule add_task_present[OF add_task_then_present[OF that]])
  let ?t = "\<lambda>y h mm. \<lparr>HarvestTask.field_id = fid, crop = crp, planned_date = h,
                  expected_yield_t_ha = y, maturity_ratio = mm,
                  ripe_color = ''#e53935'', actual_yield_t_ha = None, completed = False,
                  notes = None\<rparr>"
  have p1: "planner (fst (register_field_result mg fid crp s y h mm))
              = add_task (planner mg) (?t y h mm)" for mg s y h mm
    by (simp add: register_field_result_def Let_def split: sum.splits)
  have sp: "same_pair (?t yld hdate m) (?t yld' hdate' m')" by (simp add: same_pair_def)
  show "planner (fst (register_field_result
                       (fst (register_field_result mgr fid crp ser yld hdate m))
                       fid crp ser' yld' hdate' m'))
       = planner (fst (register_field_result mgr fid crp ser yld hdate m))"
    unfolding p1 by (rule add_task_present[OF add_task_then_present[OF sp]])
qed

theorem add_task_idempotent_witness:
  "list_ex (\<lambda>t. same_pair t task_a_again) (tasks planner_one)
   \<and> add_task planner_one task_a_again = planner_one
   \<and> \<not> list_ex (\<lambda>t. same_pair t task_b) (tasks planner_one)
   \<and> tasks (add_task planner_one task_b) = [task_a, task_b]
   \<and> same_pair task_b task_a_again = False
   \<and> same_pair task_a task_a_again
   \<and> add_task (add_task planner_one task_a) task_a_again = add_task planner_one task_a"
  using add_task_idempotent[where task = task_a_again and pl = planner_one]
        add_task_idempotent[where task = task_b and pl = planner_one]
        add_task_idempotent[where task = task_a and task' = task_a_again and pl = planner_one]
  by (simp add: planner_one_def same_pair_def task_a_def task_a_again_def task_b_def)

subsection \<open>C1: bounds on every emitted day\<close>

text \<open>
  Claim C1 says that every emitted day has soil water in \<open>[0, capacity]\<close>, water stress in
  \<open>[0.001, 1]\<close>, nitrogen stress in \<open>[0.4, 1]\<close> and leaf-area index in \<open>[0, lai_max]\<close>,
  for every run with non-negative rain and irrigation. As stated it fails: the leaf-area
  index is capped at \<open>lai_max\<close> but has no floor, and the state starts at 0.05. A crop
  whose \<open>lai_max\<close> is 0.005, with the default growth rate 0.12, ends its first day at
  \<open>min(0.005, 0.05 + 0.12 * 0.05 * (1 - 10)) = -0.004\<close>.
\<close>

theorem lai_floor_counterexample:
  "map_sum id (map DayResult.lai \<circ> series) (run_field tiny_canopy_field one_mild_day)
     = Inr [- 0.004]
   \<and> map rain one_mild_day = [2]
   \<and> irrigation_mm_day (management tiny_canopy_field) = 0"
  by (simp add: run_field_def one_mild_day_def tiny_canopy_field_def tiny_canopy_crop_def
      initial_state_def new_FieldState_def step_day_def py_index_def water_balance_def
      rootzone_capacity_def nutrients_def etc_from_kc_def gdd_day_def advance_stage_def
      day_result_def estimate_yield_def stage_min_def Let_def dict_get_def enumerate_eq_zip)

text \<open>
  Claim C1 as amended: for a crop whose \<open>lai_max\<close> is at least the initial leaf-area index
  0.05 and whose stages all have a non-negative \<open>lai_gain\<close>, every day of every completed
  run satisfies the four bounds. Neither the sign of the rain nor that of the irrigation
  is needed.
\<close>

theorem run_field_day_bounds:
  assumes run: "run_field fld ws = Inr r"
    and lm: "0.05 \<le> lai_max (FieldConfig.crop fld)"
    and gain: "\<forall>s \<in> set (stages (FieldConfig.crop fld)). 0 \<le> lai_gain s"
    and d: "d \<in> set (series r)"
  shows "0 \<le> DayResult.soil_water_mm d
       \<and> DayResult.soil_water_mm d \<le> rootzone_capacity (soil fld)
       \<and> 0.001 \<le> DayResult.stress_w d \<and> DayResult.stress_w d \<le> 1
       \<and> 0.4 \<le> DayResult.stress_n d \<and> DayResult.stress_n d \<le> 1
       \<and> 0 \<le> DayResult.lai d \<and> DayResult.lai d \<le> lai_max (FieldConfig.crop fld)"
proof -
  let ?c = "FieldConfig.crop fld"
  let ?P = "\<lambda>s. 0 \<le> lai s \<and> lai s \<le> lai_max ?c"
  from run obtain w0 ws' tr where ws: "ws = w0 # ws'"
    and tr: "run_loop fld (initial_state fld w0) ws = Inr tr" and s: "series r = map snd tr"
    by (rule run_fieldE) simp
  from d s obtain i where i: "i < length tr" and di: "d = snd (tr ! i)"
    by (auto simp: in_set_conv_nth)
  let ?prev = "if i = 0 then initial_state fld w0 else fst (tr ! (i - 1))"
  have P0: "?P (initial_state fld w0)"
    using lm by (simp add: initial_state_def new_FieldState_def)
  have step: "?P s'" if "?P s0" "step_day fld s0 w = Inr s'" for s0 w s'
    by (rule step_day_lai_inv[OF that(2) lm gain that(1)])
  have Pprev: "?P ?prev"
    by (rule run_loop_prev_invariant[where P = ?P, OF tr P0 step i])
  from run_loop_chain[OF tr i] have sd: "step_day fld ?prev (ws ! i) = Inr (fst (tr ! i))"
    and dr: "day_result fld (fst (tr ! i)) (ws ! i) = Inr d"
    by (simp_all add: di)
  note Pcur = step_day_lai_inv[OF sd lm gain Pprev]
  from sd obtain stg where
    sw: "0.001 \<le> stress_w (fst (tr ! i))" "stress_w (fst (tr ! i)) \<le> 1" and
    sn: "0.4 \<le> stress_n (fst (tr ! i))" "stress_n (fst (tr ! i)) \<le> 1"
    by (rule step_day_fields)
  note so' = step_day_soil[OF sd conjunct1[OF Pprev]]
  note f = day_result_fields[OF dr]
  show ?thesis unfolding f(2,4,5,6) using sw sn so' Pcur by blast
qed

theorem run_field_day_bounds_witness:
  "run_field field_dry dry_weather = Inr (projr (run_field field_dry dry_weather))
   \<and> 0.05 \<le> lai_max (FieldConfig.crop field_dry)
   \<and> list_all (\<lambda>s. 0 \<le> lai_gain s) (stages (FieldConfig.crop field_dry))
   \<and> series (projr (run_field field_dry dry_weather)) \<noteq> []
   \<and> 0 \<le> DayResult.soil_water_mm (hd (series (projr (run_field field_dry dry_weather))))
   \<and> DayResult.soil_water_mm (hd (series (projr (run_field field_dry dry_weather))))
        \<le> rootzone_capacity (soil field_dry)
   \<and> 0.001 \<le> DayResult.stress_w (hd (series (projr (run_field field_dry dry_weather))))
   \<and> DayResult.stress_w (hd (series (projr (run_field field_dry dry_weather)))) \<le> 1
   \<and> 0.4 \<le> DayResult.stress_n (hd (series (projr (run_field field_dry dry_weather))))
   \<and> DayResult.stress_n (hd (series (projr (run_field field_dry dry_weather)))) \<le> 1
   \<and> 0 \<le> DayResult.lai (hd (series (projr (run_field field_dry dry_weather))))
   \<and> DayResult.lai (hd (series (projr (run_field field_dry dry_weather))))
        \<le> lai_max (FieldConfig.crop field_dry)"
proof -
  have ok: "crop_ok (FieldConfig.crop field_dry)" by (simp add: field_crops crop_ok_maize)
  have ne: "dry_weather \<noteq> []" using dry_weather_length by auto
  from run_field_total[OF ok ne] obtain r where r: "run_field field_dry dry_weather = Inr r"
    by blast
  have lm: "0.05 \<le> lai_max (FieldConfig.crop field_dry)"
    and g: "\<forall>s \<in> set (stages (FieldConfig.crop field_dry)). 0 \<le> lai_gain s"
    using maize_lai_params by (simp_all add: field_crops)
  note s = run_field_series_nonempty(1)[OF r]
  then have h: "hd (series r) \<in> set (series r)" by simp
  from run_field_day_bounds[OF r lm g h] s lm g show ?thesis
    by (simp add: r list_all_iff)
qed

subsection \<open>C2: the stage index moves by at most one per day\<close>

text \<open>
  Claim C2. A single \<open>step_day\<close> leaves the stage index where it was or adds one to it,
  however far the thermal-time or day-count target was passed, and the index it leaves
  is at most \<open>len(stages) - 1\<close>. Across a run (which starts at index 0) the index of each
  day lies in \<open>0 .. len(stages) - 1\<close>, names the stage recorded in that day's result, is
  at most 1 after the first day, and from one day to the next never decreases and grows
  by at most one.
\<close>

theorem stage_index_advance:
  "(step_day fld st w = Inr st' \<longrightarrow>
      stage_index st \<le> stage_index st' \<and> stage_index st' \<le> stage_index st + 1
      \<and> stage_index st' \<le> int (length (stages (FieldConfig.crop fld))) - 1)
   \<and> (run_field fld ws = Inr r \<longrightarrow>
      (\<exists>tr. run_loop fld (initial_state fld (hd ws)) ws = Inr tr \<and> series r = map snd tr
         \<and> (\<forall>i < length tr.
               0 \<le> stage_index (fst (tr ! i))
               \<and> stage_index (fst (tr ! i)) \<le> int (length (stages (FieldConfig.crop fld))) - 1
               \<and> stage (series r ! i)
                   = StageParams.name (stages (FieldConfig.crop fld)
                                         ! nat (stage_index (fst (tr ! i)))))
         \<and> (0 < length tr \<longrightarrow> stage_index (fst (tr ! 0)) \<le> 1)
         \<and> (\<forall>i. Suc i < length tr \<longrightarrow>
               stage_index (fst (tr ! i)) \<le> stage_index (fst (tr ! Suc i))
               \<and> stage_index (fst (tr ! Suc i)) \<le> stage_index (fst (tr ! i)) + 1)))"
proof (intro conjI impI)
  assume sd: "step_day fld st w = Inr st'"
  show "stage_index st \<le> stage_index st'" by (rule step_day_index(1)[OF sd])
  show "stage_index st' \<le> stage_index st + 1" by (rule step_day_index(2)[OF sd])
  show "stage_index st' \<le> int (length (stages (FieldConfig.crop fld))) - 1"
    by (rule step_day_index(3)[OF sd])
next
  assume run: "run_field fld ws = Inr r"
  from run obtain w0 ws' tr where ws: "ws = w0 # ws'"
    and tr0: "run_loop fld (initial_state fld w0) ws = Inr tr" and s: "series r = map snd tr"
    by (rule run_fieldE) simp
  from tr0 ws have tr: "run_loop fld (initial_state fld (hd ws)) ws = Inr tr" by simp
  have st0: "0 \<le> stage_index (initial_state fld (hd ws))" by (simp add: initial_state_fields)
  note ri = run_loop_index[OF tr st0]
  have a: "\<forall>i < length tr.
               0 \<le> stage_index (fst (tr ! i))
               \<and> stage_index (fst (tr ! i)) \<le> int (length (stages (FieldConfig.crop fld))) - 1
               \<and> stage (series r ! i)
                   = StageParams.name (stages (FieldConfig.crop fld)
                                         ! nat (stage_index (fst (tr ! i))))"
    using ri(1,2,3) by (simp add: s)
  have b: "0 < length tr \<longrightarrow> stage_index (fst (tr ! 0)) \<le> 1"
    using ri(5)[of 0] by (simp add: initial_state_fields)
  have c: "\<forall>i. Suc i < length tr \<longrightarrow>
               stage_index (fst (tr ! i)) \<le> stage_index (fst (tr ! Suc i))
               \<and> stage_index (fst (tr ! Suc i)) \<le> stage_index (fst (tr ! i)) + 1"
  proof (intro allI impI)
    fix i assume i: "Suc i < length tr"
    from ri(4)[OF i] ri(5)[OF i]
    show "stage_index (fst (tr ! i)) \<le> stage_index (fst (tr ! Suc i))
               \<and> stage_index (fst (tr ! Suc i)) \<le> stage_index (fst (tr ! i)) + 1"
      by simp
  qed
  show "\<exists>tr. run_loop fld (initial_state fld (hd ws)) ws = Inr tr \<and> series r = map snd tr
         \<and> (\<forall>i < length tr.
               0 \<le> stage_index (fst (tr ! i))
               \<and> stage_index (fst (tr ! i)) \<le> int (length (stages (FieldConfig.crop fld))) - 1
               \<and> stage (series r ! i)
                   = StageParams.name (stages (FieldConfig.crop fld)
                                         ! nat (stage_index (fst (tr ! i)))))
         \<and> (0 < length tr \<longrightarrow> stage_index (fst (tr ! 0)) \<le> 1)
         \<and> (\<forall>i. Suc i < length tr \<longrightarrow>
               stage_index (fst (tr ! i)) \<le> stage_index (fst (tr ! Suc i))
               \<and> stage_index (fst (tr ! Suc i)) \<le> stage_index (fst (tr ! i)) + 1)"
    using tr s a b c by blast
qed

theorem stage_index_advance_witness:
  "step_day field_dry (initial_state field_dry (hd dry_weather)) (hd dry_weather) = Inr dry_first
   \<and> stage_index (initial_state field_dry (hd dry_weather)) \<le> stage_index dry_first
   \<and> stage_index dry_first \<le> stage_index (initial_state field_dry (hd dry_weather)) + 1
   \<and> stage_index dry_first \<le> int (length (stages (FieldConfig.crop field_dry))) - 1
   \<and> run_field field_dry dry_weather = Inr dry_result
   \<and> length dry_trace = 10
   \<and> stage_index (fst (dry_trace ! 4)) \<le> stage_index (fst (dry_trace ! 5))
   \<and> stage_index (fst (dry_trace ! 5)) \<le> stage_index (fst (dry_trace ! 4)) + 1
   \<and> stage_index (fst (dry_trace ! 9)) \<le> 4"
proof -
  note t = stage_index_advance[where fld = field_dry and ws = dry_weather and r = dry_result
      and st = "initial_state field_dry (hd dry_weather)" and w = "hd dry_weather"
      and st' = dry_first]
  from t dry_run_ok(3) have a:
    "stage_index (initial_state field_dry (hd dry_weather)) \<le> stage_index dry_first
     \<and> stage_index dry_first \<le> stage_index (initial_state field_dry (hd dry_weather)) + 1
     \<and> stage_index dry_first \<le> int (length (stages (FieldConfig.crop field_dry))) - 1"
    by blast
  from t dry_run_ok(1) obtain tr where
    tr: "run_loop field_dry (initial_state field_dry (hd dry_weather)) dry_weather = Inr tr"
    and b: "\<forall>i < length tr.
               0 \<le> stage_index (fst (tr ! i))
               \<and> stage_index (fst (tr ! i))
                    \<le> int (length (stages (FieldConfig.crop field_dry))) - 1
               \<and> stage (series dry_result ! i)
                   = StageParams.name (stages (FieldConfig.crop field_dry)
                                         ! nat (stage_index (fst (tr ! i))))"
    and c: "\<forall>i. Suc i < length tr \<longrightarrow>
               stage_index (fst (tr ! i)) \<le> stage_index (fst (tr ! Suc i))
               \<and> stage_index (fst (tr ! Suc i)) \<le> stage_index (fst (tr ! i)) + 1"
    by blast
  from tr dry_run_ok(2) have e: "tr = dry_trace" by simp
  have "Suc 4 < length dry_trace" "9 < length dry_trace" by (simp_all add: dry_run_ok(4))
  with b c have "stage_index (fst (dry_trace ! 4)) \<le> stage_index (fst (dry_trace ! Suc 4))
     \<and> stage_index (fst (dry_trace ! Suc 4)) \<le> stage_index (fst (dry_trace ! 4)) + 1
     \<and> stage_index (fst (dry_trace ! 9))
          \<le> int (length (stages (FieldConfig.crop field_dry))) - 1"
    unfolding e by blast
  moreover have "int (length (stages (FieldConfig.crop field_dry))) - 1 = 4"
    by (simp add: field_crops maize_defaults_def)
  moreover have "Suc 4 = 5" by simp
  ultimately show ?thesis using a dry_run_ok(1,3,4) by simp
qed

subsection \<open>C3: empty weather fails, otherwise one result per day\<close>

text \<open>
  Claim C3. On an empty weather series \<open>run_field\<close> raises (the subscript \<open>weather[0]\<close>
  is an \<open>IndexError\<close>) and the service wrapper raises its \<open>ValueError\<close>; neither returns a
  result. A run that returns started from the state whose soil water is
  \<open>min(120, rootzone_capacity)\<close>, was over a non-empty series, and its series holds exactly
  one record per weather day, with the days' dates in order. For a well-formed crop
  (\<open>crop_ok\<close>: at least one stage, \<open>lai_max \<ge> 0.05\<close>, non-negative growth rates, nutrient
  keys among N, P, K) the run over a non-empty series does return.
\<close>

theorem run_field_one_result_per_day:
  "run_field fld [] = Inl IndexError
   \<and> Simulator_run req display_name []
       = Inl (ValueError ''No weather data available for simulation horizon'')
   \<and> (run_field fld ws = Inr r \<longrightarrow>
         ws \<noteq> [] \<and> length (series r) = length ws
         \<and> map DayResult.date (series r) = map WeatherDay.date ws
         \<and> (\<exists>tr. run_loop fld (initial_state fld (hd ws)) ws = Inr tr
                  \<and> series r = map snd tr))
   \<and> soil_water_mm (initial_state fld w0) = min 120 (rootzone_capacity (soil fld))
   \<and> (crop_ok (FieldConfig.crop fld) \<and> ws \<noteq> [] \<longrightarrow> (\<exists>r. run_field fld ws = Inr r))"
proof (intro conjI impI)
  show "run_field fld [] = Inl IndexError" by (simp add: run_field_def)
  show "Simulator_run req display_name []
       = Inl (ValueError ''No weather data available for simulation horizon'')"
    by (simp add: Simulator_run_def)
  show "soil_water_mm (initial_state fld w0) = min 120 (rootzone_capacity (soil fld))"
    by (rule initial_state_fields(4))
  show "\<exists>r. run_field fld ws = Inr r" if "crop_ok (FieldConfig.crop fld) \<and> ws \<noteq> []"
    using that run_field_total by blast
next
  assume run: "run_field fld ws = Inr r"
  from run obtain w0' ws' tr where ws: "ws = w0' # ws'"
    and tr0: "run_loop fld (initial_state fld w0') ws = Inr tr" and s: "series r = map snd tr"
    by (rule run_fieldE) simp
  show "ws \<noteq> []" using ws by simp
  show "length (series r) = length ws" by (rule run_field_series_nonempty(2)[OF run])
  from run_loop_dates[OF tr0] show "map DayResult.date (series r) = map WeatherDay.date ws"
    by (simp add: s)
  from tr0 ws s show "\<exists>tr. run_loop fld (initial_state fld (hd ws)) ws = Inr tr
                  \<and> series r = map snd tr"
    by simp
qed

theorem run_field_one_result_per_day_witness:
  "run_field field_dry dry_weather = Inr dry_result
   \<and> crop_ok (FieldConfig.crop field_dry)
   \<and> dry_weather \<noteq> []
   \<and> length (series dry_result) = 10
   \<and> map DayResult.date (series dry_result)
       = [''2025-04-01'', ''2025-04-02'', ''2025-04-03'', ''2025-04-04'', ''2025-04-05'',
          ''2025-04-06'', ''2025-04-07'', ''2025-04-08'', ''2025-04-09'', ''2025-04-10'']"
proof -
  note t = run_field_one_result_per_day[where fld = field_dry and ws = dry_weather
      and r = dry_result]
  have ok: "crop_ok (FieldConfig.crop field_dry)" by (simp add: field_crops crop_ok_maize)
  have ne: "dry_weather \<noteq> []" using dry_weather_length by auto
  from t ok ne have "\<exists>r. run_field field_dry dry_weather = Inr r" by blast
  then have r: "run_field field_dry dry_weather = Inr dry_result"
    by (auto simp: dry_result_def)
  with t have "length (series dry_result) = length dry_weather"
    and "map DayResult.date (series dry_result) = map WeatherDay.date dry_weather"
    by blast+
  then show ?thesis using r ok ne by (simp add: dry_weather_def dry_day_def)
qed

subsection \<open>C4: the yield, the harvest date and the grade\<close>

text \<open>
  Claim C4. For every non-empty series of day results \<open>estimate_yield\<close> returns: the yield
  \<open>final.biomass * clamp(hi * (1 - sens[flower_water] * (1 - flower_min)
  - sens[grainfill_water] * (1 - grain_min)), 0.3, 1.0) / 1000\<close>, where \<open>flower_min\<close> and
  \<open>grain_min\<close> are the least water stress among the days labelled flowering and grainfill
  (1 when there is no such day) and a sensitivity missing from the map reads as 0; the
  date of the first day at an index above 0 that is labelled maturity or grainfill, or
  else the date of the last day, so in either case a date of the series; and the grade A
  when the mean of the two minima is above 0.8, B when it is above 0.6, else C. The
  harvest date of a completed run is therefore one of the dates of its weather series.
\<close>

theorem estimate_yield_spec:
  assumes ne: "ser \<noteq> []"
  shows "\<exists>y h g. estimate_yield fld ser = Inr (y, h, g)
     \<and> y = DayResult.biomass_dm_kg_ha (last ser)
            * spec_clamp (hi (FieldConfig.crop fld)
                * (1 - dict_get (stress_sensitivity (FieldConfig.crop fld)) ''flower_water'' 0
                         * (1 - spec_stage_min ser ''flowering'')
                     - dict_get (stress_sensitivity (FieldConfig.crop fld)) ''grainfill_water'' 0
                         * (1 - spec_stage_min ser ''grainfill''))) 0.3 1 / 1000
     \<and> ((\<exists>i. 0 < i \<and> i < length ser \<and> ripe (ser ! i)
              \<and> (\<forall>j. 0 < j \<and> j < i \<longrightarrow> \<not> ripe (ser ! j))
              \<and> h = DayResult.date (ser ! i))
         \<or> ((\<forall>i. 0 < i \<and> i < length ser \<longrightarrow> \<not> ripe (ser ! i))
              \<and> h = DayResult.date (last ser)))
     \<and> h \<in> set (map DayResult.date ser)
     \<and> g = spec_grade ((spec_stage_min ser ''flowering'' + spec_stage_min ser ''grainfill'') / 2)
     \<and> (\<forall>ws r. run_field fld ws = Inr r \<and> series r = ser \<longrightarrow>
            yield_t_ha r = Some y \<and> harvest_date r = Some h \<and> RunResult.grade r = Some g
            \<and> h \<in> set (map WeatherDay.date ws))"
proof -
  let ?c = "FieldConfig.crop fld"
  let ?fm = "spec_stage_min ser ''flowering''" and ?gm = "spec_stage_min ser ''grainfill''"
  let ?y = "DayResult.biomass_dm_kg_ha (last ser)
            * spec_clamp (hi ?c
                * (1 - dict_get (stress_sensitivity ?c) ''flower_water'' 0 * (1 - ?fm)
                     - dict_get (stress_sensitivity ?c) ''grainfill_water'' 0 * (1 - ?gm)))
                0.3 1 / 1000"
  let ?h = "DayResult.date (ser ! maturity_idx ser)"
  let ?g = "spec_grade ((?fm + ?gm) / 2)"
  have fm: "(if ''flowering'' \<in> stage ` set ser then stage_min ser ''flowering'' else 1) = ?fm"
    by (simp add: stage_min_spec stage_min_absent)
  have gm: "(if ''grainfill'' \<in> stage ` set ser then stage_min ser ''grainfill'' else 1) = ?gm"
    by (simp add: stage_min_spec stage_min_absent)
  have cl: "max 0.3 (min 1 v) = spec_clamp v 0.3 1" for v :: real
    by (rule spec_clamp_max_min) simp
  have e: "estimate_yield fld ser = Inr (?y, ?h, ?g)"
    unfolding estimate_yield_eq[OF ne] fm gm cl Let_def spec_grade_def ..
  note mb = maturity_idx_bound[OF ne]
  have last: "last ser = ser ! (length ser - 1)" using ne by (rule last_conv_nth)
  from maturity_idx_spec[OF ne]
  have hd: "(\<exists>i. 0 < i \<and> i < length ser \<and> ripe (ser ! i)
              \<and> (\<forall>j. 0 < j \<and> j < i \<longrightarrow> \<not> ripe (ser ! j))
              \<and> ?h = DayResult.date (ser ! i))
         \<or> ((\<forall>i. 0 < i \<and> i < length ser \<longrightarrow> \<not> ripe (ser ! i))
              \<and> ?h = DayResult.date (last ser))"
  proof (elim disjE conjE)
    assume "0 < maturity_idx ser" "maturity_idx ser < length ser" "ripe (ser ! maturity_idx ser)"
      "\<forall>j. 0 < j \<and> j < maturity_idx ser \<longrightarrow> \<not> ripe (ser ! j)"
    then show ?thesis by blast
  next
    assume "\<forall>i. 0 < i \<and> i < length ser \<longrightarrow> \<not> ripe (ser ! i)"
      "maturity_idx ser = length ser - 1"
    then show ?thesis using last by simp
  qed
  have mem: "?h \<in> set (map DayResult.date ser)" using mb by simp
  have run: "yield_t_ha r = Some ?y \<and> harvest_date r = Some ?h \<and> RunResult.grade r = Some ?g
            \<and> ?h \<in> set (map WeatherDay.date ws)"
    if "run_field fld ws = Inr r \<and> series r = ser" for ws r
  proof -
    from that have rf: "run_field fld ws = Inr r" and sr: "series r = ser" by simp_all
    from rf obtain w0 ws' tr y' h' g' where
      tr: "run_loop fld (initial_state fld w0) ws = Inr tr" and
      ey: "estimate_yield fld (map snd tr) = Inr (y', h', g')" and
      r: "r = \<lparr>RunResult.field_id = id_cfg fld, series = map snd tr, yield_t_ha = Some y',
              harvest_date = Some h', grade = Some g'\<rparr>"
      by (rule run_fieldE)
    from r sr have s: "map snd tr = ser" by simp
    from ey e have "y' = ?y" "h' = ?h" "g' = ?g" by (simp_all add: s)
    moreover from run_loop_dates[OF tr] s
    have "map DayResult.date ser = map WeatherDay.date ws" by auto
    ultimately show ?thesis using r mem by simp
  qed
  have all: "\<forall>ws r. run_field fld ws = Inr r \<and> series r = ser \<longrightarrow>
            yield_t_ha r = Some ?y \<and> harvest_date r = Some ?h \<and> RunResult.grade r = Some ?g
            \<and> ?h \<in> set (map WeatherDay.date ws)"
    using run by blast
  have "estimate_yield fld ser = Inr (?y, ?h, ?g) \<and> ?y = ?y
     \<and> ((\<exists>i. 0 < i \<and> i < length ser \<and> ripe (ser ! i)
              \<and> (\<forall>j. 0 < j \<and> j < i \<longrightarrow> \<not> ripe (ser ! j))
              \<and> ?h = DayResult.date (ser ! i))
         \<or> ((\<forall>i. 0 < i \<and> i < length ser \<longrightarrow> \<not> ripe (ser ! i))
              \<and> ?h = DayResult.date (last ser)))
     \<and> ?h \<in> set (map DayResult.date ser)
     \<and> ?g = ?g
     \<and> (\<forall>ws r. run_field fld ws = Inr r \<and> series r = ser \<longrightarrow>
            yield_t_ha r = Some ?y \<and> harvest_date r = Some ?h \<and> RunResult.grade r = Some ?g
            \<and> ?h \<in> set (map WeatherDay.date ws))"
    by (intro conjI refl e hd mem all)
  then show ?thesis by (intro exI)
qed

theorem estimate_yield_spec_witness:
  "demo_series \<noteq> []
   \<and> estimate_yield field_dry demo_series = Inr (3.744, ''2025-06-04'', ''B'')
   \<and> spec_stage_min demo_series ''flowering'' = 0.7
   \<and> spec_stage_min demo_series ''grainfill'' = 0.9"
proof -
  have ne: "demo_series \<noteq> []" by (simp add: demo_series_def)
  have fm: "spec_stage_min demo_series ''flowering'' = 0.7"
    unfolding stage_min_spec[symmetric]
    by (simp add: stage_min_def demo_series_def demo_day_def)
  have gm: "spec_stage_min demo_series ''grainfill'' = 0.9"
    unfolding stage_min_spec[symmetric]
    by (simp add: stage_min_def demo_series_def demo_day_def)
  have rp: "ripe (demo_series ! 3)" "\<not> ripe (demo_series ! 1)" "\<not> ripe (demo_series ! 2)"
    by (simp_all add: ripe_def demo_series_def demo_day_def)
  from estimate_yield_spec[OF ne, of field_dry] obtain y h g where
    e: "estimate_yield field_dry demo_series = Inr (y, h, g)" and
    y: "y = DayResult.biomass_dm_kg_ha (last demo_series)
            * spec_clamp (hi (FieldConfig.crop field_dry)
                * (1 - dict_get (stress_sensitivity (FieldConfig.crop field_dry)) ''flower_water'' 0
                         * (1 - spec_stage_min demo_series ''flowering'')
                     - dict_get (stress_sensitivity (FieldConfig.crop field_dry))
                         ''grainfill_water'' 0
                         * (1 - spec_stage_min demo_series ''grainfill''))) 0.3 1 / 1000" and
    h: "(\<exists>i. 0 < i \<and> i < length demo_series \<and> ripe (demo_series ! i)
              \<and> (\<forall>j. 0 < j \<and> j < i \<longrightarrow> \<not> ripe (demo_series ! j))
              \<and> h = DayResult.date (demo_series ! i))
         \<or> ((\<forall>i. 0 < i \<and> i < length demo_series \<longrightarrow> \<not> ripe (demo_series ! i))
              \<and> h = DayResult.date (last demo_series))" and
    g: "g = spec_grade ((spec_stage_min demo_series ''flowering''
                         + spec_stage_min demo_series ''grainfill'') / 2)"
    by blast
  have y': "y = 3.744"
    unfolding y fm gm
    by (simp add: field_crops maize_defaults_def dict_get_def spec_clamp_def demo_series_def
        demo_day_def)
  have g': "g = ''B''" unfolding g fm gm by (simp add: spec_grade_def)
  have len: "length demo_series = 5" by (simp add: demo_series_def)
  from h have h': "h = ''2025-06-04''"
  proof (elim disjE exE conjE)
    fix i assume i: "0 < i" "i < length demo_series" "ripe (demo_series ! i)"
      and least: "\<forall>j. 0 < j \<and> j < i \<longrightarrow> \<not> ripe (demo_series ! j)"
      and hh: "h = DayResult.date (demo_series ! i)"
    have "\<not> 3 < i" using least rp(1) by auto
    moreover have "i \<noteq> 1" "i \<noteq> 2" using i(3) rp(2,3) by auto
    ultimately have "i = 3" using i(1) by linarith
    then show ?thesis using hh by (simp add: demo_series_def demo_day_def)
  next
    assume "\<forall>i. 0 < i \<and> i < length demo_series \<longrightarrow> \<not> ripe (demo_series ! i)"
    then have "\<not> ripe (demo_series ! 3)" using len by simp
    then show ?thesis using rp(1) by simp
  qed
  show ?thesis using ne e y' g' h' fm gm by simp
qed

subsection \<open>C7: the crop lookup\<close>

text \<open>
  Claim C7. The lookup reads its argument only through \<open>name.lower().strip()\<close>, so two
  names with the same lower-case form get the same answer. When the normalised name is
  not a key of the catalog the lookup raises \<open>ValueError\<close>, and the message is the text
  \<open>Unsupported crop '<normalised name>'. Supported: [...]\<close> with the thirty-one keys of
  the catalog between the brackets, each in single quotes, in sorted order; no crop is
  returned by default. A crop is returned only for a key, and it is the catalog's entry
  for that key.
\<close>

theorem get_crop_defaults_lookup:
  "(lower a = lower b \<longrightarrow> get_crop_defaults a = get_crop_defaults b)
   \<and> (strip (lower nm) \<notin> set (map fst crop_map) \<longrightarrow>
        get_crop_defaults nm =
          Inl (ValueError (''Unsupported crop '' @ [CHR 0x27] @ strip (lower nm) @ [CHR 0x27]
             @ ''. Supported: ['amaranth', 'apple', 'banana', 'beans', 'broccoli', 'cabbage', 'carrot', 'cassava', 'chickpea', 'cowpea', 'cucumber', 'fava beans', 'garlic', 'grapes', 'guava', 'lemon', 'lentils', 'maize', 'mango', 'mung bean', 'okra', 'onion', 'orange', 'papaya', 'pepper', 'pineapple', 'rice', 'sorghum', 'spinach', 'tomato', 'yams']'')))
   \<and> (get_crop_defaults nm = Inr c \<longrightarrow>
        strip (lower nm) \<in> set (map fst crop_map)
        \<and> map_of crop_map (strip (lower nm)) = Some c)
   \<and> sort (map fst crop_map) =
       [''amaranth'', ''apple'', ''banana'', ''beans'', ''broccoli'', ''cabbage'', ''carrot'',
        ''cassava'', ''chickpea'', ''cowpea'', ''cucumber'', ''fava beans'', ''garlic'',
        ''grapes'', ''guava'', ''lemon'', ''lentils'', ''maize'', ''mango'', ''mung bean'',
        ''okra'', ''onion'', ''orange'', ''papaya'', ''pepper'', ''pineapple'', ''rice'',
        ''sorghum'', ''spinach'', ''tomato'', ''yams'']"
proof (intro conjI impI)
  show "get_crop_defaults a = get_crop_defaults b" if "lower a = lower b"
    using that by (simp add: get_crop_defaults_def)
  show "get_crop_defaults nm =
          Inl (ValueError (''Unsupported crop '' @ [CHR 0x27] @ strip (lower nm) @ [CHR 0x27]
             @ ''. Supported: ['amaranth', 'apple', 'banana', 'beans', 'broccoli', 'cabbage', 'carrot', 'cassava', 'chickpea', 'cowpea', 'cucumber', 'fava beans', 'garlic', 'grapes', 'guava', 'lemon', 'lentils', 'maize', 'mango', 'mung bean', 'okra', 'onion', 'orange', 'papaya', 'pepper', 'pineapple', 'rice', 'sorghum', 'spinach', 'tomato', 'yams']''))"
    if "strip (lower nm) \<notin> set (map fst crop_map)"
  proof -
    from that have n: "map_of crop_map (strip (lower nm)) = None"
      by (rule iffD2[OF map_of_None_keys])
    have "get_crop_defaults nm =
          Inl (ValueError (''Unsupported crop '' @ [CHR 0x27] @ strip (lower nm) @ [CHR 0x27]
                            @ ''. Supported: '' @ repr_str_list (sort (map fst crop_map))))"
      using n by (simp add: get_crop_defaults_def Let_def)
    then show ?thesis unfolding supported_list_repr by simp
  qed
  show "sort (map fst crop_map) =
       [''amaranth'', ''apple'', ''banana'', ''beans'', ''broccoli'', ''cabbage'', ''carrot'',
        ''cassava'', ''chickpea'', ''cowpea'', ''cucumber'', ''fava beans'', ''garlic'',
        ''grapes'', ''guava'', ''lemon'', ''lentils'', ''maize'', ''mango'', ''mung bean'',
        ''okra'', ''onion'', ''orange'', ''papaya'', ''pepper'', ''pineapple'', ''rice'',
        ''sorghum'', ''spinach'', ''tomato'', ''yams'']"
    by (rule crop_keys_sorted)
next
  assume r: "get_crop_defaults nm = Inr c"
  then have m: "map_of crop_map (strip (lower nm)) = Some c"
    by (simp add: get_crop_defaults_def Let_def split: option.splits)
  then show "map_of crop_map (strip (lower nm)) = Some c" .
  from map_of_SomeD[OF m] have "(strip (lower nm), c) \<in> set crop_map" .
  then have "fst (strip (lower nm), c) \<in> fst ` set crop_map" by (rule imageI)
  then show "strip (lower nm) \<in> set (map fst crop_map)" by simp
qed

theorem get_crop_defaults_lookup_witness:
  "lower ''  MAIZE '' = lower ''  maize ''
   \<and> get_crop_defaults ''  MAIZE '' = Inr maize_defaults
   \<and> get_crop_defaults ''  maize '' = Inr maize_defaults
   \<and> get_crop_defaults (''MaiZe'' @ [CHR 0xA0]) = Inr maize_defaults
   \<and> get_crop_defaults ([CHR 0x85] @ ''maize'') = Inr maize_defaults
   \<and> strip (lower ''  maize '') \<in> set (map fst crop_map)
   \<and> strip (lower ''Wheat'') \<notin> set (map fst crop_map)
   \<and> get_crop_defaults ''Wheat'' =
       Inl (ValueError ''Unsupported crop 'wheat'. Supported: ['amaranth', 'apple', 'banana', 'beans', 'broccoli', 'cabbage', 'carrot', 'cassava', 'chickpea', 'cowpea', 'cucumber', 'fava beans', 'garlic', 'grapes', 'guava', 'lemon', 'lentils', 'maize', 'mango', 'mung bean', 'okra', 'onion', 'orange', 'papaya', 'pepper', 'pineapple', 'rice', 'sorghum', 'spinach', 'tomato', 'yams']'')
   \<and> get_crop_defaults [CHR 0xC9, CHR ''T'', CHR 0xC9] =
       Inl (ValueError (''Unsupported crop '' @ [CHR 0x27, CHR 0xE9, CHR ''t'', CHR 0xE9, CHR 0x27]
         @ ''. Supported: ['amaranth', 'apple', 'banana', 'beans', 'broccoli', 'cabbage', 'carrot', 'cassava', 'chickpea', 'cowpea', 'cucumber', 'fava beans', 'garlic', 'grapes', 'guava', 'lemon', 'lentils', 'maize', 'mango', 'mung bean', 'okra', 'onion', 'orange', 'papaya', 'pepper', 'pineapple', 'rice', 'sorghum', 'spinach', 'tomato', 'yams']''))"
proof -
  have m: "get_crop_defaults ''  maize '' = Inr maize_defaults"
    "get_crop_defaults (''MaiZe'' @ [CHR 0xA0]) = Inr maize_defaults"
    "get_crop_defaults ([CHR 0x85] @ ''maize'') = Inr maize_defaults"
    by (simp_all only: get_crop_defaults_def lower_strip_examples Let_def crop_map_examples
        option.case)
  from get_crop_defaults_lookup[where a = "''  MAIZE ''" and b = "''  maize ''"]
    lower_strip_examples(2)
  have "get_crop_defaults ''  MAIZE '' = get_crop_defaults ''  maize ''" by blast
  moreover from get_crop_defaults_lookup[where nm = "''  maize ''" and c = maize_defaults] m(1)
  have "strip (lower ''  maize '') \<in> set (map fst crop_map)" by blast
  moreover have w: "strip (lower ''Wheat'') \<notin> set (map fst crop_map)"
    unfolding lower_strip_examples by (rule crop_map_examples(1))
  moreover from get_crop_defaults_lookup[where nm = "''Wheat''"] w
  have "get_crop_defaults ''Wheat'' =
          Inl (ValueError (''Unsupported crop '' @ [CHR 0x27] @ strip (lower ''Wheat'') @ [CHR 0x27]
             @ ''. Supported: ['amaranth', 'apple', 'banana', 'beans', 'broccoli', 'cabbage', 'carrot', 'cassava', 'chickpea', 'cowpea', 'cucumber', 'fava beans', 'garlic', 'grapes', 'guava', 'lemon', 'lentils', 'maize', 'mango', 'mung bean', 'okra', 'onion', 'orange', 'papaya', 'pepper', 'pineapple', 'rice', 'sorghum', 'spinach', 'tomato', 'yams']''))"
    by blast
  moreover have e: "strip (lower [CHR 0xC9, CHR ''T'', CHR 0xC9]) \<notin> set (map fst crop_map)"
    unfolding lower_strip_examples by (rule crop_map_examples(3))
  moreover from get_crop_defaults_lookup[where nm = "[CHR 0xC9, CHR ''T'', CHR 0xC9]"] e
  have "get_crop_defaults [CHR 0xC9, CHR ''T'', CHR 0xC9] =
          Inl (ValueError (''Unsupported crop '' @ [CHR 0x27]
             @ strip (lower [CHR 0xC9, CHR ''T'', CHR 0xC9]) @ [CHR 0x27]
             @ ''. Supported: ['amaranth', 'apple', 'banana', 'beans', 'broccoli', 'cabbage', 'carrot', 'cassava', 'chickpea', 'cowpea', 'cucumber', 'fava beans', 'garlic', 'grapes', 'guava', 'lemon', 'lentils', 'maize', 'mango', 'mung bean', 'okra', 'onion', 'orange', 'papaya', 'pepper', 'pineapple', 'rice', 'sorghum', 'spinach', 'tomato', 'yams']''))"
    by blast
  ultimately show ?thesis using m lower_strip_examples by simp
qed

subsection \<open>C5: the capacity-gated harvest plan\<close>

text \<open>
  Claim C5 says, for every task list and every storage capacity, that the plan takes the
  tasks in the order of their planned dates (ties in registration order), accepts them
  while the remaining capacity is positive, includes the task that uses the capacity up
  and drops the rest, so that the accepted yield exceeds the capacity by at most the
  yield of the last accepted task; and that the grade of an item is A exactly when its
  maturity ratio is at least 0.9. The bound fails for a negative capacity: the loop
  appends the first task before it looks at the capacity, so one task of yield 6 with a
  capacity of -5 gives a plan whose yield exceeds the capacity by 11.
\<close>

theorem negative_capacity_counterexample:
  "map PlanItem.field_id (plan_schedule manager_one (- 5)) = [''F1'']
   \<and> accepted_tasks manager_one (- 5) = [task_a]
   \<and> total_yield (accepted_tasks manager_one (- 5)) - (- 5) = 11
   \<and> expected_yield_t_ha (last (accepted_tasks manager_one (- 5))) = 6"
  by (simp add: plan_schedule_def accepted_tasks_def total_yield_def manager_one_def
      planner_one_def task_a_def plan_item_def)

text \<open>
  Claim C5 as amended: the same statement for every task list and every storage capacity
  that is not negative. The order, the greedy acceptance, the cut and the grades hold for
  every capacity; only the bound on the excess needs \<open>0 \<le> capacity\<close>. The yields summed
  are the tasks' \<open>expected_yield_t_ha\<close>, which is what the loop subtracts; an item
  reports that figure rounded to two decimals.
\<close>

theorem plan_schedule_capacity:
  "plan_schedule mgr cap = map plan_item (accepted_tasks mgr cap)
   \<and> sorted (map HarvestTask.planned_date
               (sort_key HarvestTask.planned_date (tasks (planner mgr))))
   \<and> (\<forall>day. filter (\<lambda>t. HarvestTask.planned_date t = day)
                  (sort_key HarvestTask.planned_date (tasks (planner mgr)))
             = filter (\<lambda>t. HarvestTask.planned_date t = day) (tasks (planner mgr)))
   \<and> accepted_tasks mgr cap
       = take (length (accepted_tasks mgr cap))
              (sort_key HarvestTask.planned_date (tasks (planner mgr)))
   \<and> (tasks (planner mgr) \<noteq> [] \<longrightarrow> accepted_tasks mgr cap \<noteq> [])
   \<and> (\<forall>m. 0 < m \<and> m < length (accepted_tasks mgr cap)
            \<longrightarrow> total_yield (take m (accepted_tasks mgr cap)) < cap)
   \<and> (length (accepted_tasks mgr cap) < length (tasks (planner mgr))
        \<longrightarrow> cap \<le> total_yield (accepted_tasks mgr cap))
   \<and> (0 \<le> cap \<and> accepted_tasks mgr cap \<noteq> []
        \<longrightarrow> total_yield (accepted_tasks mgr cap) - cap
              \<le> expected_yield_t_ha (last (accepted_tasks mgr cap)))
   \<and> (\<forall>i < length (plan_schedule mgr cap).
         PlanItem.grade (plan_schedule mgr cap ! i)
           = (if 0.9 \<le> PlanItem.maturity_ratio (plan_schedule mgr cap ! i) then ''A'' else ''B'')
         \<and> PlanItem.maturity_ratio (plan_schedule mgr cap ! i)
             = HarvestTask.maturity_ratio (accepted_tasks mgr cap ! i)
         \<and> PlanItem.field_id (plan_schedule mgr cap ! i)
             = HarvestTask.field_id (accepted_tasks mgr cap ! i)
         \<and> PlanItem.planned_date (plan_schedule mgr cap ! i)
             = HarvestTask.planned_date (accepted_tasks mgr cap ! i))"
proof (intro conjI allI impI)
  let ?srt = "sort_key HarvestTask.planned_date (tasks (planner mgr))"
  show pm: "plan_schedule mgr cap = map plan_item (accepted_tasks mgr cap)"
    by (simp add: plan_schedule_def accepted_tasks_def plan_loop_map)
  show "sorted (map HarvestTask.planned_date ?srt)" by (rule sorted_sort_key)
  show "filter (\<lambda>t. HarvestTask.planned_date t = day) ?srt
          = filter (\<lambda>t. HarvestTask.planned_date t = day) (tasks (planner mgr))" for day
    by (rule sort_key_stable)
  show "accepted_tasks mgr cap = take (length (accepted_tasks mgr cap)) ?srt"
    unfolding accepted_tasks_def by (rule planned_tasks_take)
  show "accepted_tasks mgr cap \<noteq> []" if "tasks (planner mgr) \<noteq> []"
  proof -
    from that have "?srt \<noteq> []" by (metis length_sort list.size(3) length_0_conv)
    then show ?thesis unfolding accepted_tasks_def by (rule planned_tasks_nonempty)
  qed
  show "total_yield (take m (accepted_tasks mgr cap)) < cap"
    if "0 < m \<and> m < length (accepted_tasks mgr cap)" for m
    using that unfolding accepted_tasks_def by (auto intro: planned_tasks_partial)
  show "cap \<le> total_yield (accepted_tasks mgr cap)"
    if "length (accepted_tasks mgr cap) < length (tasks (planner mgr))"
  proof -
    from that have "length (planned_tasks cap ?srt) < length ?srt"
      by (simp add: accepted_tasks_def)
    from planned_tasks_cut[OF this] show ?thesis by (simp add: accepted_tasks_def)
  qed
  show "total_yield (accepted_tasks mgr cap) - cap
              \<le> expected_yield_t_ha (last (accepted_tasks mgr cap))"
    if "0 \<le> cap \<and> accepted_tasks mgr cap \<noteq> []"
    using that unfolding accepted_tasks_def by (auto intro: planned_tasks_overshoot)
  show "PlanItem.grade (plan_schedule mgr cap ! i)
           = (if 0.9 \<le> PlanItem.maturity_ratio (plan_schedule mgr cap ! i) then ''A'' else ''B'')"
    if "i < length (plan_schedule mgr cap)" for i
    using that unfolding pm by (simp add: plan_item_grade(1))
  show "PlanItem.maturity_ratio (plan_schedule mgr cap ! i)
             = HarvestTask.maturity_ratio (accepted_tasks mgr cap ! i)"
    if "i < length (plan_schedule mgr cap)" for i
    using that unfolding pm by (simp add: plan_item_grade(2))
  show "PlanItem.field_id (plan_schedule mgr cap ! i)
             = HarvestTask.field_id (accepted_tasks mgr cap ! i)"
    if "i < length (plan_schedule mgr cap)" for i
    using that unfolding pm by (simp add: plan_item_def)
  show "PlanItem.planned_date (plan_schedule mgr cap ! i)
             = HarvestTask.planned_date (accepted_tasks mgr cap ! i)"
    if "i < length (plan_schedule mgr cap)" for i
    using that unfolding pm by (simp add: plan_item_def)
qed

theorem plan_schedule_capacity_witness:
  "tasks (planner manager_three) \<noteq> []
   \<and> accepted_tasks manager_three 7 = [task_b, task_a]
   \<and> plan_schedule manager_three 7 = [plan_item task_b, plan_item task_a]
   \<and> length (accepted_tasks manager_three 7) < length (tasks (planner manager_three))
   \<and> (0::real) \<le> 7
   \<and> (7::real) \<le> total_yield (accepted_tasks manager_three 7)
   \<and> total_yield (accepted_tasks manager_three 7) - 7
        \<le> expected_yield_t_ha (last (accepted_tasks manager_three 7))
   \<and> total_yield (take 1 (accepted_tasks manager_three 7)) < 7
   \<and> map PlanItem.grade (plan_schedule manager_three 7) = [''B'', ''A'']"
proof -
  have acc: "accepted_tasks manager_three 7 = [task_b, task_a]"
    by (simp add: accepted_tasks_def manager_three_def task_a_def task_b_def task_c_def)
  note t = plan_schedule_capacity[where mgr = manager_three and cap = 7]
  from t have p: "plan_schedule manager_three 7 = map plan_item (accepted_tasks manager_three 7)"
    by blast
  have ne: "tasks (planner manager_three) \<noteq> []" by (simp add: manager_three_def)
  have lt: "length (accepted_tasks manager_three 7) < length (tasks (planner manager_three))"
    unfolding acc by (simp add: manager_three_def)
  from t lt have c: "7 \<le> total_yield (accepted_tasks manager_three 7)" by blast
  have ane: "accepted_tasks manager_three 7 \<noteq> []" using t ne by blast
  have "(0::real) \<le> 7" by simp
  with t ane have o: "total_yield (accepted_tasks manager_three 7) - 7
        \<le> expected_yield_t_ha (last (accepted_tasks manager_three 7))" by blast
  have "(0::nat) < 1 \<and> 1 < length (accepted_tasks manager_three 7)" by (simp add: acc)
  with t have s: "total_yield (take 1 (accepted_tasks manager_three 7)) < 7" by blast
  have g: "map PlanItem.grade (plan_schedule manager_three 7) = [''B'', ''A'']"
    unfolding p acc by (simp add: plan_item_def is_ready_def task_a_def task_b_def)
  show ?thesis using acc p ne lt c o s g by simp
qed

subsection \<open>C10: a day is labelled with the stage it ends in\<close>



subsection \<open>C8: biomass gain, its sign, and the sign of the yield\<close>

text \<open>
  Claim C8 says that on every run with non-negative radiation the daily biomass gain is
  \<open>stage.rue * APAR * stress_w * stress_n\<close> with \<open>APAR = rad * (1 - exp(-0.65 * LAI))\<close>, so
  that biomass never decreases from one day to the next and the final yield is not
  negative. The formula holds, but the two consequences need a non-negative \<open>rue\<close> and a
  non-negative leaf-area index, which nothing in the code enforces: with \<open>rue = -1\<close> two
  dry days of radiation 18 end at biomass \<open>-18 (1 - exp(-13/400))\<close> and twice that, and
  the yield is negative.
\<close>

theorem negative_rue_counterexample:
  "map_sum id (\<lambda>r. (map DayResult.biomass_dm_kg_ha (series r), yield_t_ha r))
           (run_field negative_rue_field two_dry_days)
     = Inr ([- (18 * (1 - exp (- (13 / 400)))), - (36 * (1 - exp (- (13 / 400))))],
            Some (- (0.018 * (1 - exp (- (13 / 400))))))
   \<and> - (36 * (1 - exp (- (13 / 400)))) < - (18 * (1 - exp (- (13 / 400 :: real))))
   \<and> - (0.018 * (1 - exp (- (13 / 400 :: real)))) < 0
   \<and> map rad two_dry_days = [18, 18]"
proof -
  have "map_sum id (\<lambda>r. (map DayResult.biomass_dm_kg_ha (series r), yield_t_ha r))
           (run_field negative_rue_field two_dry_days)
     = Inr ([- (18 * (1 - exp (- (13 / 400)))), - (36 * (1 - exp (- (13 / 400))))],
            Some (- (0.018 * (1 - exp (- (13 / 400))))))"
    by (simp add: run_field_def two_dry_days_def dry_day_def negative_rue_field_def
        negative_rue_crop_def test_soil_def
        initial_state_def new_FieldState_def step_day_def py_index_def water_balance_def
        rootzone_capacity_def nutrients_def etc_from_kc_def gdd_day_def advance_stage_def
        day_result_def estimate_yield_def stage_min_def Let_def dict_get_def enumerate_eq_zip)
      (simp add: field_simps)
  moreover have "- (36 * (1 - exp (- (13 / 400)))) < - (18 * (1 - exp (- (13 / 400 :: real))))"
    "- (0.018 * (1 - exp (- (13 / 400 :: real)))) < 0"
    by simp_all
  moreover have "map rad two_dry_days = [18, 18]" by (simp add: two_dry_days_def dry_day_def)
  ultimately show ?thesis by blast
qed

text \<open>
  Claim C8 as amended. In every completed run the biomass gained on a day is the
  \<open>rue\<close> of the stage the day began in, times \<open>rad * (1 - exp(-0.65 * LAI))\<close> at the
  day's updated leaf-area index, times the day's water and nitrogen stress. When moreover
  every stage of the crop has \<open>rue \<ge> 0\<close> and \<open>lai_gain \<ge> 0\<close>, \<open>lai_max \<ge> 0.05\<close>, and every
  weather day has \<open>rad \<ge> 0\<close>, the biomass of the first day is not negative, the biomass
  never decreases from one day's record to the next, and the yield is not negative.
\<close>

theorem biomass_gain_and_yield_sign:
  assumes run: "run_field fld ws = Inr r"
  shows "\<exists>tr. run_loop fld (initial_state fld (hd ws)) ws = Inr tr \<and> series r = map snd tr
     \<and> (\<forall>i < length tr.
           DayResult.biomass_dm_kg_ha (series r ! i) = biomass_dm_kg_ha (fst (tr ! i))
           \<and> DayResult.lai (series r ! i) = lai (fst (tr ! i))
           \<and> DayResult.stress_w (series r ! i) = stress_w (fst (tr ! i))
           \<and> DayResult.stress_n (series r ! i) = stress_n (fst (tr ! i))
           \<and> biomass_dm_kg_ha (fst (tr ! i))
               = biomass_dm_kg_ha (if i = 0 then initial_state fld (hd ws) else fst (tr ! (i - 1)))
                 + rue (stages (FieldConfig.crop fld)
                          ! nat (stage_index (if i = 0 then initial_state fld (hd ws)
                                              else fst (tr ! (i - 1)))))
                     * (rad (ws ! i) * (1 - exp (- 0.65 * lai (fst (tr ! i)))))
                     * stress_w (fst (tr ! i)) * stress_n (fst (tr ! i)))
     \<and> biomass_dm_kg_ha (initial_state fld (hd ws)) = 0
     \<and> (0.05 \<le> lai_max (FieldConfig.crop fld)
          \<and> (\<forall>s \<in> set (stages (FieldConfig.crop fld)). 0 \<le> lai_gain s \<and> 0 \<le> rue s)
          \<and> (\<forall>w \<in> set ws. 0 \<le> rad w)
         \<longrightarrow> 0 \<le> DayResult.biomass_dm_kg_ha (series r ! 0)
             \<and> (\<forall>i. Suc i < length (series r) \<longrightarrow>
                    DayResult.biomass_dm_kg_ha (series r ! i)
                      \<le> DayResult.biomass_dm_kg_ha (series r ! Suc i))
             \<and> (\<exists>y. yield_t_ha r = Some y \<and> 0 \<le> y))"
proof -
  let ?c = "FieldConfig.crop fld"
  let ?s0 = "initial_state fld (hd ws)"
  from run obtain w0 ws' tr y hdate g where ws: "ws = w0 # ws'"
    and tr0: "run_loop fld (initial_state fld w0) ws = Inr tr"
    and ey: "estimate_yield fld (map snd tr) = Inr (y, hdate, g)"
    and r: "r = \<lparr>RunResult.field_id = id_cfg fld, series = map snd tr, yield_t_ha = Some y,
              harvest_date = Some hdate, grade = Some g\<rparr>"
    by (rule run_fieldE)
  from tr0 ws have tr: "run_loop fld ?s0 ws = Inr tr" by simp
  from r have s: "series r = map snd tr" and yr: "yield_t_ha r = Some y" by simp_all
  note len = run_loop_length[OF tr]
  have ne: "tr \<noteq> []" using len ws by auto
  let ?prev = "\<lambda>i. if i = 0 then ?s0 else fst (tr ! (i - 1))"
  have day: "DayResult.biomass_dm_kg_ha (series r ! i) = biomass_dm_kg_ha (fst (tr ! i))
           \<and> DayResult.lai (series r ! i) = lai (fst (tr ! i))
           \<and> DayResult.stress_w (series r ! i) = stress_w (fst (tr ! i))
           \<and> DayResult.stress_n (series r ! i) = stress_n (fst (tr ! i))
           \<and> biomass_dm_kg_ha (fst (tr ! i))
               = biomass_dm_kg_ha (?prev i)
                 + rue (stages ?c ! nat (stage_index (?prev i)))
                     * (rad (ws ! i) * (1 - exp (- 0.65 * lai (fst (tr ! i)))))
                     * stress_w (fst (tr ! i)) * stress_n (fst (tr ! i))"
    if i: "i < length tr" for i
  proof -
    from run_loop_chain[OF tr i] have sd: "step_day fld (?prev i) (ws ! i) = Inr (fst (tr ! i))"
      and dr: "day_result fld (fst (tr ! i)) (ws ! i) = Inr (snd (tr ! i))"
      by simp_all
    have st0: "0 \<le> stage_index ?s0" by (simp add: initial_state_fields)
    have stp: "0 \<le> stage_index s'"
      if "0 \<le> stage_index s1" "w \<in> set ws" "step_day fld s1 w = Inr s'" for s1 w s'
      using step_day_index(1)[OF that(3)] that(1) by simp
    have nn: "0 \<le> stage_index (?prev i)"
      by (rule run_loop_invariant_mem(2)[where P = "\<lambda>s. 0 \<le> stage_index s", OF tr st0 stp i])
    from sd obtain stg where
      idx: "py_index (stages ?c) (stage_index (?prev i)) = Inr stg" and
      b: "biomass_dm_kg_ha (fst (tr ! i)) = biomass_dm_kg_ha (?prev i)
          + rue stg * (rad (ws ! i) * (1 - exp (- 0.65 * lai (fst (tr ! i)))))
              * stress_w (fst (tr ! i)) * stress_n (fst (tr ! i))"
      by (rule step_day_fields)
    from py_index_nonneg[OF nn py_index_Inr(2)[OF idx]] idx
    have "stg = stages ?c ! nat (stage_index (?prev i))" by simp
    with b day_result_fields(2,3,5,6)[OF dr] i show ?thesis by (simp add: s)
  qed
  have part2: "0 \<le> DayResult.biomass_dm_kg_ha (series r ! 0)
             \<and> (\<forall>i. Suc i < length (series r) \<longrightarrow>
                    DayResult.biomass_dm_kg_ha (series r ! i)
                      \<le> DayResult.biomass_dm_kg_ha (series r ! Suc i))
             \<and> (\<exists>y. yield_t_ha r = Some y \<and> 0 \<le> y)"
    if h: "0.05 \<le> lai_max ?c
          \<and> (\<forall>s \<in> set (stages ?c). 0 \<le> lai_gain s \<and> 0 \<le> rue s)
          \<and> (\<forall>w \<in> set ws. 0 \<le> rad w)"
  proof -
    from h have lm: "0.05 \<le> lai_max ?c" and gain: "\<forall>s \<in> set (stages ?c). 0 \<le> lai_gain s"
      and rue: "\<forall>s \<in> set (stages ?c). 0 \<le> rue s" and rad: "\<forall>w \<in> set ws. 0 \<le> rad w"
      by blast+
    let ?P = "\<lambda>s. (0 \<le> lai s \<and> lai s \<le> lai_max ?c) \<and> 0 \<le> biomass_dm_kg_ha s"
    have P0: "?P ?s0" using lm by (simp add: initial_state_fields)
    have step: "?P s'" if "?P s1" "w \<in> set ws" "step_day fld s1 w = Inr s'" for s1 w s'
    proof -
      from that(1) have inv: "0 \<le> lai s1 \<and> lai s1 \<le> lai_max ?c"
        and b1: "0 \<le> biomass_dm_kg_ha s1" by simp_all
      from that(2) rad have rw: "0 \<le> rad w" by blast
      from step_day_lai_inv[OF that(3) lm gain inv]
        step_day_biomass_mono[OF that(3) lm gain rue rw inv] b1
      show ?thesis by simp
    qed
    have mono: "biomass_dm_kg_ha (?prev i) \<le> biomass_dm_kg_ha (fst (tr ! i))
                \<and> 0 \<le> biomass_dm_kg_ha (fst (tr ! i))"
      if i: "i < length tr" for i
    proof -
      from run_loop_chain[OF tr i] have sd: "step_day fld (?prev i) (ws ! i) = Inr (fst (tr ! i))"
        by simp
      have Pp: "?P (?prev i)"
        by (rule run_loop_invariant_mem(2)[where P = ?P, OF tr P0 step i])
      have Pc: "?P (fst (tr ! i))"
        by (rule run_loop_invariant_mem(1)[where P = ?P, OF tr P0 step i])
      have "ws ! i \<in> set ws" using i len by simp
      with rad have rw: "0 \<le> rad (ws ! i)" by blast
      from step_day_biomass_mono[OF sd lm gain rue rw conjunct1[OF Pp]] Pc
      show ?thesis by simp
    qed
    have l0: "0 < length tr" using ne by simp
    have a: "0 \<le> DayResult.biomass_dm_kg_ha (series r ! 0)"
      using mono[OF l0] day[OF l0] by simp
    have b: "\<forall>i. Suc i < length (series r) \<longrightarrow>
                    DayResult.biomass_dm_kg_ha (series r ! i)
                      \<le> DayResult.biomass_dm_kg_ha (series r ! Suc i)"
    proof (intro allI impI)
      fix i assume "Suc i < length (series r)"
      then have i1: "Suc i < length tr" and i0: "i < length tr" by (simp_all add: s)
      from mono[OF i1] day[OF i1] day[OF i0]
      show "DayResult.biomass_dm_kg_ha (series r ! i)
              \<le> DayResult.biomass_dm_kg_ha (series r ! Suc i)"
        by simp
    qed
    have sne: "map snd tr \<noteq> []" using ne by simp
    have lastb: "0 \<le> DayResult.biomass_dm_kg_ha (last (map snd tr))"
    proof -
      have li: "length tr - 1 < length tr" using ne by simp
      have "last (map snd tr) = series r ! (length tr - 1)"
        using sne by (simp add: s last_conv_nth)
      then show ?thesis using mono[OF li] day[OF li] by simp
    qed
    from estimate_yield_nonneg[OF ey lastb] have "0 \<le> y" .
    with yr a b show ?thesis by blast
  qed
  have b0: "biomass_dm_kg_ha ?s0 = 0" by (rule initial_state_fields(3))
  show ?thesis
    using tr s day part2 b0 by blast
qed

theorem biomass_gain_and_yield_sign_witness:
  "run_field field_dry dry_weather = Inr dry_result
   \<and> 0.05 \<le> lai_max (FieldConfig.crop field_dry)
   \<and> list_all (\<lambda>s. 0 \<le> lai_gain s \<and> 0 \<le> rue s) (stages (FieldConfig.crop field_dry))
   \<and> list_all (\<lambda>w. 0 \<le> rad w) dry_weather
   \<and> biomass_dm_kg_ha (fst (dry_trace ! 0))
       = 0 + 0.8 * (18 * (1 - exp (- 0.65 * lai (fst (dry_trace ! 0)))))
               * stress_w (fst (dry_trace ! 0)) * stress_n (fst (dry_trace ! 0))
   \<and> 0 \<le> DayResult.biomass_dm_kg_ha (series dry_result ! 0)
   \<and> DayResult.biomass_dm_kg_ha (series dry_result ! 0)
        \<le> DayResult.biomass_dm_kg_ha (series dry_result ! 1)
   \<and> DayResult.biomass_dm_kg_ha (series dry_result ! 8)
        \<le> DayResult.biomass_dm_kg_ha (series dry_result ! 9)
   \<and> 0 \<le> the (yield_t_ha dry_result)"
proof -
  have lm: "0.05 \<le> lai_max (FieldConfig.crop field_dry)"
    using maize_lai_params(1) by (simp add: field_crops)
  have st: "\<forall>s \<in> set (stages (FieldConfig.crop field_dry)). 0 \<le> lai_gain s \<and> 0 \<le> rue s"
    using maize_lai_params(2) maize_rue_params by (simp add: field_crops)
  have rd: "\<forall>w \<in> set dry_weather. 0 \<le> rad w" using dry_weather_mem(4) by simp
  from biomass_gain_and_yield_sign[OF dry_run_ok(1)] obtain tr where
    tr: "run_loop field_dry (initial_state field_dry (hd dry_weather)) dry_weather = Inr tr"
    and day: "\<forall>i < length tr.
           DayResult.biomass_dm_kg_ha (series dry_result ! i) = biomass_dm_kg_ha (fst (tr ! i))
           \<and> DayResult.lai (series dry_result ! i) = lai (fst (tr ! i))
           \<and> DayResult.stress_w (series dry_result ! i) = stress_w (fst (tr ! i))
           \<and> DayResult.stress_n (series dry_result ! i) = stress_n (fst (tr ! i))
           \<and> biomass_dm_kg_ha (fst (tr ! i))
               = biomass_dm_kg_ha (if i = 0 then initial_state field_dry (hd dry_weather)
                                   else fst (tr ! (i - 1)))
                 + rue (stages (FieldConfig.crop field_dry)
                          ! nat (stage_index (if i = 0 then initial_state field_dry (hd dry_weather)
                                              else fst (tr ! (i - 1)))))
                     * (rad (dry_weather ! i) * (1 - exp (- 0.65 * lai (fst (tr ! i)))))
                     * stress_w (fst (tr ! i)) * stress_n (fst (tr ! i))"
    and b0: "biomass_dm_kg_ha (initial_state field_dry (hd dry_weather)) = 0"
    and cond: "0.05 \<le> lai_max (FieldConfig.crop field_dry)
          \<and> (\<forall>s \<in> set (stages (FieldConfig.crop field_dry)). 0 \<le> lai_gain s \<and> 0 \<le> rue s)
          \<and> (\<forall>w \<in> set dry_weather. 0 \<le> rad w)
         \<longrightarrow> 0 \<le> DayResult.biomass_dm_kg_ha (series dry_result ! 0)
             \<and> (\<forall>i. Suc i < length (series dry_result) \<longrightarrow>
                    DayResult.biomass_dm_kg_ha (series dry_result ! i)
                      \<le> DayResult.biomass_dm_kg_ha (series dry_result ! Suc i))
             \<and> (\<exists>y. yield_t_ha dry_result = Some y \<and> 0 \<le> y)"
    by blast
  from tr dry_run_ok(2) have e: "tr = dry_trace" by simp
  have l0: "0 < length tr" by (simp add: e dry_run_ok(4))
  from day l0 have "biomass_dm_kg_ha (fst (tr ! 0))
               = biomass_dm_kg_ha (initial_state field_dry (hd dry_weather))
                 + rue (stages (FieldConfig.crop field_dry)
                          ! nat (stage_index (initial_state field_dry (hd dry_weather))))
                     * (rad (dry_weather ! 0) * (1 - exp (- 0.65 * lai (fst (tr ! 0)))))
                     * stress_w (fst (tr ! 0)) * stress_n (fst (tr ! 0))"
    by auto
  moreover have "rue (stages (FieldConfig.crop field_dry)
                   ! nat (stage_index (initial_state field_dry (hd dry_weather)))) = 0.8"
    by (simp add: initial_state_fields field_crops maize_defaults_def)
  moreover have "rad (dry_weather ! 0) = 18" by (rule dry_weather_nth(4)) simp
  ultimately have f: "biomass_dm_kg_ha (fst (dry_trace ! 0))
       = 0 + 0.8 * (18 * (1 - exp (- 0.65 * lai (fst (dry_trace ! 0)))))
               * stress_w (fst (dry_trace ! 0)) * stress_n (fst (dry_trace ! 0))"
    using b0 unfolding e by simp
  from cond lm st rd have a: "0 \<le> DayResult.biomass_dm_kg_ha (series dry_result ! 0)"
    and m: "\<forall>i. Suc i < length (series dry_result) \<longrightarrow>
                    DayResult.biomass_dm_kg_ha (series dry_result ! i)
                      \<le> DayResult.biomass_dm_kg_ha (series dry_result ! Suc i)"
    and y: "\<exists>y. yield_t_ha dry_result = Some y \<and> 0 \<le> y"
    by blast+
  have len: "length (series dry_result) = 10" by (simp add: dry_run_ok(4,5))
  have "Suc 0 < length (series dry_result)" "Suc 8 < length (series dry_result)"
    by (simp_all add: len)
  with m have m1: "DayResult.biomass_dm_kg_ha (series dry_result ! 0)
        \<le> DayResult.biomass_dm_kg_ha (series dry_result ! Suc 0)"
    and m2: "DayResult.biomass_dm_kg_ha (series dry_result ! 8)
        \<le> DayResult.biomass_dm_kg_ha (series dry_result ! Suc 8)"
    by blast+
  have s1: "Suc 0 = 1" "Suc 8 = 9" by simp_all
  from y have y0: "0 \<le> the (yield_t_ha dry_result)" by auto
  have la: "list_all (\<lambda>s. 0 \<le> lai_gain s \<and> 0 \<le> rue s) (stages (FieldConfig.crop field_dry))"
    using st by (simp add: list_all_iff)
  have lw: "list_all (\<lambda>w. 0 \<le> rad w) dry_weather" using rd by (simp add: list_all_iff)
  show ?thesis using dry_run_ok(1) lm la lw f a m1 m2 y0 unfolding s1 by blast
qed

end
